theory Spec2Isabelle
  imports Main "HOL-Library.Word"
begin

section \<open>The N-body system on CUDA devices: \<^verbatim>\<open>bodysystemcuda_impl.h\<close>\<close>

text \<open>
  A shallow embedding of \<^verbatim>\<open>BodySystemCUDA<T>\<close>. The object's members and the platform
  it runs against (CUDA runtime, OpenGL, host heap) are one explicit state; every member
  function takes the state and returns either an error or the new state.

  \<^item> \<^verbatim>\<open>unsigned int\<close> values are \<open>32 word\<close>: \<open>+\<close>, \<open>-\<close>, \<open>*\<close> wrap, \<open>div\<close> and \<open><\<close> are
    unsigned.
  \<^item> \<^verbatim>\<open>size_t\<close> byte counts are \<open>nat\<close>: they stay below \<open>2 ^ 32 * sizeof(T)\<close>, far from
    the 64-bit limit.
  \<^item> Values of the scalar type \<^verbatim>\<open>T\<close> are symbolic (\<open>scalar\<close>): their rounding is not
    interpreted.
  \<^item> The \<^verbatim>\<open>float\<close> arithmetic of the device weights and shares (lines 95, 96 and 105) is a
    parameter of the platform; its IEEE 754 single-precision value is \<open>float32_share\<close>, and
    the statements about the shares are made for platforms that compute it.
\<close>

type_synonym u32 = "32 word"
type_synonym byte = "8 word"

subsection \<open>Errors\<close>

text \<open>
  \<open>AssertionFailed\<close>: an \<^verbatim>\<open>assert\<close> of the source does not hold.
  \<open>CudaFailure\<close>: \<^verbatim>\<open>checkCudaErrors\<close> received a result other than \<^verbatim>\<open>cudaSuccess\<close> and ended
  the process. \<open>UndefinedBehaviour\<close>: the source indexes an array outside its bounds, or
  hands \<^verbatim>\<open>memcpy\<close>/\<^verbatim>\<open>memset\<close> a pointer that does not hold that many bytes.
\<close>

datatype error = AssertionFailed | CudaFailure | UndefinedBehaviour

definition bindE :: "error + 'a \<Rightarrow> ('a \<Rightarrow> error + 'b) \<Rightarrow> error + 'b" where
  "bindE m f = (case m of Inl e \<Rightarrow> Inl e | Inr x \<Rightarrow> f x)"

definition elem_at :: "'a list \<Rightarrow> nat \<Rightarrow> error + 'a" where
  \<comment> \<open>\<^verbatim>\<open>xs[i]\<close> of a C array: outside the bounds the behaviour is undefined.\<close>
  "elem_at xs i = (if i < length xs then Inr (xs ! i) else Inl UndefinedBehaviour)"

definition index2 :: "'a \<times> 'a \<Rightarrow> u32 \<Rightarrow> error + 'a" where
  \<comment> \<open>\<^verbatim>\<open>a[i]\<close> of an array of two elements, a pair here\<close>
  "index2 a i = (if i = 0 then Inr (fst a) else if i = 1 then Inr (snd a) else Inl UndefinedBehaviour)"

definition update2 :: "'a \<times> 'a \<Rightarrow> u32 \<Rightarrow> 'a \<Rightarrow> error + 'a \<times> 'a" where
  \<comment> \<open>\<^verbatim>\<open>a[i] = x\<close> for such an array\<close>
  "update2 a i x = (if i = 0 then Inr (x, snd a) else if i = 1 then Inr (fst a, x) else Inl UndefinedBehaviour)"

fun forE :: "nat list \<Rightarrow> (nat \<Rightarrow> 's \<Rightarrow> error + 's) \<Rightarrow> 's \<Rightarrow> error + 's" where
  \<comment> \<open>A \<^verbatim>\<open>for\<close> loop over the given indices; the first error ends it.\<close>
  "forE [] body s = Inr s"
| "forE (i # is) body s = bindE (body i s) (forE is body)"

subsection \<open>Handles and device slots\<close>

text \<open>
  A pointer, an OpenGL buffer name, a graphics resource or an event is a handle: \<open>Null\<close>
  (the value 0), \<open>Undef\<close> (never assigned: the members of a \<^verbatim>\<open>DeviceData\<close> made by
  \<^verbatim>\<open>new[]\<close>, \<^verbatim>\<open>m_pbo\<close> and \<^verbatim>\<open>m_pGRes\<close> before \<^verbatim>\<open>_initialize\<close> fills them), or the object
  numbered \<open>n\<close> of the platform. The code never does pointer arithmetic.
\<close>

datatype handle = Null | Undef | Obj nat

text \<open>
  Modelled from the spec: \<^verbatim>\<open>DeviceData<T>\<close> is declared in \<^verbatim>\<open>bodysystemcuda.h\<close>, which
  is not among the sources. The fields are the ones \<^verbatim>\<open>bodysystemcuda_impl.h\<close> reads and
  writes: the two position buffers, the velocity buffer, the event, and the body range
  (\<open>offset\<close>, \<open>numBodies\<close>; the spec's "bodyOffset, bodyRange: unsigned integer").
\<close>

record DeviceData =
  dPos :: "handle \<times> handle"
  dVel :: handle
  event :: handle
  offset :: u32
  numBodies :: u32

definition fresh_DeviceData :: DeviceData where
  \<comment> \<open>An element of \<^verbatim>\<open>new DeviceData<T>[n]\<close>: no member is assigned. \<open>offset\<close> and
      \<open>numBodies\<close> are written by the partition loop before anything reads them.\<close>
  "fresh_DeviceData = \<lparr>dPos = (Undef, Undef), dVel = Undef, event = Undef, offset = 0, numBodies = 0\<rparr>"

subsection \<open>The device partitioner (\<^verbatim>\<open>_initialize\<close>, lines 100 to 127)\<close>

definition round_up :: "u32 \<Rightarrow> u32 \<Rightarrow> u32" where
  \<comment> \<open>\<^verbatim>\<open>round * ((count + round - 1) / round)\<close>\<close>
  "round_up round count = round * ((count + round - 1) div round)"

text \<open>
  One pass of the loop body for device \<open>i\<close>, on the loop's variables \<open>offset\<close> and
  \<open>remaining\<close> and the slot table. \<open>share i\<close> is the value of
  \<^verbatim>\<open>(int)((weights[i] / total) * m_numBodies)\<close> converted to \<^verbatim>\<open>unsigned int\<close>: a \<^verbatim>\<open>float\<close>
  computation, taken as a parameter.
\<close>

definition partition_body ::
  "(nat \<Rightarrow> u32) \<Rightarrow> u32 \<Rightarrow> u32 \<Rightarrow> nat \<Rightarrow> u32 \<times> u32 \<times> DeviceData list
     \<Rightarrow> error + (u32 \<times> u32 \<times> DeviceData list)" where
  "partition_body share m_numBodies m_numDevices i st =
     (case st of (offset0, remaining0, dd0) \<Rightarrow>
        let count0 = share i;
            round = 256;
            count1 = round_up round count0;
            count2 = (if count1 > remaining0 then remaining0 else count1);
            remaining1 = remaining0 - count2
        in if i < length dd0 then
             let dd1 = dd0[i := (dd0 ! i)\<lparr>offset := offset0, numBodies := count2\<rparr>];
                 offset1 = offset0 + count2;
                 dd2 = (if of_nat i = m_numDevices - 1 \<and> offset1 < m_numBodies - 1
                        then dd1[i := (dd1 ! i)\<lparr>numBodies := numBodies (dd1 ! i) + (m_numBodies - offset1)\<rparr>]
                        else dd1)
             in Inr (offset1, remaining1, dd2)
           else Inl UndefinedBehaviour)"

definition partition_devices :: "(nat \<Rightarrow> u32) \<Rightarrow> u32 \<Rightarrow> u32 \<Rightarrow> error + DeviceData list" where
  \<comment> \<open>Line 79 and lines 100 to 127: the fresh slot table, \<^verbatim>\<open>offset = 0\<close>,
      \<^verbatim>\<open>remaining = m_numBodies\<close>, then the loop over the devices.\<close>
  "partition_devices share m_numBodies m_numDevices =
     bindE (forE [0..<unat m_numDevices] (partition_body share m_numBodies m_numDevices)
              (0, m_numBodies, replicate (unat m_numDevices) fresh_DeviceData))
       (\<lambda>(offset1, remaining1, dd). Inr dd)"

subsection \<open>The platform: CUDA runtime, OpenGL and the host heap\<close>

text \<open>
  The calls the class makes into the CUDA runtime, OpenGL and the C library, with the
  arguments that matter here. The platform state keeps the list of calls made so far.
\<close>

datatype cudaError = cudaSuccess | cudaErrorPeerAccessAlreadyEnabled | cudaErrorOther

datatype mapflags = cudaGraphicsMapFlagsNone | cudaGraphicsMapFlagsReadOnly

datatype scalar =
    FloatLiteral string  \<comment> \<open>a \<^verbatim>\<open>float\<close> literal of the source, converted to \<^verbatim>\<open>T\<close>\<close>
  | Times scalar scalar  \<comment> \<open>the product in \<^verbatim>\<open>T\<close>\<close>
  | CastFloat scalar     \<comment> \<open>\<^verbatim>\<open>(float)x\<close>\<close>
  | Indeterminate        \<comment> \<open>a member never assigned\<close>

record cudaDeviceProp =
  multiProcessorCount :: int
  major :: int

datatype api =
    CudaGetDeviceProperties nat
  | CudaHostAlloc nat
  | CudaHostGetDevicePointer handle
  | CudaSetDevice int
  | CudaEventCreate
  | CudaMalloc nat
  | CudaGraphicsGLRegisterBuffer handle mapflags
  | CudaDeviceEnablePeerAccess nat
  | CudaGetLastError
  | CudaFreeHost handle
  | CudaFree handle
  | CudaEventDestroy handle
  | CudaGraphicsUnregisterResource handle
  | CudaGraphicsResourceSetMapFlags handle mapflags
  | CudaGraphicsMapResources handle
  | CudaGraphicsResourceGetMappedPointer handle
  | CudaGraphicsUnmapResources handle
  | CudaMemcpyDeviceToHost handle handle nat
  | CudaMemcpyHostToDevice handle nat
  | SetSofteningSquared scalar
  | GlGenBuffers
  | GlBindBuffer handle
  | GlBufferData nat
  | GlBufferSubData nat nat
  | GlGetBufferParameteriv
  | GlDeleteBuffers "handle list"
  | HostMemcpy handle nat
  | HostMemset handle nat
  | NewArray nat
  | DeleteArray handle
  | Fprintf string

text \<open>
  Memory is a store of buffers, each a list of bytes; a byte that was never written is
  \<open>None\<close>. A pointer to a buffer, the name of an OpenGL buffer and the device pointer
  that aliases either are the same handle. \<open>glArrayBuffer\<close> is the binding of
  \<^verbatim>\<open>GL_ARRAY_BUFFER\<close>, \<open>glRegistered\<close> the OpenGL buffer behind each graphics resource,
  \<open>mapped\<close> the resources mapped at present.
\<close>

type_synonym cell = "byte option"

record world =
  store :: "nat \<Rightarrow> cell list option"
  nextObj :: nat
  glArrayBuffer :: handle
  glRegistered :: "nat \<Rightarrow> handle option"
  mapped :: "nat set"
  calls :: "api list"

text \<open>
  What the class cannot decide is a parameter: the size of \<^verbatim>\<open>T\<close>, the result of every
  runtime call, the properties of each device, the \<^verbatim>\<open>float\<close> computation of a device's share
  (from the weights, whose sum in index order is \<^verbatim>\<open>total\<close>, the body count and the device
  index), whether OpenGL can allocate a buffer of a given size, and the integration routine
  \<^verbatim>\<open>integrateNbodySystem\<close> (declared at lines 24 to 29, defined elsewhere). The routine
  receives the slot table and the resource array by pointer and everything else by value,
  so it may change those two and the platform state, and it may fail.
\<close>

record platform =
  sizeof_T :: nat
  cudaResult :: "api \<Rightarrow> cudaError"
  deviceProp :: "nat \<Rightarrow> cudaDeviceProp"
  float_share :: "int list \<Rightarrow> u32 \<Rightarrow> nat \<Rightarrow> u32"
  glOutOfMemory :: "nat \<Rightarrow> bool"
  integrateNbodySystem ::
    "DeviceData list \<Rightarrow> handle \<times> handle \<Rightarrow> u32 \<Rightarrow> scalar \<Rightarrow> scalar \<Rightarrow> u32 \<Rightarrow> u32 \<Rightarrow> u32 \<Rightarrow> bool
       \<Rightarrow> world \<Rightarrow> error + (DeviceData list \<times> (handle \<times> handle) \<times> world)"

definition call :: "api \<Rightarrow> world \<Rightarrow> world" where
  "call c w = w\<lparr>calls := calls w @ [c]\<rparr>"

definition checkCudaErrors :: "cudaError \<Rightarrow> 'a \<Rightarrow> error + 'a" where
  \<comment> \<open>Modelled from the spec: the macro \<^verbatim>\<open>checkCudaErrors\<close> of \<^verbatim>\<open>helper_cuda.h\<close> is not
      among the sources. "The failure model is fail-fast (abort) on any underlying
      platform error": a result other than \<^verbatim>\<open>cudaSuccess\<close> ends the process; otherwise
      execution goes on, here with \<open>x\<close>.\<close>
  "checkCudaErrors e x = (if e = cudaSuccess then Inr x else Inl CudaFailure)"

definition cuda_call :: "platform \<Rightarrow> api \<Rightarrow> world \<Rightarrow> error + world" where
  \<comment> \<open>\<^verbatim>\<open>checkCudaErrors(c)\<close> for a runtime call \<open>c\<close>\<close>
  "cuda_call P c w = checkCudaErrors (cudaResult P c) (call c w)"

definition allocate :: "nat \<Rightarrow> world \<Rightarrow> handle \<times> world" where
  \<comment> \<open>a new buffer of \<open>n\<close> bytes, none of them written\<close>
  "allocate n w =
     (Obj (nextObj w),
      w\<lparr>store := (store w)(nextObj w := Some (replicate n None)), nextObj := Suc (nextObj w)\<rparr>)"

definition new_handle :: "world \<Rightarrow> handle \<times> world" where
  \<comment> \<open>a new object without memory of its own: an event, a buffer name, a resource\<close>
  "new_handle w = (Obj (nextObj w), w\<lparr>nextObj := Suc (nextObj w)\<rparr>)"

definition buffer :: "world \<Rightarrow> handle \<Rightarrow> cell list option" where
  "buffer w h = (case h of Obj n \<Rightarrow> store w n | _ \<Rightarrow> None)"

definition read_bytes :: "handle \<Rightarrow> nat \<Rightarrow> world \<Rightarrow> error + cell list" where
  "read_bytes h n w =
     (case buffer w h of
        Some buf \<Rightarrow> if n \<le> length buf then Inr (take n buf) else Inl UndefinedBehaviour
      | None \<Rightarrow> Inl UndefinedBehaviour)"

definition write_bytes :: "handle \<Rightarrow> cell list \<Rightarrow> world \<Rightarrow> error + world" where
  \<comment> \<open>overwrite the first \<open>length src\<close> bytes of the buffer\<close>
  "write_bytes h src w =
     (case h of
        Obj n \<Rightarrow>
          (case store w n of
             Some buf \<Rightarrow>
               if length src \<le> length buf
               then Inr (w\<lparr>store := (store w)(n := Some (src @ drop (length src) buf))\<rparr>)
               else Inl UndefinedBehaviour
           | None \<Rightarrow> Inl UndefinedBehaviour)
      | _ \<Rightarrow> Inl UndefinedBehaviour)"

definition release :: "handle \<Rightarrow> world \<Rightarrow> world" where
  "release h w = (case h of Obj n \<Rightarrow> w\<lparr>store := (store w)(n := None)\<rparr> | _ \<Rightarrow> w)"

subsubsection \<open>Host heap and C library\<close>

definition new_array :: "nat \<Rightarrow> world \<Rightarrow> handle \<times> world" where
  "new_array n w = allocate n (call (NewArray n) w)"

definition delete_array :: "handle \<Rightarrow> world \<Rightarrow> error + world" where
  \<comment> \<open>\<^verbatim>\<open>delete []\<close> of a null pointer does nothing; of anything but a live array it is
      undefined\<close>
  "delete_array h w =
     (case h of
        Null \<Rightarrow> Inr (call (DeleteArray h) w)
      | Undef \<Rightarrow> Inl UndefinedBehaviour
      | Obj n \<Rightarrow> if store w n = None then Inl UndefinedBehaviour
                  else Inr (release h (call (DeleteArray h) w)))"

definition memset_zero :: "handle \<Rightarrow> nat \<Rightarrow> world \<Rightarrow> error + world" where
  "memset_zero h n w = write_bytes h (replicate n (Some 0)) (call (HostMemset h n) w)"

definition memcpy :: "handle \<Rightarrow> byte list \<Rightarrow> nat \<Rightarrow> world \<Rightarrow> error + world" where
  \<comment> \<open>\<open>n\<close> bytes of the caller's array \<open>data\<close> to the buffer \<open>dst\<close>\<close>
  "memcpy dst data n w =
     (if n \<le> length data
      then write_bytes dst (map Some (take n data)) (call (HostMemcpy dst n) w)
      else Inl UndefinedBehaviour)"

definition fprintf :: "string \<Rightarrow> world \<Rightarrow> world" where
  "fprintf msg w = call (Fprintf msg) w"

subsubsection \<open>CUDA runtime\<close>

definition cudaGetDeviceProperties :: "platform \<Rightarrow> nat \<Rightarrow> world \<Rightarrow> error + (cudaDeviceProp \<times> world)" where
  "cudaGetDeviceProperties P i w =
     bindE (cuda_call P (CudaGetDeviceProperties i) w) (\<lambda>w1. Inr (deviceProp P i, w1))"

definition cudaHostAlloc :: "platform \<Rightarrow> nat \<Rightarrow> world \<Rightarrow> error + (handle \<times> world)" where
  "cudaHostAlloc P n w = bindE (cuda_call P (CudaHostAlloc n) w) (\<lambda>w1. Inr (allocate n w1))"

definition cudaMalloc :: "platform \<Rightarrow> nat \<Rightarrow> world \<Rightarrow> error + (handle \<times> world)" where
  "cudaMalloc P n w = bindE (cuda_call P (CudaMalloc n) w) (\<lambda>w1. Inr (allocate n w1))"

definition cudaHostGetDevicePointer :: "platform \<Rightarrow> handle \<Rightarrow> world \<Rightarrow> error + (handle \<times> world)" where
  \<comment> \<open>the device pointer of mapped host memory: the same buffer\<close>
  "cudaHostGetDevicePointer P h w =
     bindE (cuda_call P (CudaHostGetDevicePointer h) w) (\<lambda>w1. Inr (h, w1))"

definition cudaSetDevice :: "platform \<Rightarrow> int \<Rightarrow> world \<Rightarrow> error + world" where
  "cudaSetDevice P i w = cuda_call P (CudaSetDevice i) w"

definition cudaEventCreate :: "platform \<Rightarrow> world \<Rightarrow> error + (handle \<times> world)" where
  "cudaEventCreate P w = bindE (cuda_call P CudaEventCreate w) (\<lambda>w1. Inr (new_handle w1))"

definition cudaFreeHost :: "platform \<Rightarrow> handle \<Rightarrow> world \<Rightarrow> error + world" where
  "cudaFreeHost P h w = bindE (cuda_call P (CudaFreeHost h) w) (\<lambda>w1. Inr (release h w1))"

definition cudaFree :: "platform \<Rightarrow> handle \<Rightarrow> world \<Rightarrow> error + world" where
  "cudaFree P h w = bindE (cuda_call P (CudaFree h) w) (\<lambda>w1. Inr (release h w1))"

definition cudaEventDestroy :: "platform \<Rightarrow> handle \<Rightarrow> world \<Rightarrow> error + world" where
  "cudaEventDestroy P h w = cuda_call P (CudaEventDestroy h) w"

definition cudaGraphicsGLRegisterBuffer ::
  "platform \<Rightarrow> handle \<Rightarrow> mapflags \<Rightarrow> world \<Rightarrow> error + (handle \<times> world)" where
  "cudaGraphicsGLRegisterBuffer P pbo flags w =
     bindE (cuda_call P (CudaGraphicsGLRegisterBuffer pbo flags) w)
       (\<lambda>w1. Inr (Obj (nextObj w1),
                  w1\<lparr>glRegistered := (glRegistered w1)(nextObj w1 := Some pbo),
                     nextObj := Suc (nextObj w1)\<rparr>))"

definition cudaGraphicsUnregisterResource :: "platform \<Rightarrow> handle \<Rightarrow> world \<Rightarrow> error + world" where
  "cudaGraphicsUnregisterResource P res w =
     bindE (cuda_call P (CudaGraphicsUnregisterResource res) w)
       (\<lambda>w1. Inr (case res of Obj r \<Rightarrow> w1\<lparr>glRegistered := (glRegistered w1)(r := None)\<rparr> | _ \<Rightarrow> w1))"

definition cudaGraphicsResourceSetMapFlags ::
  "platform \<Rightarrow> handle \<Rightarrow> mapflags \<Rightarrow> world \<Rightarrow> error + world" where
  "cudaGraphicsResourceSetMapFlags P res flags w =
     cuda_call P (CudaGraphicsResourceSetMapFlags res flags) w"

definition cudaGraphicsMapResources :: "platform \<Rightarrow> handle \<Rightarrow> world \<Rightarrow> error + world" where
  \<comment> \<open>only a registered resource can be mapped\<close>
  "cudaGraphicsMapResources P res w =
     bindE (cuda_call P (CudaGraphicsMapResources res) w)
       (\<lambda>w1. case res of
                Obj r \<Rightarrow> if glRegistered w1 r = None then Inl CudaFailure
                          else Inr (w1\<lparr>mapped := insert r (mapped w1)\<rparr>)
              | _ \<Rightarrow> Inl CudaFailure)"

definition cudaGraphicsResourceGetMappedPointer ::
  "platform \<Rightarrow> handle \<Rightarrow> world \<Rightarrow> error + (handle \<times> world)" where
  \<comment> \<open>the device pointer of a mapped resource: the memory of its OpenGL buffer\<close>
  "cudaGraphicsResourceGetMappedPointer P res w =
     bindE (cuda_call P (CudaGraphicsResourceGetMappedPointer res) w)
       (\<lambda>w1. case res of
                Obj r \<Rightarrow>
                  (case glRegistered w1 r of
                     Some pbo \<Rightarrow> if r \<in> mapped w1 then Inr (pbo, w1) else Inl CudaFailure
                   | None \<Rightarrow> Inl CudaFailure)
              | _ \<Rightarrow> Inl CudaFailure)"

definition cudaGraphicsUnmapResources :: "platform \<Rightarrow> handle \<Rightarrow> world \<Rightarrow> error + world" where
  "cudaGraphicsUnmapResources P res w =
     bindE (cuda_call P (CudaGraphicsUnmapResources res) w)
       (\<lambda>w1. Inr (case res of Obj r \<Rightarrow> w1\<lparr>mapped := mapped w1 - {r}\<rparr> | _ \<Rightarrow> w1))"

definition cudaMemcpyDeviceToHost ::
  "platform \<Rightarrow> handle \<Rightarrow> handle \<Rightarrow> nat \<Rightarrow> world \<Rightarrow> error + world" where
  \<comment> \<open>\<^verbatim>\<open>cudaMemcpy(dst, src, n, cudaMemcpyDeviceToHost)\<close>\<close>
  "cudaMemcpyDeviceToHost P dst src n w =
     bindE (cuda_call P (CudaMemcpyDeviceToHost dst src n) w)
       (\<lambda>w1. bindE (read_bytes src n w1) (\<lambda>bs. write_bytes dst bs w1))"

definition cudaMemcpyHostToDevice ::
  "platform \<Rightarrow> handle \<Rightarrow> byte list \<Rightarrow> nat \<Rightarrow> world \<Rightarrow> error + world" where
  \<comment> \<open>\<^verbatim>\<open>cudaMemcpy(dst, data, n, cudaMemcpyHostToDevice)\<close>, \<open>data\<close> the caller's array\<close>
  "cudaMemcpyHostToDevice P dst data n w =
     bindE (cuda_call P (CudaMemcpyHostToDevice dst n) w)
       (\<lambda>w1. if n \<le> length data then write_bytes dst (map Some (take n data)) w1
              else Inl UndefinedBehaviour)"

definition setSofteningSquared :: "platform \<Rightarrow> scalar \<Rightarrow> world \<Rightarrow> error + world" where
  \<comment> \<open>declared at lines 31 and 32, defined elsewhere; only its result is looked at\<close>
  "setSofteningSquared P softeningSq w = cuda_call P (SetSofteningSquared softeningSq) w"

subsubsection \<open>OpenGL\<close>

text \<open>An OpenGL call never ends the process: where it cannot act it records an error
  flag, which the class does not read, and changes nothing.\<close>

definition glGenBuffers2 :: "world \<Rightarrow> (handle \<times> handle) \<times> world" where
  \<comment> \<open>\<^verbatim>\<open>glGenBuffers(2, m_pbo)\<close>: two new names, no data store yet\<close>
  "glGenBuffers2 w =
     ((Obj (nextObj w), Obj (Suc (nextObj w))),
      (call GlGenBuffers w)\<lparr>nextObj := Suc (Suc (nextObj w))\<rparr>)"

definition glBindBuffer :: "handle \<Rightarrow> world \<Rightarrow> world" where
  "glBindBuffer h w = (call (GlBindBuffer h) w)\<lparr>glArrayBuffer := h\<rparr>"

definition glBufferData :: "platform \<Rightarrow> nat \<Rightarrow> handle \<Rightarrow> world \<Rightarrow> error + world" where
  \<comment> \<open>a new data store of \<open>n\<close> bytes for the bound buffer, filled from the host buffer
      \<open>src\<close>; nothing changes when no buffer is bound or memory runs out\<close>
  "glBufferData P n src w =
     bindE (read_bytes src n w)
       (\<lambda>bs. let w1 = call (GlBufferData n) w
              in case glArrayBuffer w1 of
                   Obj b \<Rightarrow> if glOutOfMemory P n then Inr w1
                             else Inr (w1\<lparr>store := (store w1)(b := Some bs)\<rparr>)
                 | _ \<Rightarrow> Inr w1)"

definition glGetBufferSize :: "int \<Rightarrow> world \<Rightarrow> int \<times> world" where
  \<comment> \<open>\<^verbatim>\<open>glGetBufferParameteriv(GL_ARRAY_BUFFER, GL_BUFFER_SIZE, &size)\<close>: \<open>size\<close> keeps its
      value \<open>size0\<close> when the bound buffer has no data store\<close>
  "glGetBufferSize size0 w =
     (case buffer w (glArrayBuffer w) of
        Some buf \<Rightarrow> (int (length buf), call GlGetBufferParameteriv w)
      | None \<Rightarrow> (size0, call GlGetBufferParameteriv w))"

definition glBufferSubData :: "nat \<Rightarrow> byte list \<Rightarrow> world \<Rightarrow> error + world" where
  \<comment> \<open>\<^verbatim>\<open>glBufferSubData(GL_ARRAY_BUFFER, 0, n, data)\<close>: the first \<open>n\<close> bytes of the bound
      buffer's store are replaced; a range that does not fit the store is an OpenGL
      error and nothing is written\<close>
  "glBufferSubData n data w =
     (let w1 = call (GlBufferSubData 0 n) w
      in case buffer w1 (glArrayBuffer w1) of
           Some buf \<Rightarrow>
             if n \<le> length buf
             then (if n \<le> length data
                   then write_bytes (glArrayBuffer w1) (map Some (take n data)) w1
                   else Inl UndefinedBehaviour)
             else Inr w1
         | None \<Rightarrow> Inr w1)"

definition glDeleteBuffers :: "handle list \<Rightarrow> world \<Rightarrow> world" where
  "glDeleteBuffers hs w = fold release hs (call (GlDeleteBuffers hs) w)"

subsection \<open>The object\<close>

text \<open>
  Modelled from the spec: the class \<^verbatim>\<open>BodySystemCUDA<T>\<close> and the enumeration \<^verbatim>\<open>BodyArray\<close>
  are declared in headers that are not among the sources. The members are the ones the
  constructor (lines 42 to 56) initialises and the member functions use; the counts and
  the two buffer indices are \<^verbatim>\<open>unsigned int\<close>, as the constructor's parameters and the
  locals they are copied to (lines 100 and 101) are. The three arrays of two elements are
  pairs. The memory modes of the spec are the flags: HostMapped is \<open>m_bUseSysMem\<close>,
  RenderShared is \<open>m_bUsePBO\<close>, DeviceLocal is neither.
\<close>

datatype BodyArray = BODYSYSTEM_POSITION | BODYSYSTEM_VELOCITY

record BodySystemCUDA =
  m_numBodies :: u32
  m_numDevices :: u32
  m_bInitialized :: bool
  m_bUsePBO :: bool
  m_bUseSysMem :: bool
  m_bUseP2P :: bool
  m_currentRead :: u32
  m_currentWrite :: u32
  m_blockSize :: u32
  m_devID :: int
  m_hPos :: "handle \<times> handle"
  m_hVel :: handle
  m_deviceData :: "DeviceData list"
  m_damping :: scalar
  m_pbo :: "handle \<times> handle"
  m_pGRes :: "handle \<times> handle"

subsection \<open>\<^verbatim>\<open>_initialize\<close> (lines 70 to 230)\<close>

definition weight :: "cudaDeviceProp \<Rightarrow> int" where
  \<comment> \<open>line 95: \<^verbatim>\<open>numSms[i] * (props.major >= 2 ? 4.f : 1.f)\<close>, a \<^verbatim>\<open>float\<close> that holds this
      integer exactly while it is below \<open>2 ^ 24\<close>\<close>
  "weight props = multiProcessorCount props * (if major props \<ge> 2 then 4 else 1)"

definition weights_body :: "platform \<Rightarrow> nat \<Rightarrow> int list \<times> world \<Rightarrow> error + (int list \<times> world)" where
  \<comment> \<open>lines 88 to 96; \<^verbatim>\<open>total\<close> is the sum of the list\<close>
  "weights_body P i st =
     (case st of (weights, w) \<Rightarrow>
        bindE (cudaGetDeviceProperties P i w) (\<lambda>(props, w1). Inr (weights @ [weight props], w1)))"

definition assign_slot ::
  "nat \<Rightarrow> (world \<Rightarrow> error + ('a \<times> world)) \<Rightarrow> ('a \<Rightarrow> DeviceData \<Rightarrow> DeviceData)
     \<Rightarrow> BodySystemCUDA \<times> world \<Rightarrow> error + (BodySystemCUDA \<times> world)" where
  \<comment> \<open>\<^verbatim>\<open>checkCudaErrors(f(&m_deviceData[i].member, ...))\<close>: slot \<open>i\<close> must exist; the value
      the call returns is stored in the member, by \<open>put\<close>\<close>
  "assign_slot i f put st =
     (case st of (this, w) \<Rightarrow>
        bindE (elem_at (m_deviceData this) i) (\<lambda>d.
        bindE (f w) (\<lambda>(x, w1).
          Inr (this\<lparr>m_deviceData := (m_deviceData this)[i := put x d]\<rparr>, w1))))"

definition put_event :: "handle \<Rightarrow> DeviceData \<Rightarrow> DeviceData" where
  "put_event h d = d\<lparr>event := h\<rparr>"

definition put_dPos0 :: "handle \<Rightarrow> DeviceData \<Rightarrow> DeviceData" where
  "put_dPos0 h d = d\<lparr>dPos := (h, snd (dPos d))\<rparr>"

definition put_dPos1 :: "handle \<Rightarrow> DeviceData \<Rightarrow> DeviceData" where
  "put_dPos1 h d = d\<lparr>dPos := (fst (dPos d), h)\<rparr>"

definition put_dVel :: "handle \<Rightarrow> DeviceData \<Rightarrow> DeviceData" where
  "put_dVel h d = d\<lparr>dVel := h\<rparr>"

definition sysmem_body ::
  "platform \<Rightarrow> nat \<Rightarrow> BodySystemCUDA \<times> world \<Rightarrow> error + (BodySystemCUDA \<times> world)" where
  \<comment> \<open>lines 144 to 152\<close>
  "sysmem_body P i st =
     (case st of (this, w) \<Rightarrow>
        bindE (if m_numDevices this > 1 then cudaSetDevice P (int i) w else Inr w) (\<lambda>w1.
        bindE (assign_slot i (cudaEventCreate P) put_event (this, w1)) (\<lambda>st1.
        bindE (assign_slot i (cudaHostGetDevicePointer P (fst (m_hPos this))) put_dPos0 st1) (\<lambda>st2.
        bindE (assign_slot i (cudaHostGetDevicePointer P (snd (m_hPos this))) put_dPos1 st2) (\<lambda>st3.
          assign_slot i (cudaHostGetDevicePointer P (m_hVel this)) put_dVel st3)))))"

definition init_sysmem ::
  "platform \<Rightarrow> u32 \<Rightarrow> BodySystemCUDA \<Rightarrow> world \<Rightarrow> error + (BodySystemCUDA \<times> world)" where
  \<comment> \<open>lines 134 to 153\<close>
  "init_sysmem P memSize this w =
     bindE (cudaHostAlloc P (unat memSize) w) (\<lambda>(h0, w1).
     bindE (cudaHostAlloc P (unat memSize) w1) (\<lambda>(h1, w2).
     bindE (cudaHostAlloc P (unat memSize) w2) (\<lambda>(hv, w3).
     bindE (memset_zero h0 (unat memSize) w3) (\<lambda>w4.
     bindE (memset_zero h1 (unat memSize) w4) (\<lambda>w5.
     bindE (memset_zero hv (unat memSize) w5) (\<lambda>w6.
       forE [0..<unat (m_numDevices this)] (sysmem_body P)
         (this\<lparr>m_hPos := (h0, h1), m_hVel := hv\<rparr>, w6)))))))"

definition pbo_body ::
  "platform \<Rightarrow> u32 \<Rightarrow> nat \<Rightarrow> BodySystemCUDA \<times> world \<Rightarrow> error + (BodySystemCUDA \<times> world)" where
  \<comment> \<open>lines 174 to 188\<close>
  "pbo_body P memSize i st =
     (case st of (this, w) \<Rightarrow>
        bindE (index2 (m_pbo this) (of_nat i)) (\<lambda>pbo.
        bindE (glBufferData P (unat memSize) (fst (m_hPos this)) (glBindBuffer pbo w)) (\<lambda>w1.
          let size_w2 = glGetBufferSize 0 w1;
              w3 = (if (word_of_int (fst size_w2) :: u32) \<noteq> memSize
                    then fprintf ''WARNING: Pixel Buffer Object allocation failed!n'' (snd size_w2)
                    else snd size_w2)
          in bindE (cudaGraphicsGLRegisterBuffer P pbo cudaGraphicsMapFlagsNone (glBindBuffer Null w3))
               (\<lambda>(res, w4).
          bindE (update2 (m_pGRes this) (of_nat i) res) (\<lambda>pGRes.
            Inr (this\<lparr>m_pGRes := pGRes\<rparr>, w4))))))"

definition init_positions ::
  "platform \<Rightarrow> u32 \<Rightarrow> BodySystemCUDA \<times> world \<Rightarrow> error + (BodySystemCUDA \<times> world)" where
  \<comment> \<open>lines 166 to 195: the two position buffers, as OpenGL buffers registered with CUDA
      or as device memory\<close>
  "init_positions P memSize st =
     (case st of (this, w) \<Rightarrow>
        if m_bUsePBO this
        then (let pbo_w1 = glGenBuffers2 w
              in forE [0..<2] (pbo_body P memSize) (this\<lparr>m_pbo := fst pbo_w1\<rparr>, snd pbo_w1))
        else
          bindE (assign_slot 0 (cudaMalloc P (unat memSize)) put_dPos0 (this, w)) (\<lambda>st1.
            assign_slot 0 (cudaMalloc P (unat memSize)) put_dPos1 st1))"

definition p2p_body ::
  "platform \<Rightarrow> nat \<Rightarrow> BodySystemCUDA \<times> world \<Rightarrow> error + (BodySystemCUDA \<times> world)" where
  \<comment> \<open>lines 203 to 223; the peer-access call is made for the device just set\<close>
  "p2p_body P i st =
     (case st of (this, w) \<Rightarrow>
        bindE (cudaSetDevice P (int i) w) (\<lambda>w1.
          let error = cudaResult P (CudaDeviceEnablePeerAccess i);
              w2 = call (CudaDeviceEnablePeerAccess i) w1
          in bindE (if error \<noteq> cudaErrorPeerAccessAlreadyEnabled then checkCudaErrors error w2
                    else Inr (call CudaGetLastError w2)) (\<lambda>w3.
        bindE (assign_slot i (cudaEventCreate P) put_event (this, w3)) (\<lambda>(this1, w4).
        bindE (elem_at (m_deviceData this1) 0) (\<lambda>d0.
          Inr (this1\<lparr>m_deviceData :=
                       (m_deviceData this1)[i := (m_deviceData this1 ! i)\<lparr>dPos := dPos d0, dVel := dVel d0\<rparr>]\<rparr>,
               w4))))))"

definition init_p2p :: "platform \<Rightarrow> BodySystemCUDA \<times> world \<Rightarrow> error + (BodySystemCUDA \<times> world)" where
  \<comment> \<open>lines 200 to 225\<close>
  "init_p2p P st =
     (case st of (this, w) \<Rightarrow>
        if m_bUseP2P this then forE [1..<unat (m_numDevices this)] (p2p_body P) (this, w)
        else Inr (this, w))"

definition init_buffers ::
  "platform \<Rightarrow> u32 \<Rightarrow> BodySystemCUDA \<Rightarrow> world \<Rightarrow> error + (BodySystemCUDA \<times> world)" where
  \<comment> \<open>lines 157 to 197. \<^verbatim>\<open>new T[m_numBodies*4]\<close>: the element count is an \<^verbatim>\<open>unsigned int\<close>
      product.\<close>
  "init_buffers P memSize this w =
     (let h0_w1 = new_array (unat (m_numBodies this * 4) * sizeof_T P) w;
          hv_w2 = new_array (unat (m_numBodies this * 4) * sizeof_T P) (snd h0_w1);
          this1 = this\<lparr>m_hPos := (fst h0_w1, snd (m_hPos this)), m_hVel := fst hv_w2\<rparr>
      in bindE (memset_zero (fst h0_w1) (unat memSize) (snd hv_w2)) (\<lambda>w3.
         bindE (memset_zero (fst hv_w2) (unat memSize) w3) (\<lambda>w4.
         bindE (cudaSetDevice P (m_devID this1) w4) (\<lambda>w5.
         bindE (assign_slot 0 (cudaEventCreate P) put_event (this1, w5)) (\<lambda>st1.
         bindE (init_positions P memSize st1) (\<lambda>st2.
           assign_slot 0 (cudaMalloc P (unat memSize)) put_dVel st2))))))"

definition init_device ::
  "platform \<Rightarrow> u32 \<Rightarrow> BodySystemCUDA \<Rightarrow> world \<Rightarrow> error + (BodySystemCUDA \<times> world)" where
  \<comment> \<open>lines 157 to 225\<close>
  "init_device P memSize this w = bindE (init_buffers P memSize this w) (init_p2p P)"

definition initialize ::
  "platform \<Rightarrow> u32 \<Rightarrow> BodySystemCUDA \<Rightarrow> world \<Rightarrow> error + (BodySystemCUDA \<times> world)" where
  \<comment> \<open>\<^verbatim>\<open>_initialize(int numBodies)\<close>. The parameter (\<open>nBodies\<close> here) arrives from an \<^verbatim>\<open>unsigned int\<close> and goes
      back into one (line 75), so it is a \<open>u32\<close> here. \<^verbatim>\<open>memSize\<close> is an \<^verbatim>\<open>unsigned int\<close>:
      the \<^verbatim>\<open>size_t\<close> product of line 77 is cut to 32 bits. The local arrays \<^verbatim>\<open>weights\<close> and
      \<^verbatim>\<open>numSms\<close> are the list of weights.\<close>
  "initialize P nBodies this w =
     (if m_bInitialized this then Inl AssertionFailed
      else
        let this1 = this\<lparr>m_numBodies := nBodies\<rparr>;
            memSize = (of_nat (sizeof_T P) * 4 * nBodies :: u32)
        in bindE (forE [0..<unat (m_numDevices this1)] (weights_body P) ([], w)) (\<lambda>(weights, w1).
           bindE (partition_devices (float_share P weights (m_numBodies this1))
                    (m_numBodies this1) (m_numDevices this1)) (\<lambda>dd.
             let this2 = this1\<lparr>m_deviceData := dd\<rparr>
             in bindE (if m_bUseSysMem this2 then init_sysmem P memSize this2 w1
                       else init_device P memSize this2 w1) (\<lambda>(this3, w2).
                  Inr (this3\<lparr>m_bInitialized := True\<rparr>, w2)))))"

subsection \<open>\<^verbatim>\<open>_finalize\<close> (lines 232 to 282)\<close>

definition destroy_unchecked :: "nat \<Rightarrow> BodySystemCUDA \<times> world \<Rightarrow> error + (BodySystemCUDA \<times> world)" where
  \<comment> \<open>line 245: the result of \<^verbatim>\<open>cudaEventDestroy\<close> is dropped\<close>
  "destroy_unchecked i st =
     (case st of (this, w) \<Rightarrow>
        bindE (elem_at (m_deviceData this) i) (\<lambda>d. Inr (this, call (CudaEventDestroy (event d)) w)))"

definition destroy_checked ::
  "platform \<Rightarrow> nat \<Rightarrow> BodySystemCUDA \<times> world \<Rightarrow> error + (BodySystemCUDA \<times> world)" where
  \<comment> \<open>line 273\<close>
  "destroy_checked P i st =
     (case st of (this, w) \<Rightarrow>
        bindE (elem_at (m_deviceData this) i) (\<lambda>d.
        bindE (cudaEventDestroy P (event d) w) (\<lambda>w1. Inr (this, w1))))"

definition finalize :: "platform \<Rightarrow> BodySystemCUDA \<Rightarrow> world \<Rightarrow> error + (BodySystemCUDA \<times> world)" where
  "finalize P this w =
     (if \<not> m_bInitialized this then Inl AssertionFailed
      else
        bindE
          (if m_bUseSysMem this
           then
             bindE (cudaFreeHost P (fst (m_hPos this)) w) (\<lambda>w1.
             bindE (cudaFreeHost P (snd (m_hPos this)) w1) (\<lambda>w2.
             bindE (cudaFreeHost P (m_hVel this) w2) (\<lambda>w3.
               forE [0..<unat (m_numDevices this)] destroy_unchecked (this, w3))))
           else
             bindE (delete_array (fst (m_hPos this)) w) (\<lambda>w1.
             bindE (delete_array (snd (m_hPos this)) w1) (\<lambda>w2.
             bindE (delete_array (m_hVel this) w2) (\<lambda>w3.
             bindE (elem_at (m_deviceData this) 0) (\<lambda>d0.
             bindE (cudaFree P (dVel d0) w3) (\<lambda>w4.
               if m_bUsePBO this
               then
                 bindE (cudaGraphicsUnregisterResource P (fst (m_pGRes this)) w4) (\<lambda>w5.
                 bindE (cudaGraphicsUnregisterResource P (snd (m_pGRes this)) w5) (\<lambda>w6.
                   Inr (this, glDeleteBuffers [fst (m_pbo this), snd (m_pbo this)] w6)))
               else
                 bindE (cudaFree P (fst (dPos d0)) w4) (\<lambda>w5.
                 bindE (cudaFree P (snd (dPos d0)) w5) (\<lambda>w6.
                 bindE (cudaEventDestroy P (event d0) w6) (\<lambda>w7.
                   if m_bUseP2P this
                   then forE [1..<unat (m_numDevices this)] (destroy_checked P) (this, w7)
                   else Inr (this, w7))))))))))
          (\<lambda>(this1, w8). Inr (this1\<lparr>m_deviceData := [], m_bInitialized := False\<rparr>, w8)))"

subsection \<open>The setters and \<^verbatim>\<open>update\<close> (lines 313 to 346)\<close>

definition softening_body :: "platform \<Rightarrow> u32 \<Rightarrow> scalar \<Rightarrow> nat \<Rightarrow> world \<Rightarrow> error + world" where
  \<comment> \<open>lines 320 to 325\<close>
  "softening_body P numDevices softeningSq i w =
     bindE (if numDevices > 1 then cudaSetDevice P (int i) w else Inr w)
       (setSofteningSquared P softeningSq)"

definition setSoftening ::
  "platform \<Rightarrow> scalar \<Rightarrow> BodySystemCUDA \<Rightarrow> world \<Rightarrow> error + (BodySystemCUDA \<times> world)" where
  "setSoftening P softening this w =
     (let softeningSq = Times softening softening
      in bindE (forE [0..<unat (m_numDevices this)]
                  (softening_body P (m_numDevices this) softeningSq) w)
           (\<lambda>w1. Inr (this, w1)))"

definition setDamping :: "scalar \<Rightarrow> BodySystemCUDA \<Rightarrow> world \<Rightarrow> error + (BodySystemCUDA \<times> world)" where
  "setDamping damping this w = Inr (this\<lparr>m_damping := damping\<rparr>, w)"

definition update ::
  "platform \<Rightarrow> scalar \<Rightarrow> BodySystemCUDA \<Rightarrow> world \<Rightarrow> error + (BodySystemCUDA \<times> world)" where
  \<comment> \<open>\<^verbatim>\<open>std::swap(m_currentRead, m_currentWrite)\<close> after the integration routine returns\<close>
  "update P deltaTime this w =
     (if \<not> m_bInitialized this then Inl AssertionFailed
      else
        bindE (integrateNbodySystem P (m_deviceData this) (m_pGRes this) (m_currentRead this)
                 (CastFloat deltaTime) (CastFloat (m_damping this))
                 (m_numBodies this) (m_numDevices this) (m_blockSize this) (m_bUsePBO this) w)
          (\<lambda>(dd, pGRes, w1).
             Inr (this\<lparr>m_deviceData := dd, m_pGRes := pGRes,
                       m_currentRead := m_currentWrite this,
                       m_currentWrite := m_currentRead this\<rparr>, w1)))"

subsection \<open>\<^verbatim>\<open>getArray\<close> and \<^verbatim>\<open>setArray\<close> (lines 348 to 455)\<close>

definition nonnull :: "handle \<Rightarrow> error + bool" where
  \<comment> \<open>\<^verbatim>\<open>if (p)\<close>: testing a pointer that was never assigned is undefined\<close>
  "nonnull h = (case h of Null \<Rightarrow> Inr False | Obj n \<Rightarrow> Inr True | Undef \<Rightarrow> Inl UndefinedBehaviour)"

definition array_bytes :: "platform \<Rightarrow> BodySystemCUDA \<Rightarrow> nat" where
  \<comment> \<open>\<^verbatim>\<open>m_numBodies*4*sizeof(T)\<close> (lines 391, 434, 438, 447, 450): the first product is
      \<^verbatim>\<open>unsigned int\<close>, the second \<^verbatim>\<open>size_t\<close>\<close>
  "array_bytes P this = unat (m_numBodies this * 4) * sizeof_T P"

definition getArray ::
  "platform \<Rightarrow> BodyArray \<Rightarrow> BodySystemCUDA \<Rightarrow> world \<Rightarrow> error + (handle \<times> world)" where
  \<comment> \<open>The result is \<^verbatim>\<open>hdata\<close> and the platform state; the object does not change. A value
      of \<^verbatim>\<open>BodyArray\<close> other than the two named ones takes the position branch.\<close>
  "getArray P array this w =
     (if \<not> m_bInitialized this then Inl AssertionFailed
      else
        let currentReadHost = (if m_bUseSysMem this then m_currentRead this else 0)
        in bindE
             (case array of
                BODYSYSTEM_POSITION \<Rightarrow>
                  bindE (index2 (m_hPos this) currentReadHost) (\<lambda>hdata.
                  bindE (elem_at (m_deviceData this) 0) (\<lambda>d0.
                  bindE (index2 (dPos d0) (m_currentRead this)) (\<lambda>ddata.
                  bindE (if m_bUsePBO this then index2 (m_pGRes this) (m_currentRead this)
                         else Inr Null) (\<lambda>pgres.
                    Inr (hdata, ddata, pgres)))))
              | BODYSYSTEM_VELOCITY \<Rightarrow>
                  bindE (elem_at (m_deviceData this) 0) (\<lambda>d0. Inr (m_hVel this, dVel d0, Null)))
             (\<lambda>(hdata, ddata, pgres).
                if \<not> m_bUseSysMem this
                then
                  bindE (nonnull pgres) (\<lambda>has_pgres.
                  bindE (if has_pgres
                         then
                           bindE (cudaGraphicsResourceSetMapFlags P pgres cudaGraphicsMapFlagsReadOnly w)
                             (\<lambda>w1.
                           bindE (cudaGraphicsMapResources P pgres w1) (\<lambda>w2.
                             cudaGraphicsResourceGetMappedPointer P pgres w2))
                         else Inr (ddata, w)) (\<lambda>(ddata1, w3).
                  bindE (cudaMemcpyDeviceToHost P hdata ddata1 (array_bytes P this) w3) (\<lambda>w4.
                  bindE (if has_pgres then cudaGraphicsUnmapResources P pgres w4 else Inr w4) (\<lambda>w5.
                    Inr (hdata, w5)))))
                else Inr (hdata, w)))"

definition setArray ::
  "platform \<Rightarrow> BodyArray \<Rightarrow> byte list \<Rightarrow> BodySystemCUDA \<Rightarrow> world
     \<Rightarrow> error + (BodySystemCUDA \<times> world)" where
  \<comment> \<open>\<open>data\<close> is the caller's array. In the buffer branch the byte count of line 418 and
      the one compared at line 423 are \<^verbatim>\<open>size_t\<close> products.\<close>
  "setArray P array data this w =
     (if \<not> m_bInitialized this then Inl AssertionFailed
      else
        let this1 = this\<lparr>m_currentRead := 0, m_currentWrite := 1\<rparr>
        in case array of
             BODYSYSTEM_POSITION \<Rightarrow>
               if m_bUsePBO this1
               then
                 bindE (index2 (m_pbo this1) (m_currentRead this1)) (\<lambda>pbo.
                 bindE (glBufferSubData (4 * sizeof_T P * unat (m_numBodies this1)) data
                          (glBindBuffer pbo w)) (\<lambda>w1.
                   let (size, w2) = glGetBufferSize 0 w1;
                       w3 = (if unat (word_of_int size :: u32)
                                  \<noteq> 4 * (sizeof_T P * unat (m_numBodies this1))
                             then fprintf ''WARNING: Pixel Buffer Object download failed!n'' w2
                             else w2)
                   in Inr (this1, glBindBuffer Null w3)))
               else if m_bUseSysMem this1
               then
                 bindE (index2 (m_hPos this1) (m_currentRead this1)) (\<lambda>h.
                 bindE (memcpy h data (array_bytes P this1) w) (\<lambda>w1. Inr (this1, w1)))
               else
                 bindE (elem_at (m_deviceData this1) 0) (\<lambda>d0.
                 bindE (index2 (dPos d0) (m_currentRead this1)) (\<lambda>p.
                 bindE (cudaMemcpyHostToDevice P p data (array_bytes P this1) w) (\<lambda>w1.
                   Inr (this1, w1))))
           | BODYSYSTEM_VELOCITY \<Rightarrow>
               if m_bUseSysMem this1
               then bindE (memcpy (m_hVel this1) data (array_bytes P this1) w) (\<lambda>w1. Inr (this1, w1))
               else
                 bindE (elem_at (m_deviceData this1) 0) (\<lambda>d0.
                 bindE (cudaMemcpyHostToDevice P (dVel d0) data (array_bytes P this1) w) (\<lambda>w1.
                   Inr (this1, w1))))"

subsection \<open>Constructor and destructor (lines 34 to 68)\<close>

definition initial_members ::
  "u32 \<Rightarrow> u32 \<Rightarrow> u32 \<Rightarrow> bool \<Rightarrow> bool \<Rightarrow> bool \<Rightarrow> int \<Rightarrow> BodySystemCUDA" where
  \<comment> \<open>The object after the initialiser list and lines 53 to 56. \<open>nBodies\<close> and \<open>nDevices\<close>
      are the parameters \<^verbatim>\<open>numBodies\<close> and \<^verbatim>\<open>numDevices\<close>. The members the list leaves out
      are not assigned.\<close>
  "initial_members nBodies nDevices blockSize usePBO useSysMem useP2P deviceId =
     \<lparr>m_numBodies = nBodies, m_numDevices = nDevices, m_bInitialized = False,
      m_bUsePBO = usePBO, m_bUseSysMem = useSysMem, m_bUseP2P = useP2P,
      m_currentRead = 0, m_currentWrite = 1, m_blockSize = blockSize,
      m_devID = deviceId, m_hPos = (Null, Null), m_hVel = Null,
      m_deviceData = [], m_damping = Indeterminate,
      m_pbo = (Undef, Undef), m_pGRes = (Undef, Undef)\<rparr>"

definition BodySystemCUDA_ctor ::
  "platform \<Rightarrow> u32 \<Rightarrow> u32 \<Rightarrow> u32 \<Rightarrow> bool \<Rightarrow> bool \<Rightarrow> bool \<Rightarrow> int \<Rightarrow> world
     \<Rightarrow> error + (BodySystemCUDA \<times> world)" where
  \<comment> \<open>lines 58 to 60\<close>
  "BodySystemCUDA_ctor P nBodies nDevices blockSize usePBO useSysMem useP2P deviceId w =
     bindE (initialize P nBodies
              (initial_members nBodies nDevices blockSize usePBO useSysMem useP2P deviceId) w)
       (\<lambda>(this1, w1).
     bindE (setSoftening P (FloatLiteral ''0.00125f'') this1 w1) (\<lambda>(this2, w2).
       setDamping (FloatLiteral ''0.995f'') this2 w2))"

definition BodySystemCUDA_dtor ::
  "platform \<Rightarrow> BodySystemCUDA \<Rightarrow> world \<Rightarrow> error + (BodySystemCUDA \<times> world)" where
  "BodySystemCUDA_dtor P this w =
     bindE (finalize P this w) (\<lambda>(this1, w1). Inr (this1\<lparr>m_numBodies := 0\<rparr>, w1))"

section \<open>Notions used in the statements\<close>

subsection \<open>The partition\<close>

text \<open>
  \<open>capped_share\<close> is the count of lines 105 to 116 for device \<open>i\<close> when the loop's \<open>offset\<close> is
  \<open>off\<close> (\<open>remaining\<close> is then \<open>nb - off\<close>): the share rounded up to a multiple of 256 and
  capped at what remains. \<open>absorbed\<close> is what lines 123 to 126 add to that count.
  \<open>offset_before k\<close> is the value of \<open>offset\<close> when the loop reaches device \<open>k\<close>, and
  \<open>slot_of\<close> the slot the loop body leaves for a device.
\<close>

definition capped_share :: "(nat \<Rightarrow> u32) \<Rightarrow> u32 \<Rightarrow> u32 \<Rightarrow> nat \<Rightarrow> u32" where
  "capped_share share nb off i =
     (let c = round_up 256 (share i) in if c > nb - off then nb - off else c)"

definition absorbed :: "u32 \<Rightarrow> u32 \<Rightarrow> u32 \<Rightarrow> nat \<Rightarrow> u32 \<Rightarrow> u32" where
  "absorbed nb nd off i c =
     (if of_nat i = nd - 1 \<and> off + c < nb - 1 then nb - (off + c) else 0)"

definition slot_of :: "(nat \<Rightarrow> u32) \<Rightarrow> u32 \<Rightarrow> u32 \<Rightarrow> nat \<Rightarrow> u32 \<Rightarrow> DeviceData \<Rightarrow> DeviceData" where
  "slot_of share nb nd i off d =
     d\<lparr>offset := off,
       numBodies := capped_share share nb off i + absorbed nb nd off i (capped_share share nb off i)\<rparr>"

fun offset_before :: "(nat \<Rightarrow> u32) \<Rightarrow> u32 \<Rightarrow> nat \<Rightarrow> u32" where
  "offset_before share nb 0 = 0"
| "offset_before share nb (Suc k) =
     offset_before share nb k + capped_share share nb (offset_before share nb k) k"

definition slots :: "error + DeviceData list \<Rightarrow> error + (u32 \<times> u32) list" where
  \<comment> \<open>offset and count of every slot\<close>
  "slots r = bindE r (\<lambda>dd. Inr (map (\<lambda>d. (offset d, numBodies d)) dd))"

definition device_weights :: "platform \<Rightarrow> u32 \<Rightarrow> int list" where
  \<comment> \<open>the array \<^verbatim>\<open>weights\<close> after the loop of lines 86 to 98\<close>
  "device_weights P nd = map (\<lambda>i. weight (deviceProp P i)) [0..<unat nd]"

definition exact_share :: "int list \<Rightarrow> u32 \<Rightarrow> nat \<Rightarrow> u32" where
  \<comment> \<open>The integer part of the exact quotient \<open>weights[i] * m_numBodies / total\<close>. This is not
      the \<^verbatim>\<open>float\<close> value of line 105 in general (\<open>float32_share\<close> below is); the two agree
      at the inputs of the example platform (lemma \<open>exact_share_agrees\<close>) and differ for
      instance at 24420 bodies and weights 13 and 7 (lemma \<open>exact_share_differs\<close>).\<close>
  "exact_share weights nb i = word_of_int ((weights ! i * uint nb) div sum_list weights)"

subsection \<open>Single-precision arithmetic (lines 95, 96 and 105)\<close>

text \<open>
  The \<^verbatim>\<open>float\<close> operations of the weights loop and of line 105, for IEEE 754 binary32 with
  rounding to nearest, ties to even, every operation rounded on its own. A finite
  \<^verbatim>\<open>float\<close> is a pair \<open>(m, e)\<close> that stands for \<open>m * 2 ^ e\<close>. \<open>float32_round n d e\<close> is the
  \<^verbatim>\<open>float\<close> nearest to \<open>(n / d) * 2 ^ e\<close>, for \<open>d > 0\<close>: the quotient is scaled into
  \<open>[2 ^ 23, 2 ^ 24)\<close> and rounded to an integer of 24 bits. The exponent range is not
  modelled: multiprocessor counts and body counts are 32-bit integers, for which no
  operation here overflows or leaves the normal range. A division by a zero total gives
  an infinity or a NaN, whose conversion to \<^verbatim>\<open>int\<close> is undefined, like the conversion of a
  value outside the range of \<^verbatim>\<open>int\<close>: \<open>None\<close>.

  \<open>float32_share weights nb i\<close> is the value of
  \<^verbatim>\<open>(int)((weights[i] / total) * m_numBodies)\<close> converted to \<^verbatim>\<open>unsigned int\<close>, where
  \<^verbatim>\<open>weights[i]\<close> is the \<^verbatim>\<open>float\<close> of the integer weight (line 95: the multiprocessor count is
  converted and multiplied by \<^verbatim>\<open>4.f\<close> or \<^verbatim>\<open>1.f\<close>, which is exact), \<^verbatim>\<open>total\<close> is the sum
  accumulated by line 96 and \<^verbatim>\<open>m_numBodies\<close> is converted to \<^verbatim>\<open>float\<close>.
  \<open>single_precision P nb nd\<close> says that the share of the platform \<open>P\<close> is this value for each
  of the \<open>nd\<close> devices.
\<close>

function bitlen :: "int \<Rightarrow> int" where
  \<comment> \<open>the number of binary digits of a positive integer\<close>
  "bitlen n = (if n \<le> 0 then 0 else 1 + bitlen (n div 2))"
  by pat_completeness auto

termination bitlen
  by (relation "measure nat") auto

declare bitlen.simps [simp del]

definition round_half_even :: "int \<Rightarrow> int \<Rightarrow> int" where
  \<comment> \<open>\<open>n / d\<close> rounded to the nearest integer, a tie to the even one\<close>
  "round_half_even n d =
     (if 2 * (n mod d) < d then n div d
      else if d < 2 * (n mod d) then n div d + 1
      else if even (n div d) then n div d else n div d + 1)"

definition scaled :: "int \<Rightarrow> int \<Rightarrow> int \<Rightarrow> int \<times> int" where
  \<comment> \<open>numerator and denominator of \<open>(n / d) * 2 ^ s\<close>\<close>
  "scaled n d s = (if 0 \<le> s then (n * 2 ^ nat s, d) else (n, d * 2 ^ nat (- s)))"

definition exponent_near :: "int \<Rightarrow> int \<Rightarrow> int \<Rightarrow> int" where
  "exponent_near t n d = (if snd (scaled n d (- t)) \<le> fst (scaled n d (- t)) then t else t - 1)"

definition binary_exponent :: "int \<Rightarrow> int \<Rightarrow> int" where
  \<comment> \<open>the \<open>k\<close> with \<open>2 ^ k \<le> n / d < 2 ^ (k + 1)\<close>, for positive \<open>n\<close> and \<open>d\<close>: the difference
      of the bit lengths or one less\<close>
  "binary_exponent n d = exponent_near (bitlen n - bitlen d) n d"

type_synonym float32 = "int \<times> int"

definition significand :: "int \<Rightarrow> int \<Rightarrow> int \<Rightarrow> int" where
  "significand n d s = round_half_even (fst (scaled n d s)) (snd (scaled n d s))"

definition float32_round :: "int \<Rightarrow> int \<Rightarrow> int \<Rightarrow> float32" where
  "float32_round n d e =
     (if n = 0 then (0, 0)
      else (sgn n * significand \<bar>n\<bar> d (23 - binary_exponent \<bar>n\<bar> d),
            e - (23 - binary_exponent \<bar>n\<bar> d)))"

definition float32_of_int :: "int \<Rightarrow> float32" where
  "float32_of_int n = float32_round n 1 0"

definition float32_add :: "float32 \<Rightarrow> float32 \<Rightarrow> float32" where
  "float32_add x y =
     float32_round (fst x * 2 ^ nat (snd x - min (snd x) (snd y))
                     + fst y * 2 ^ nat (snd y - min (snd x) (snd y))) 1 (min (snd x) (snd y))"

definition float32_mul :: "float32 \<Rightarrow> float32 \<Rightarrow> float32" where
  "float32_mul x y = float32_round (fst x * fst y) 1 (snd x + snd y)"

definition float32_div :: "float32 \<Rightarrow> float32 \<Rightarrow> float32 option" where
  "float32_div x y =
     (if fst y = 0 then None
      else Some (float32_round (sgn (fst y) * fst x) \<bar>fst y\<bar> (snd x - snd y)))"

definition truncated :: "float32 \<Rightarrow> int" where
  \<comment> \<open>the integer part, towards zero\<close>
  "truncated x = (if 0 \<le> snd x then fst x * 2 ^ nat (snd x)
                  else sgn (fst x) * (\<bar>fst x\<bar> div 2 ^ nat (- snd x)))"

definition float32_to_int :: "float32 \<Rightarrow> int option" where
  \<comment> \<open>the cast \<^verbatim>\<open>(int)\<close>, defined when the integer part is an \<^verbatim>\<open>int\<close>\<close>
  "float32_to_int x =
     (if - (2 ^ 31) \<le> truncated x \<and> truncated x < 2 ^ 31 then Some (truncated x) else None)"

fun float32_sum :: "float32 \<Rightarrow> int list \<Rightarrow> float32" where
  \<comment> \<open>line 96, \<^verbatim>\<open>total += weights[i]\<close>, over the devices in order\<close>
  "float32_sum acc [] = acc"
| "float32_sum acc (w # ws) = float32_sum (float32_add acc (float32_of_int w)) ws"

definition float32_share :: "int list \<Rightarrow> u32 \<Rightarrow> nat \<Rightarrow> u32 option" where
  "float32_share weights nb i =
     (case float32_div (float32_of_int (weights ! i)) (float32_sum (0, 0) weights) of
        None \<Rightarrow> None
      | Some q \<Rightarrow> map_option word_of_int (float32_to_int (float32_mul q (float32_of_int (uint nb)))))"

definition single_share :: "int list \<Rightarrow> u32 \<Rightarrow> nat \<Rightarrow> u32" where
  \<comment> \<open>a share function for concrete platforms; where the conversion is undefined its
      value is arbitrary, and no statement below uses it there\<close>
  "single_share weights nb i = (case float32_share weights nb i of Some c \<Rightarrow> c | None \<Rightarrow> 0)"

definition single_precision :: "platform \<Rightarrow> u32 \<Rightarrow> u32 \<Rightarrow> bool" where
  "single_precision P nb nd \<longleftrightarrow>
     (\<forall>i<unat nd. float32_share (device_weights P nd) nb i
                       = Some (float_share P (device_weights P nd) nb i))"

text \<open>
  The slot table in the words of claim C3, in exact arithmetic, for comparison with the
  code: the count of device \<open>i\<close> is the least multiple of 256 that is not below
  \<open>bodyCount * w_i / sum(w)\<close>, capped at the bodies still unassigned.
\<close>

definition claimed_count :: "int list \<Rightarrow> int \<Rightarrow> int \<Rightarrow> nat \<Rightarrow> int" where
  "claimed_count weights nb unassigned i =
     min unassigned (256 * - ((- (nb * (weights ! i))) div (256 * sum_list weights)))"

fun claimed_table :: "int list \<Rightarrow> int \<Rightarrow> int \<Rightarrow> nat list \<Rightarrow> (int \<times> int) list" where
  "claimed_table weights nb off [] = []"
| "claimed_table weights nb off (i # is) =
     (off, claimed_count weights nb (nb - off) i)
       # claimed_table weights nb (off + claimed_count weights nb (nb - off) i) is"

subsection \<open>What initialisation leaves alone\<close>

definition config ::
  "BodySystemCUDA \<Rightarrow> u32 \<times> u32 \<times> bool \<times> bool \<times> bool \<times> u32 \<times> u32 \<times> u32 \<times> int \<times> scalar \<times> (u32 \<times> u32) list" where
  "config this =
     (m_numBodies this, m_numDevices this, m_bUsePBO this, m_bUseSysMem this,
      m_bUseP2P this, m_currentRead this, m_currentWrite this, m_blockSize this, m_devID this,
      m_damping this, map (\<lambda>d. (offset d, numBodies d)) (m_deviceData this))"

definition keeps :: "BodySystemCUDA \<Rightarrow> BodySystemCUDA \<Rightarrow> bool" where
  "keeps this this' \<longleftrightarrow> config this' = config this \<and> m_bInitialized this' = m_bInitialized this"

definition no_failure :: "platform \<Rightarrow> bool" where
  \<comment> \<open>every call into the CUDA runtime succeeds\<close>
  "no_failure P \<longleftrightarrow> (\<forall>c. cudaResult P c = cudaSuccess)"

subsection \<open>The calls of \<^verbatim>\<open>setSoftening\<close>\<close>

definition softening_calls :: "u32 \<Rightarrow> scalar \<Rightarrow> api list" where
  \<comment> \<open>lines 318 to 326: per device, the device is selected when there are several, then
      the squared softening is set\<close>
  "softening_calls nd sq =
     concat (map (\<lambda>i. (if nd > 1 then [CudaSetDevice (int i)] else []) @ [SetSofteningSquared sq])
               [0..<unat nd])"

subsection \<open>The arrays and their buffers\<close>

text \<open>
  \<open>array_size\<close> is the size in bytes of one array of the system, \<^verbatim>\<open>m_numBodies\<close> elements of
  4 components of type \<^verbatim>\<open>T\<close>, as a natural number. \<open>has_bytes w h n\<close> says that \<open>h\<close> points to
  a live buffer of \<open>n\<close> bytes, \<open>registered w res pbo\<close> that \<open>res\<close> is the graphics resource
  under which the buffer object \<open>pbo\<close> was registered with CUDA, and \<open>reported_size\<close> is the
  size that line 421 reads back for a buffer object (an \<^verbatim>\<open>int\<close> cast to \<^verbatim>\<open>unsigned\<close>).

  \<open>well_formed\<close> describes the object between \<^verbatim>\<open>_initialize\<close> and \<^verbatim>\<open>_finalize\<close>: the flag is
  set, the read index is 0 or 1, there is a device, the two memory flags are not both set,
  the array size fits \<^verbatim>\<open>unsigned int\<close> (so that \<^verbatim>\<open>memSize\<close> of line 132 and the byte counts of
  \<^verbatim>\<open>getArray\<close> and \<^verbatim>\<open>setArray\<close> do not wrap), and every buffer that \<^verbatim>\<open>_initialize\<close>
  allocates for the mode is live and of the array size: the host arrays of lines 136 to
  146 or 167 to 171, and on device 0 the velocities and either the two registered buffer
  objects of lines 180 to 196 or the two position buffers of lines 200 to 201.
\<close>

definition array_size :: "platform \<Rightarrow> BodySystemCUDA \<Rightarrow> nat" where
  "array_size P this = unat (m_numBodies this) * 4 * sizeof_T P"

definition has_bytes :: "world \<Rightarrow> handle \<Rightarrow> nat \<Rightarrow> bool" where
  "has_bytes w h n = (case buffer w h of Some buf \<Rightarrow> length buf = n | None \<Rightarrow> False)"

definition registered :: "world \<Rightarrow> handle \<Rightarrow> handle \<Rightarrow> bool" where
  "registered w res pbo = (case res of Obj r \<Rightarrow> glRegistered w r = Some pbo | _ \<Rightarrow> False)"

definition reported_size :: "world \<Rightarrow> handle \<Rightarrow> nat" where
  "reported_size w h = (case buffer w h of Some buf \<Rightarrow> length buf mod 2 ^ 32 | None \<Rightarrow> 0)"

definition well_formed :: "platform \<Rightarrow> BodySystemCUDA \<Rightarrow> world \<Rightarrow> bool" where
  "well_formed P this w \<longleftrightarrow>
     m_bInitialized this \<and> (m_currentRead this = 0 \<or> m_currentRead this = 1)
   \<and> m_deviceData this \<noteq> [] \<and> \<not> (m_bUsePBO this \<and> m_bUseSysMem this)
   \<and> array_size P this < 2 ^ 32
   \<and> (let n = array_size P this; d0 = m_deviceData this ! 0
      in has_bytes w (fst (m_hPos this)) n \<and> has_bytes w (m_hVel this) n
       \<and> (if m_bUseSysMem this then has_bytes w (snd (m_hPos this)) n
          else has_bytes w (dVel d0) n
             \<and> (if m_bUsePBO this
                then has_bytes w (fst (m_pbo this)) n \<and> has_bytes w (snd (m_pbo this)) n
                   \<and> registered w (fst (m_pGRes this)) (fst (m_pbo this))
                   \<and> registered w (snd (m_pGRes this)) (snd (m_pbo this))
                else has_bytes w (fst (dPos d0)) n \<and> has_bytes w (snd (dPos d0)) n)))"

definition same_memory :: "BodySystemCUDA \<times> world \<Rightarrow> BodySystemCUDA \<times> world \<Rightarrow> bool" where
  \<comment> \<open>a step that neither allocates, frees or writes memory nor changes a pointer member\<close>
  "same_memory s s' \<longleftrightarrow>
     m_hPos (fst s') = m_hPos (fst s) \<and> m_hVel (fst s') = m_hVel (fst s)
   \<and> m_pbo (fst s') = m_pbo (fst s) \<and> m_pGRes (fst s') = m_pGRes (fst s)
   \<and> store (snd s') = store (snd s) \<and> glRegistered (snd s') = glRegistered (snd s)"


definition setArray_calls ::
  "platform \<Rightarrow> BodyArray \<Rightarrow> byte list \<Rightarrow> BodySystemCUDA \<times> world \<Rightarrow> error + api list" where
  "setArray_calls P array X st =
     bindE (setArray P array X (fst st) (snd st)) (\<lambda>(this1, w1).
       Inr (drop (length (calls (snd st))) (calls w1)))"


subsection \<open>A concrete platform\<close>

text \<open>
  For the concrete instances: a platform of identical devices (8 multiprocessors, compute
  capability 2) with \<^verbatim>\<open>T = float\<close>, on which no call fails, whose shares are the exact
  quotients (the single-precision values at the inputs used with it, see
  \<open>exact_share_agrees\<close>) and whose integration routine changes nothing; and the platform
  state before any call.
\<close>

definition example_platform :: platform where
  "example_platform =
     \<lparr>sizeof_T = 4, cudaResult = (\<lambda>c. cudaSuccess),
      deviceProp = (\<lambda>i. \<lparr>multiProcessorCount = 8, major = 2\<rparr>),
      float_share = exact_share, glOutOfMemory = (\<lambda>n. False),
      integrateNbodySystem =
        (\<lambda>dd pGRes currentRead deltaTime damping nb nd blockSize usePBO w. Inr (dd, pGRes, w))\<rparr>"

definition empty_world :: world where
  "empty_world = \<lparr>store = (\<lambda>n. None), nextObj = 0, glArrayBuffer = Null,
                   glRegistered = (\<lambda>n. None), mapped = {}, calls = []\<rparr>"

text \<open>
  Platforms with single-precision shares: like the example platform, with the given
  device properties. \<open>equal_devices\<close> are the devices of the example platform;
  \<open>skewed_devices\<close> have weights 4 (device 0) and 1; \<open>devices_13_7\<close> have weights 13 (device
  0) and 7. \<open>slot_table\<close> is the table of offsets and counts that an initialisation leaves.
\<close>

definition single_precision_platform :: "(nat \<Rightarrow> cudaDeviceProp) \<Rightarrow> platform" where
  "single_precision_platform props = example_platform\<lparr>deviceProp := props, float_share := single_share\<rparr>"

definition equal_devices :: "nat \<Rightarrow> cudaDeviceProp" where
  "equal_devices i = \<lparr>multiProcessorCount = 8, major = 2\<rparr>"

definition skewed_devices :: "nat \<Rightarrow> cudaDeviceProp" where
  "skewed_devices i = (if i = 0 then \<lparr>multiProcessorCount = 1, major = 2\<rparr>
                       else \<lparr>multiProcessorCount = 1, major = 1\<rparr>)"

definition devices_13_7 :: "nat \<Rightarrow> cudaDeviceProp" where
  "devices_13_7 i = (if i = 0 then \<lparr>multiProcessorCount = 13, major = 1\<rparr>
                     else \<lparr>multiProcessorCount = 7, major = 1\<rparr>)"

definition slot_table :: "error + (BodySystemCUDA \<times> world) \<Rightarrow> error + (u32 \<times> u32) list" where
  "slot_table r = bindE r (\<lambda>(this, w). Inr (map (\<lambda>d. (offset d, numBodies d)) (m_deviceData this)))"

section \<open>Proofs\<close>

subsection \<open>Sequencing and loops\<close>

lemma bindE_Inr [simp]: "bindE (Inr x) f = f x"
  by (simp add: bindE_def)

lemma bindE_Inl [simp]: "bindE (Inl e) f = Inl e"
  by (simp add: bindE_def)

lemma bindE_InrE:
  assumes "bindE m f = Inr y"
  obtains x where "m = Inr x" "f x = Inr y"
  using assms by (cases m) simp_all

lemma forE_append: "forE (xs @ ys) body s = bindE (forE xs body s) (forE ys body)"
proof (induction xs arbitrary: s)
  case Nil
  show ?case by simp
next
  case (Cons x xs)
  show ?case by (cases "body x s") (simp_all add: Cons)
qed

lemma forE_snoc: "forE (xs @ [i]) body s = bindE (forE xs body s) (body i)"
proof -
  have "forE [i] body = body i"
    by (rule ext) (simp add: bindE_def split: sum.splits)
  then show ?thesis by (simp add: forE_append)
qed

lemma forE_total:
  assumes "I s"
    and "\<And>i s. i \<in> set is \<Longrightarrow> I s \<Longrightarrow> \<exists>s'. body i s = Inr s' \<and> I s'"
  shows "\<exists>s'. forE is body s = Inr s' \<and> I s'"
  using assms
proof (induction "is" arbitrary: s)
  case Nil
  then show ?case by simp
next
  case (Cons i "is")
  from Cons.prems(2) [of i s] Cons.prems(1) obtain s1 where a: "body i s = Inr s1" "I s1" by auto
  have "\<exists>s'. forE is body s1 = Inr s' \<and> I s'"
    by (rule Cons.IH [OF a(2)]) (simp add: Cons.prems(2))
  then show ?case using a by simp
qed

lemma elem_at_Inr: "elem_at xs i = Inr d \<longleftrightarrow> i < length xs \<and> d = xs ! i"
  by (auto simp: elem_at_def)

lemma map_update_same: "f x = f (xs ! i) \<Longrightarrow> map f (xs[i := x]) = map f xs"
  by (cases "i < length xs") (simp_all add: map_update list_update_same_conv list_update_beyond)

lemma upt_2: "[0..<2] = [0, Suc 0]"
  by (simp add: numeral_2_eq_2)

lemma upt_3: "[0..<3] = [0, Suc 0, Suc (Suc 0)]"
  by (simp add: numeral_3_eq_3)

subsection \<open>The partition loop in closed form\<close>

lemma partition_body_eq:
  assumes "i < length dd" "off + rem = nb"
  shows "partition_body share nb nd i (off, rem, dd) =
     Inr (off + capped_share share nb off i, rem - capped_share share nb off i,
          dd[i := slot_of share nb nd i off (dd ! i)])"
proof -
  have r: "rem = nb - off" using assms(2) by (simp add: algebra_simps)
  show ?thesis using assms(1)
    by (simp add: partition_body_def capped_share_def absorbed_def slot_of_def Let_def r)
qed

lemma partition_prefix:
  assumes "k \<le> length dd"
  shows "forE [0..<k] (partition_body share nb nd) (0, nb, dd) =
           Inr (offset_before share nb k, nb - offset_before share nb k,
                map (\<lambda>j. slot_of share nb nd j (offset_before share nb j) (dd ! j)) [0..<k] @ drop k dd)"
  using assms
proof (induction k)
  case 0
  show ?case by simp
next
  case (Suc k)
  let ?f = "\<lambda>j. slot_of share nb nd j (offset_before share nb j) (dd ! j)"
  let ?dd = "map ?f [0..<k] @ drop k dd"
  have st: "forE [0..<k] (partition_body share nb nd) (0, nb, dd)
              = Inr (offset_before share nb k, nb - offset_before share nb k, ?dd)"
    using Suc by simp
  have k: "k < length ?dd" using Suc.prems by simp
  have nth: "?dd ! k = dd ! k" using Suc.prems by (simp add: nth_append)
  have upd: "?dd[k := ?f k] = map ?f [0..<Suc k] @ drop (Suc k) dd"
    using Suc.prems by (simp add: list_update_append Cons_nth_drop_Suc [symmetric])
  have "forE [0..<Suc k] (partition_body share nb nd) (0, nb, dd)
          = partition_body share nb nd k (offset_before share nb k, nb - offset_before share nb k, ?dd)"
    by (simp add: forE_snoc st)
  also have "\<dots> = Inr (offset_before share nb k + capped_share share nb (offset_before share nb k) k,
                       nb - offset_before share nb k - capped_share share nb (offset_before share nb k) k,
                       ?dd[k := slot_of share nb nd k (offset_before share nb k) (?dd ! k)])"
    by (rule partition_body_eq [OF k]) simp
  finally show ?case unfolding nth upd by (simp add: algebra_simps)
qed

lemma partition_devices_eq:
  "partition_devices share nb nd =
     Inr (map (\<lambda>j. slot_of share nb nd j (offset_before share nb j) fresh_DeviceData) [0..<unat nd])"
proof -
  have "forE [0..<unat nd] (partition_body share nb nd) (0, nb, replicate (unat nd) fresh_DeviceData)
      = Inr (offset_before share nb (unat nd), nb - offset_before share nb (unat nd),
             map (\<lambda>j. slot_of share nb nd j (offset_before share nb j) (replicate (unat nd) fresh_DeviceData ! j)) [0..<unat nd]
               @ drop (unat nd) (replicate (unat nd) fresh_DeviceData))"
    by (rule partition_prefix) simp
  then show ?thesis by (simp add: partition_devices_def cong: map_cong)
qed

lemma slots_partition:
  "slots (partition_devices share nb nd) =
     Inr (map (\<lambda>j. (offset_before share nb j,
                      capped_share share nb (offset_before share nb j) j
                        + absorbed nb nd (offset_before share nb j) j
                            (capped_share share nb (offset_before share nb j) j))) [0..<unat nd])"
  by (simp add: slots_def partition_devices_eq slot_of_def comp_def)

lemma offset_before_sum:
  "offset_before share nb k = (\<Sum>j<k. capped_share share nb (offset_before share nb j) j)"
  by (induction k) simp_all

lemma not_last:
  assumes "Suc i < unat (nd :: u32)"
  shows "(of_nat i :: u32) \<noteq> nd - 1"
proof
  assume e: "(of_nat i :: u32) = nd - 1"
  have "unat nd < 2 ^ 32" using unsigned_less [of nd, where 'a = nat] by simp
  then have i: "i < 2 ^ 32" using assms by simp
  have "nd \<noteq> 0" using assms by auto
  then have "unat (nd - 1) = unat nd - 1" by (simp add: unat_minus_one)
  moreover have "unat (of_nat i :: u32) = i" using i by (simp add: unat_of_nat)
  ultimately show False using e assms by simp
qed

lemma is_last:
  assumes "Suc i = unat (nd :: u32)"
  shows "(of_nat i :: u32) = nd - 1"
proof -
  have "nd = of_nat (Suc i)" using assms by simp
  then show ?thesis by simp
qed

lemma last_iff:
  assumes "i < unat (nd :: u32)"
  shows "(of_nat i :: u32) = nd - 1 \<longleftrightarrow> Suc i = unat nd"
  using assms not_last [of i nd] is_last [of i nd] by (cases "Suc i = unat nd") auto

subsection \<open>What initialisation leaves alone\<close>

lemma keeps_refl [simp]: "keeps this this" by (simp add: keeps_def)
lemma keeps_trans: "keeps a b \<Longrightarrow> keeps b c \<Longrightarrow> keeps a c" by (simp add: keeps_def)

lemma forE_keeps:
  assumes "forE is body (this, w) = Inr (this', w')"
    and body: "\<And>i this w this' w'. body i (this, w) = Inr (this', w') \<Longrightarrow> keeps this this'"
  shows "keeps this this'"
  using assms(1)
proof (induction "is" arbitrary: this w)
  case Nil
  then show ?case by simp
next
  case (Cons i "is")
  from Cons.prems obtain s1 where a: "body i (this, w) = Inr s1" and b: "forE is body s1 = Inr (this', w')"
    by (auto elim!: bindE_InrE)
  obtain this1 w1 where s1: "s1 = (this1, w1)" by (cases s1)
  have "keeps this this1" using body a unfolding s1 by blast
  moreover have "keeps this1 this'" using Cons.IH b unfolding s1 by blast
  ultimately show ?case by (rule keeps_trans)
qed

lemma assign_slot_keeps:
  assumes "assign_slot i f put (this, w) = Inr (this', w')"
    and "\<And>x d. offset (put x d) = offset d \<and> numBodies (put x d) = numBodies d"
  shows "keeps this this'"
  using assms(1) unfolding assign_slot_def
  by (auto elim!: bindE_InrE simp: elem_at_Inr keeps_def config_def map_update_same assms(2))

lemmas put_defs = put_event_def put_dPos0_def put_dPos1_def put_dVel_def

lemma sysmem_body_keeps:
  assumes "sysmem_body P i (this, w) = Inr (this', w')"
  shows "keeps this this'"
proof -
  from assms obtain w1 this1 wa this2 wb this3 wc where
    "assign_slot i (cudaEventCreate P) put_event (this, w1) = Inr (this1, wa)"
    "assign_slot i (cudaHostGetDevicePointer P (fst (m_hPos this))) put_dPos0 (this1, wa) = Inr (this2, wb)"
    "assign_slot i (cudaHostGetDevicePointer P (snd (m_hPos this))) put_dPos1 (this2, wb) = Inr (this3, wc)"
    "assign_slot i (cudaHostGetDevicePointer P (m_hVel this)) put_dVel (this3, wc) = Inr (this', w')"
    unfolding sysmem_body_def by (auto elim!: bindE_InrE)
  then have "keeps this this1" "keeps this1 this2" "keeps this2 this3" "keeps this3 this'"
    by (auto intro!: assign_slot_keeps simp: put_defs)
  then show ?thesis by (blast intro: keeps_trans)
qed

lemma assign_slot_event_keeps:
  "assign_slot i f put_event (this, w) = Inr (this', w') \<Longrightarrow> keeps this this'"
  by (erule assign_slot_keeps) (simp add: put_defs)

lemma p2p_body_keeps:
  assumes "p2p_body P i (this, w) = Inr (this', w')"
  shows "keeps this this'"
  using assms unfolding p2p_body_def Let_def
  by (auto elim!: bindE_InrE dest!: assign_slot_event_keeps simp: keeps_def config_def map_update_same)

lemma pbo_body_keeps:
  assumes "pbo_body P memSize i (this, w) = Inr (this', w')"
  shows "keeps this this'"
  using assms unfolding pbo_body_def Let_def
  by (auto elim!: bindE_InrE simp: keeps_def config_def)

lemma init_sysmem_keeps:
  assumes "init_sysmem P memSize this w = Inr (this', w')"
  shows "keeps this this'"
proof -
  from assms obtain h0 h1 hv w6 where
    "forE [0..<unat (m_numDevices this)] (sysmem_body P) (this\<lparr>m_hPos := (h0, h1), m_hVel := hv\<rparr>, w6) = Inr (this', w')"
    unfolding init_sysmem_def by (auto elim!: bindE_InrE)
  then have "keeps (this\<lparr>m_hPos := (h0, h1), m_hVel := hv\<rparr>) this'"
    by (rule forE_keeps) (rule sysmem_body_keeps)
  then show ?thesis by (simp add: keeps_def config_def)
qed

lemma init_positions_keeps:
  assumes "init_positions P memSize (this, w) = Inr (this', w')"
  shows "keeps this this'"
proof (cases "m_bUsePBO this")
  case True
  with assms have "forE [0..<2] (pbo_body P memSize)
      (this\<lparr>m_pbo := fst (glGenBuffers2 w)\<rparr>, snd (glGenBuffers2 w)) = Inr (this', w')"
    by (simp add: init_positions_def Let_def)
  then have "keeps (this\<lparr>m_pbo := fst (glGenBuffers2 w)\<rparr>) this'"
    by (rule forE_keeps) (rule pbo_body_keeps)
  then show ?thesis by (simp add: keeps_def config_def)
next
  case False
  with assms obtain this1 w1 where
    "assign_slot 0 (cudaMalloc P (unat memSize)) put_dPos0 (this, w) = Inr (this1, w1)"
    "assign_slot 0 (cudaMalloc P (unat memSize)) put_dPos1 (this1, w1) = Inr (this', w')"
    by (auto simp: init_positions_def elim!: bindE_InrE)
  then have "keeps this this1" "keeps this1 this'"
    by (auto intro!: assign_slot_keeps simp: put_defs)
  then show ?thesis by (rule keeps_trans)
qed

lemma init_p2p_keeps:
  assumes "init_p2p P (this, w) = Inr (this', w')"
  shows "keeps this this'"
proof (cases "m_bUseP2P this")
  case True
  with assms have "forE [1..<unat (m_numDevices this)] (p2p_body P) (this, w) = Inr (this', w')"
    by (simp add: init_p2p_def)
  then show ?thesis by (rule forE_keeps) (rule p2p_body_keeps)
next
  case False
  with assms show ?thesis by (simp add: init_p2p_def)
qed

lemma init_buffers_keeps:
  assumes "init_buffers P memSize this w = Inr (this', w')"
  shows "keeps this this'"
proof -
  from assms obtain h0 hv w5 this2 w6 this3 w7 where
    a: "assign_slot 0 (cudaEventCreate P) put_event (this\<lparr>m_hPos := (h0, snd (m_hPos this)), m_hVel := hv\<rparr>, w5) = Inr (this2, w6)"
    and b: "init_positions P memSize (this2, w6) = Inr (this3, w7)"
    and c: "assign_slot 0 (cudaMalloc P (unat memSize)) put_dVel (this3, w7) = Inr (this', w')"
    unfolding init_buffers_def Let_def by (auto elim!: bindE_InrE)
  have "keeps this (this\<lparr>m_hPos := (h0, snd (m_hPos this)), m_hVel := hv\<rparr>)"
    by (simp add: keeps_def config_def)
  moreover have "keeps (this\<lparr>m_hPos := (h0, snd (m_hPos this)), m_hVel := hv\<rparr>) this2"
    using a by (rule assign_slot_keeps) (simp add: put_defs)
  moreover have "keeps this2 this3" using b by (rule init_positions_keeps)
  moreover have "keeps this3 this'" using c by (rule assign_slot_keeps) (simp add: put_defs)
  ultimately show ?thesis by (blast intro: keeps_trans)
qed

lemma init_device_keeps:
  assumes "init_device P memSize this w = Inr (this', w')"
  shows "keeps this this'"
proof -
  from assms obtain this1 w1 where a: "init_buffers P memSize this w = Inr (this1, w1)"
    and b: "init_p2p P (this1, w1) = Inr (this', w')"
    unfolding init_device_def by (auto elim!: bindE_InrE)
  show ?thesis using init_buffers_keeps [OF a] init_p2p_keeps [OF b] by (rule keeps_trans)
qed

lemma weights_loop:
  assumes "forE [0..<k] (weights_body P) ([], w) = Inr (ws, w1)"
  shows "ws = map (\<lambda>i. weight (deviceProp P i)) [0..<k]"
  using assms
proof (induction k arbitrary: ws w1)
  case 0
  then show ?case by simp
next
  case (Suc k)
  from Suc.prems obtain ws0 w0 where a: "forE [0..<k] (weights_body P) ([], w) = Inr (ws0, w0)"
    and b: "weights_body P k (ws0, w0) = Inr (ws, w1)"
    by (auto simp: forE_snoc elim!: bindE_InrE)
  from b have "ws = ws0 @ [weight (deviceProp P k)]"
    by (auto simp: weights_body_def cudaGetDeviceProperties_def elim!: bindE_InrE)
  then show ?case using Suc.IH [OF a] by simp
qed

lemma initialize_Inr:
  assumes "initialize P nb this w = Inr (this', w')"
  shows "\<not> m_bInitialized this \<and> m_bInitialized this'
       \<and> (\<exists>dd. partition_devices (float_share P (device_weights P (m_numDevices this)) nb) nb (m_numDevices this) = Inr dd
              \<and> config this' = config (this\<lparr>m_numBodies := nb, m_deviceData := dd\<rparr>))"
proof -
  from assms have ni: "\<not> m_bInitialized this" by (auto simp: initialize_def split: if_splits)
  from assms ni obtain ws w1 dd this3 where
    ws: "forE [0..<unat (m_numDevices this)] (weights_body P) ([], w) = Inr (ws, w1)"
    and dd: "partition_devices (float_share P ws nb) nb (m_numDevices this) = Inr dd"
    and blk: "(if m_bUseSysMem this then init_sysmem P (of_nat (sizeof_T P) * 4 * nb) (this\<lparr>m_numBodies := nb, m_deviceData := dd\<rparr>) w1
               else init_device P (of_nat (sizeof_T P) * 4 * nb) (this\<lparr>m_numBodies := nb, m_deviceData := dd\<rparr>) w1) = Inr (this3, w')"
    and fin: "this' = this3\<lparr>m_bInitialized := True\<rparr>"
    unfolding initialize_def Let_def by (auto elim!: bindE_InrE)
  have wsd: "ws = device_weights P (m_numDevices this)"
    using weights_loop [OF ws] by (simp add: device_weights_def)
  have "keeps (this\<lparr>m_numBodies := nb, m_deviceData := dd\<rparr>) this3"
    using blk init_sysmem_keeps init_device_keeps by (auto split: if_splits)
  then have "config this' = config (this\<lparr>m_numBodies := nb, m_deviceData := dd\<rparr>)"
    by (simp add: fin keeps_def config_def)
  then show ?thesis using ni dd wsd by (simp add: fin)
qed

subsection \<open>When no runtime call fails\<close>

lemma cuda_call_ok [simp]: "no_failure P \<Longrightarrow> cuda_call P c w = Inr (call c w)"
  by (simp add: cuda_call_def checkCudaErrors_def no_failure_def)

lemma memSize_le: "unat (of_nat s * 4 * nb :: u32) \<le> unat (nb * 4) * s"
proof -
  have "of_nat s * 4 * nb = (of_nat s * (nb * 4) :: u32)"
    by (simp add: ac_simps)
  then have "unat (of_nat s * 4 * nb :: u32) = unat (of_nat s * (nb * 4) :: u32)"
    by (rule arg_cong)
  also have "\<dots> = (unat (of_nat s :: u32) * unat (nb * 4)) mod 2 ^ 32"
    by (simp add: unat_mult_lem unat_word_ariths(2))
  also have "\<dots> = ((s mod 2 ^ 32) * unat (nb * 4)) mod 2 ^ 32"
    by (simp add: unat_of_nat)
  also have "\<dots> = (s * unat (nb * 4)) mod 2 ^ 32"
    by (rule mod_mult_left_eq)
  also have "\<dots> \<le> s * unat (nb * 4)" by (rule mod_less_eq_dividend)
  finally show ?thesis by (simp add: mult.commute)
qed

lemma keeps_length: "keeps this this' \<Longrightarrow> length (m_deviceData this') = length (m_deviceData this)"
  unfolding keeps_def config_def by (auto dest: map_eq_imp_length_eq)

lemma assign_slot_ok:
  assumes "i < length (m_deviceData this)" "f w = Inr (x, w1)"
  shows "assign_slot i f put (this, w) =
           Inr (this\<lparr>m_deviceData := (m_deviceData this)[i := put x (m_deviceData this ! i)]\<rparr>, w1)"
  using assms by (simp add: assign_slot_def elem_at_def)

lemma cudaEventCreate_ok: "no_failure P \<Longrightarrow> cudaEventCreate P w = Inr (new_handle (call CudaEventCreate w))"
  by (simp add: cudaEventCreate_def)

lemma cudaHostGetDevicePointer_ok:
  "no_failure P \<Longrightarrow> cudaHostGetDevicePointer P h w = Inr (h, call (CudaHostGetDevicePointer h) w)"
  by (simp add: cudaHostGetDevicePointer_def)

lemma cudaMalloc_ok: "no_failure P \<Longrightarrow> cudaMalloc P n w = Inr (allocate n (call (CudaMalloc n) w))"
  by (simp add: cudaMalloc_def)

lemma cudaHostAlloc_ok: "no_failure P \<Longrightarrow> cudaHostAlloc P n w = Inr (allocate n (call (CudaHostAlloc n) w))"
  by (simp add: cudaHostAlloc_def)

lemmas cuda_simps = cudaSetDevice_def cudaEventCreate_def cudaHostGetDevicePointer_def
  cudaMalloc_def cudaHostAlloc_def cudaGraphicsGLRegisterBuffer_def setSofteningSquared_def


lemma sysmem_body_total:
  assumes "no_failure P" "i < length (m_deviceData this)"
  shows "\<exists>this' w'. sysmem_body P i (this, w) = Inr (this', w')"
  using assms
  by (simp add: sysmem_body_def assign_slot_def elem_at_def cuda_simps new_handle_def)


subsection \<open>Evaluation at concrete inputs\<close>

lemmas prim_defs = cuda_call_def checkCudaErrors_def call_def allocate_def new_handle_def buffer_def
  read_bytes_def write_bytes_def release_def new_array_def delete_array_def memset_zero_def memcpy_def
  fprintf_def cudaGetDeviceProperties_def cudaHostAlloc_def cudaMalloc_def cudaHostGetDevicePointer_def
  cudaSetDevice_def cudaEventCreate_def cudaFreeHost_def cudaFree_def cudaEventDestroy_def
  cudaGraphicsGLRegisterBuffer_def cudaGraphicsUnregisterResource_def cudaGraphicsResourceSetMapFlags_def
  cudaGraphicsMapResources_def cudaGraphicsResourceGetMappedPointer_def cudaGraphicsUnmapResources_def
  cudaMemcpyDeviceToHost_def cudaMemcpyHostToDevice_def setSofteningSquared_def glGenBuffers2_def
  glBindBuffer_def glBufferData_def glGetBufferSize_def glBufferSubData_def glDeleteBuffers_def

lemmas init_defs = initialize_def weights_body_def weight_def init_sysmem_def sysmem_body_def
  assign_slot_def put_defs elem_at_def index2_def update2_def init_device_def init_buffers_def
  init_positions_def pbo_body_def init_p2p_def p2p_body_def

lemma upt_1_2: "[Suc 0..<2] = [Suc 0]"
  by (simp add: numeral_2_eq_2)

lemmas eval_simps = init_defs prim_defs partition_devices_eq example_platform_def empty_world_def
  initial_members_def upt_2 upt_1_2 Let_def

lemma initialize_slots:
  assumes "initialize P nb this w = Inr (this', w')"
  shows "map (\<lambda>d. (offset d, numBodies d)) (m_deviceData this') =
         map (\<lambda>j. (offset_before (float_share P (device_weights P (m_numDevices this)) nb) nb j,
                      capped_share (float_share P (device_weights P (m_numDevices this)) nb) nb
                         (offset_before (float_share P (device_weights P (m_numDevices this)) nb) nb j) j
                        + absorbed nb (m_numDevices this)
                            (offset_before (float_share P (device_weights P (m_numDevices this)) nb) nb j) j
                            (capped_share (float_share P (device_weights P (m_numDevices this)) nb) nb
                               (offset_before (float_share P (device_weights P (m_numDevices this)) nb) nb j) j)))
             [0..<unat (m_numDevices this)]"
proof -
  let ?share = "float_share P (device_weights P (m_numDevices this)) nb"
  from initialize_Inr [OF assms] obtain dd where
    dd: "partition_devices ?share nb (m_numDevices this) = Inr dd"
    and c: "config this' = config (this\<lparr>m_numBodies := nb, m_deviceData := dd\<rparr>)"
    by blast
  have "map (\<lambda>d. (offset d, numBodies d)) (m_deviceData this') = map (\<lambda>d. (offset d, numBodies d)) dd"
    using c by (simp add: config_def)
  moreover have "slots (partition_devices ?share nb (m_numDevices this)) = Inr (map (\<lambda>d. (offset d, numBodies d)) dd)"
    by (simp add: dd slots_def)
  ultimately show ?thesis by (simp add: slots_partition)
qed

subsection \<open>Initialisation and construction succeed when no runtime call fails\<close>

lemma weights_loop_total:
  assumes "no_failure P"
  shows "\<exists>ws w1. forE [0..<k] (weights_body P) (ws0, w) = Inr (ws, w1)"
proof -
  have "\<exists>s'. forE [0..<k] (weights_body P) (ws0, w) = Inr s' \<and> True"
    by (rule forE_total) (use assms in \<open>auto simp: weights_body_def cudaGetDeviceProperties_def\<close>)
  then show ?thesis by auto
qed

lemma sysmem_loop_total:
  assumes "no_failure P" "k \<le> length (m_deviceData this)"
  shows "\<exists>this' w'. forE [0..<k] (sysmem_body P) (this, w) = Inr (this', w')"
proof -
  let ?I = "\<lambda>s. length (m_deviceData (fst s)) = length (m_deviceData this)"
  have "\<exists>s'. forE [0..<k] (sysmem_body P) (this, w) = Inr s' \<and> ?I s'"
  proof (rule forE_total)
    show "?I (this, w)" by simp
  next
    fix i and s :: "BodySystemCUDA \<times> world" assume i: "i \<in> set [0..<k]" and I: "?I s"
    obtain t v where s: "s = (t, v)" by (cases s)
    have "i < length (m_deviceData t)" using i I assms(2) s by simp
    then obtain t' v' where b: "sysmem_body P i (t, v) = Inr (t', v')"
      using sysmem_body_total [OF assms(1)] by blast
    have "length (m_deviceData t') = length (m_deviceData t)"
      using sysmem_body_keeps [OF b] by (rule keeps_length)
    then show "\<exists>s'. sysmem_body P i s = Inr s' \<and> ?I s'" using b I s by simp
  qed
  then show ?thesis by auto
qed

lemma p2p_body_total:
  assumes "no_failure P" "i < length (m_deviceData this)"
  shows "\<exists>this' w'. p2p_body P i (this, w) = Inr (this', w')"
  using assms length_greater_0_conv [of "m_deviceData this"]
  by (auto simp: p2p_body_def assign_slot_def elem_at_def cuda_simps new_handle_def Let_def
        no_failure_def checkCudaErrors_def)

lemma p2p_loop_total:
  assumes "no_failure P" "k \<le> length (m_deviceData this)"
  shows "\<exists>this' w'. forE [j..<k] (p2p_body P) (this, w) = Inr (this', w')"
proof -
  let ?I = "\<lambda>s. length (m_deviceData (fst s)) = length (m_deviceData this)"
  have "\<exists>s'. forE [j..<k] (p2p_body P) (this, w) = Inr s' \<and> ?I s'"
  proof (rule forE_total)
    show "?I (this, w)" by simp
  next
    fix i and s :: "BodySystemCUDA \<times> world" assume i: "i \<in> set [j..<k]" and I: "?I s"
    obtain t v where s: "s = (t, v)" by (cases s)
    have "i < length (m_deviceData t)" using i I assms(2) s by simp
    then obtain t' v' where b: "p2p_body P i (t, v) = Inr (t', v')"
      using p2p_body_total [OF assms(1)] by blast
    have "length (m_deviceData t') = length (m_deviceData t)"
      using p2p_body_keeps [OF b] by (rule keeps_length)
    then show "\<exists>s'. p2p_body P i s = Inr s' \<and> ?I s'" using b I s by simp
  qed
  then show ?thesis by auto
qed

lemma init_p2p_total:
  assumes "no_failure P" "unat (m_numDevices this) \<le> length (m_deviceData this)"
  shows "\<exists>this' w'. init_p2p P (this, w) = Inr (this', w')"
  using p2p_loop_total [OF assms] by (simp add: init_p2p_def)

lemma softening_loop_total:
  assumes "no_failure P"
  shows "\<exists>w1. forE is (softening_body P nd sq) w = Inr w1"
proof -
  have "\<exists>s'. forE is (softening_body P nd sq) w = Inr s' \<and> True"
    by (rule forE_total) (use assms in \<open>auto simp: softening_body_def cuda_simps\<close>)
  then show ?thesis by auto
qed

lemma init_buffers_total:
  assumes "no_failure P" "0 < length (m_deviceData this)"
    and "memSize = of_nat (sizeof_T P) * 4 * m_numBodies this"
  shows "\<exists>this' w'. init_buffers P memSize this w = Inr (this', w')"
proof -
  have le: "unat memSize \<le> unat (m_numBodies this * 4) * sizeof_T P"
    unfolding assms(3) by (rule memSize_le)
  show ?thesis
    using assms(1,2) le
    by (simp add: init_buffers_def init_positions_def pbo_body_def assign_slot_def elem_at_def
          index2_def update2_def upt_2 Let_def prim_defs put_defs no_failure_def
        split: option.splits)
qed

lemma init_sysmem_total:
  assumes "no_failure P" "unat (m_numDevices this) \<le> length (m_deviceData this)"
  shows "\<exists>this' w'. init_sysmem P memSize this w = Inr (this', w')"
proof -
  have "\<exists>h0 h1 hv w6. init_sysmem P memSize this w =
          forE [0..<unat (m_numDevices this)] (sysmem_body P) (this\<lparr>m_hPos := (h0, h1), m_hVel := hv\<rparr>, w6)"
    using assms(1)
    apply (simp add: init_sysmem_def prim_defs no_failure_def)
    apply (intro exI)
    apply (rule refl)
    done
  then obtain h0 h1 hv w6 where e: "init_sysmem P memSize this w =
          forE [0..<unat (m_numDevices this)] (sysmem_body P) (this\<lparr>m_hPos := (h0, h1), m_hVel := hv\<rparr>, w6)"
    by blast
  show ?thesis unfolding e
    by (rule sysmem_loop_total [OF assms(1)]) (simp add: assms(2))
qed

lemma init_device_total:
  assumes "no_failure P" "0 < length (m_deviceData this)"
    and "unat (m_numDevices this) \<le> length (m_deviceData this)"
    and "memSize = of_nat (sizeof_T P) * 4 * m_numBodies this"
  shows "\<exists>this' w'. init_device P memSize this w = Inr (this', w')"
proof -
  obtain this1 w1 where b: "init_buffers P memSize this w = Inr (this1, w1)"
    using init_buffers_total [OF assms(1,2,4)] by blast
  have k: "keeps this this1" using b by (rule init_buffers_keeps)
  have "length (m_deviceData this1) = length (m_deviceData this)" using k by (rule keeps_length)
  moreover have "m_numDevices this1 = m_numDevices this" using k by (simp add: keeps_def config_def)
  ultimately have "unat (m_numDevices this1) \<le> length (m_deviceData this1)" using assms(3) by simp
  then show ?thesis
    unfolding init_device_def b bindE_Inr by (rule init_p2p_total [OF assms(1)])
qed

lemma length_partition:
  "partition_devices share nb nd = Inr dd \<Longrightarrow> length dd = unat nd"
  by (auto simp: partition_devices_eq)

lemma initialize_total:
  assumes "no_failure P" "\<not> m_bInitialized this" "m_bUseSysMem this \<or> m_numDevices this \<noteq> 0"
  shows "\<exists>this' w'. initialize P nb this w = Inr (this', w')"
proof -
  let ?nd = "m_numDevices this"
  obtain ws w1 where ws: "forE [0..<unat ?nd] (weights_body P) ([], w) = Inr (ws, w1)"
    using weights_loop_total [OF assms(1)] by blast
  obtain dd where dd: "partition_devices (float_share P ws nb) nb ?nd = Inr dd"
    by (simp add: partition_devices_eq)
  have len: "length dd = unat ?nd" using dd by (rule length_partition)
  let ?this2 = "this\<lparr>m_numBodies := nb, m_deviceData := dd\<rparr>"
  let ?ms = "of_nat (sizeof_T P) * 4 * nb :: u32"
  have "\<exists>this3 w2. (if m_bUseSysMem ?this2 then init_sysmem P ?ms ?this2 w1
                      else init_device P ?ms ?this2 w1) = Inr (this3, w2)"
  proof (cases "m_bUseSysMem this")
    case True
    then show ?thesis using init_sysmem_total [OF assms(1), of ?this2 ?ms w1] len by simp
  next
    case False
    then have "?nd \<noteq> 0" using assms(3) by simp
    then have "0 < unat ?nd" by (simp add: unat_gt_0)
    then show ?thesis using init_device_total [OF assms(1), of ?this2 ?ms w1] len False by simp
  qed
  then obtain this3 w2 where "(if m_bUseSysMem ?this2 then init_sysmem P ?ms ?this2 w1
                      else init_device P ?ms ?this2 w1) = Inr (this3, w2)" by blast
  then show ?thesis
    using assms(2) by (simp add: initialize_def Let_def ws dd)
qed

lemma setSoftening_Inr:
  "setSoftening P s this w = Inr (this', w') \<Longrightarrow> this' = this"
  by (auto simp: setSoftening_def Let_def elim!: bindE_InrE)

lemma ctor_Inr:
  assumes "BodySystemCUDA_ctor P nb nd bs pbo sys p2p dev w = Inr (this, w')"
  shows "\<exists>this1 w1. initialize P nb (initial_members nb nd bs pbo sys p2p dev) w = Inr (this1, w1)
           \<and> setSoftening P (FloatLiteral ''0.00125f'') this1 w1 = Inr (this1, w')
           \<and> this = this1\<lparr>m_damping := FloatLiteral ''0.995f''\<rparr>"
proof -
  from assms obtain this1 w1 this2 where
    a: "initialize P nb (initial_members nb nd bs pbo sys p2p dev) w = Inr (this1, w1)"
    and b: "setSoftening P (FloatLiteral ''0.00125f'') this1 w1 = Inr (this2, w')"
    and c: "this = this2\<lparr>m_damping := FloatLiteral ''0.995f''\<rparr>"
    unfolding BodySystemCUDA_ctor_def setDamping_def by (auto elim!: bindE_InrE)
  have "this2 = this1" using b by (rule setSoftening_Inr)
  then show ?thesis using a b c by simp
qed

lemma ctor_config:
  assumes "BodySystemCUDA_ctor P nb nd bs pbo sys p2p dev w = Inr (this, w')"
  shows "m_bInitialized this \<and> m_numBodies this = nb \<and> m_numDevices this = nd
       \<and> m_bUsePBO this = pbo \<and> m_bUseSysMem this = sys \<and> m_bUseP2P this = p2p
       \<and> m_currentRead this = 0 \<and> m_currentWrite this = 1 \<and> m_blockSize this = bs
       \<and> m_devID this = dev \<and> m_damping this = FloatLiteral ''0.995f''"
proof -
  from ctor_Inr [OF assms] obtain this1 w1 where
    a: "initialize P nb (initial_members nb nd bs pbo sys p2p dev) w = Inr (this1, w1)"
    and c: "this = this1\<lparr>m_damping := FloatLiteral ''0.995f''\<rparr>"
    by blast
  from initialize_Inr [OF a] show ?thesis
    unfolding c by (auto simp: config_def initial_members_def)
qed

lemma ctor_total:
  assumes "no_failure P" "sys \<or> nd \<noteq> 0"
  shows "\<exists>this w'. BodySystemCUDA_ctor P nb nd bs pbo sys p2p dev w = Inr (this, w')"
proof -
  obtain this1 w1 where a: "initialize P nb (initial_members nb nd bs pbo sys p2p dev) w = Inr (this1, w1)"
    using initialize_total [OF assms(1), of "initial_members nb nd bs pbo sys p2p dev" nb w] assms(2)
    by (auto simp: initial_members_def)
  obtain w2 where "forE [0..<unat (m_numDevices this1)]
       (softening_body P (m_numDevices this1) (Times (FloatLiteral ''0.00125f'') (FloatLiteral ''0.00125f''))) w1 = Inr w2"
    using softening_loop_total [OF assms(1)] by blast
  then show ?thesis
    by (simp add: BodySystemCUDA_ctor_def a setSoftening_def setDamping_def Let_def)
qed

subsection \<open>What the other member functions return\<close>


lemma softening_body_Inr:
  assumes "softening_body P nd sq i w = Inr w1"
  shows "w1 = w\<lparr>calls := calls w @ (if nd > 1 then [CudaSetDevice (int i)] else []) @ [SetSofteningSquared sq]\<rparr>"
  using assms
  by (auto simp: softening_body_def cuda_simps cuda_call_def checkCudaErrors_def call_def
           split: if_splits elim!: bindE_InrE)

lemma softening_loop_Inr:
  assumes "forE [0..<k] (softening_body P nd sq) w = Inr w1"
  shows "w1 = w\<lparr>calls := calls w @ concat (map (\<lambda>i. (if nd > 1 then [CudaSetDevice (int i)] else []) @ [SetSofteningSquared sq]) [0..<k])\<rparr>"
  using assms
proof (induction k arbitrary: w1)
  case 0
  then show ?case by simp
next
  case (Suc k)
  from Suc.prems obtain w0 where a: "forE [0..<k] (softening_body P nd sq) w = Inr w0"
    and b: "softening_body P nd sq k w0 = Inr w1"
    by (auto simp: forE_snoc elim!: bindE_InrE)
  show ?case
    unfolding softening_body_Inr [OF b] Suc.IH [OF a] by simp
qed

lemma softening_loop_Inl:
  assumes "forE is (softening_body P nd sq) w = Inl e"
  shows "e = CudaFailure"
  using assms
proof (induction "is" arbitrary: w)
  case Nil
  then show ?case by simp
next
  case (Cons i "is")
  show ?case
  proof (cases "softening_body P nd sq i w")
    case (Inl e')
    then have "e' = CudaFailure"
      by (auto simp: softening_body_def cuda_simps cuda_call_def checkCudaErrors_def bindE_def
               split: if_splits sum.splits)
    then show ?thesis using Cons.prems Inl by simp
  next
    case (Inr w1)
    then show ?thesis using Cons.prems Cons.IH [of w1] by simp
  qed
qed

lemma setSoftening_not_assertion: "setSoftening P s this w \<noteq> Inl AssertionFailed"
proof
  assume a: "setSoftening P s this w = Inl AssertionFailed"
  show False
  proof (cases "forE [0..<unat (m_numDevices this)] (softening_body P (m_numDevices this) (Times s s)) w")
    case (Inl e)
    then have "e = CudaFailure" by (rule softening_loop_Inl)
    then show False using a Inl by (simp add: setSoftening_def Let_def)
  next
    case (Inr w1)
    then show False using a by (simp add: setSoftening_def Let_def)
  qed
qed

lemma finalize_Inr:
  assumes "finalize P this w = Inr (this', w')"
  shows "m_bInitialized this \<and> \<not> m_bInitialized this'"
proof -
  have i: "m_bInitialized this" using assms by (auto simp: finalize_def split: if_splits)
  from assms i obtain this1 where "this' = this1\<lparr>m_deviceData := [], m_bInitialized := False\<rparr>"
    unfolding finalize_def by (auto elim!: bindE_InrE)
  then show ?thesis using i by simp
qed

lemma update_Inr:
  assumes "update P dt this w = Inr (this', w')"
  shows "m_bInitialized this \<and> m_bInitialized this'
       \<and> m_currentRead this' = m_currentWrite this \<and> m_currentWrite this' = m_currentRead this"
  using assms by (auto simp: update_def split: if_splits elim!: bindE_InrE)

lemma setArray_Inr:
  assumes "setArray P a data this w = Inr (this', w')"
  shows "m_bInitialized this \<and> this' = this\<lparr>m_currentRead := 0, m_currentWrite := 1\<rparr>"
  using assms
  by (auto simp: setArray_def Let_def split: if_splits BodyArray.splits prod.splits elim!: bindE_InrE)

lemma setSoftening_Inr_calls:
  assumes "setSoftening P s this w = Inr (this', w')"
  shows "this' = this \<and> w' = w\<lparr>calls := calls w @ softening_calls (m_numDevices this) (Times s s)\<rparr>"
proof -
  from assms obtain w1 where l: "forE [0..<unat (m_numDevices this)]
       (softening_body P (m_numDevices this) (Times s s)) w = Inr w1" and e: "this' = this" "w' = w1"
    by (auto simp: setSoftening_def Let_def elim!: bindE_InrE)
  show ?thesis using softening_loop_Inr [OF l] e by (simp add: softening_calls_def)
qed

lemmas finalize_defs = finalize_def destroy_unchecked_def destroy_checked_def BodySystemCUDA_dtor_def
lemmas ctor_defs = BodySystemCUDA_ctor_def setSoftening_def softening_body_def setDamping_def

lemma ctor_dtor_example:
  "\<exists>this w' this2 w2.
      BodySystemCUDA_ctor example_platform 1024 2 256 False False True 0 empty_world = Inr (this, w')
    \<and> finalize example_platform this w' = Inr (this2, w2)"
  by (simp add: ctor_defs finalize_defs eval_simps)

lemma getArray_uninitialized: "\<not> m_bInitialized this \<Longrightarrow> getArray P a this w = Inl AssertionFailed"
  by (simp add: getArray_def)

lemma setArray_uninitialized: "\<not> m_bInitialized this \<Longrightarrow> setArray P a data this w = Inl AssertionFailed"
  by (simp add: setArray_def)

lemma init_fin_example:
  "\<exists>this' w' this2 w2.
      initialize example_platform 4 (initial_members 4 1 256 False False False 0) empty_world = Inr (this', w')
    \<and> finalize example_platform this' w' = Inr (this2, w2)"
  by (simp add: finalize_defs eval_simps)

subsection \<open>The array transfers, mode by mode\<close>

lemma unat_times_4:
  assumes "unat (nb :: u32) * 4 < 2 ^ 32"
  shows "unat (nb * 4) = unat nb * 4"
proof -
  have "unat (nb * 4) = (unat nb * unat (4 :: u32)) mod 2 ^ 32"
    by (simp add: unat_word_ariths(2))
  also have "\<dots> = unat nb * 4" using assms by simp
  finally show ?thesis .
qed

lemma array_bytes_eq:
  assumes "array_size P this < 2 ^ 32"
  shows "array_bytes P this = array_size P this"
proof (cases "sizeof_T P = 0")
  case True
  then show ?thesis by (simp add: array_bytes_def array_size_def)
next
  case False
  then have "unat (m_numBodies this) * 4 \<le> unat (m_numBodies this) * 4 * sizeof_T P" by simp
  then have "unat (m_numBodies this) * 4 < 2 ^ 32" using assms unfolding array_size_def by linarith
  then show ?thesis by (simp add: array_bytes_def array_size_def unat_times_4)
qed

lemma array_bytes_pbo:
  assumes "array_size P this < 2 ^ 32"
  shows "4 * sizeof_T P * unat (m_numBodies this) = array_size P this"
  by (simp add: array_size_def mult.commute mult.left_commute)

lemma array_bytes_indices [simp]:
  "array_bytes P (this\<lparr>m_currentRead := a, m_currentWrite := b\<rparr>) = array_bytes P this"
  by (simp add: array_bytes_def)

lemma has_bytesE:
  assumes "has_bytes w h n"
  obtains k buf where "h = Obj k" "store w k = Some buf" "length buf = n"
  using assms by (auto simp: has_bytes_def buffer_def split: option.splits handle.splits)








lemma setArray_position_sysmem:
  assumes "m_bInitialized this" "m_bUseSysMem this" "\<not> m_bUsePBO this"
    and "has_bytes w (fst (m_hPos this)) n" "array_bytes P this = n" "length data = n"
  shows "\<exists>w'. setArray P BODYSYSTEM_POSITION data this w
                = Inr (this\<lparr>m_currentRead := 0, m_currentWrite := 1\<rparr>, w')
          \<and> calls w' = calls w @ [HostMemcpy (fst (m_hPos this)) n]
          \<and> buffer w' (fst (m_hPos this)) = Some (map Some data)"
proof -
  from assms(4) obtain k buf where h: "fst (m_hPos this) = Obj k" "store w k = Some buf" "length buf = n"
    by (rule has_bytesE)
  show ?thesis
    using assms(1-3,5,6) h
    by (simp add: setArray_def index2_def memcpy_def write_bytes_def call_def buffer_def Let_def)
qed

lemma setArray_position_device:
  assumes "m_bInitialized this" "\<not> m_bUseSysMem this" "\<not> m_bUsePBO this" "no_failure P"
    and "m_deviceData this \<noteq> []"
    and "has_bytes w (fst (dPos (m_deviceData this ! 0))) n" "array_bytes P this = n" "length data = n"
  shows "\<exists>w'. setArray P BODYSYSTEM_POSITION data this w
                = Inr (this\<lparr>m_currentRead := 0, m_currentWrite := 1\<rparr>, w')
          \<and> calls w' = calls w @ [CudaMemcpyHostToDevice (fst (dPos (m_deviceData this ! 0))) n]
          \<and> buffer w' (fst (dPos (m_deviceData this ! 0))) = Some (map Some data)"
proof -
  from assms(6) obtain k buf where h: "fst (dPos (m_deviceData this ! 0)) = Obj k" "store w k = Some buf"
    "length buf = n"
    by (rule has_bytesE)
  show ?thesis
    using assms(1-5,7,8) h
    by (simp add: setArray_def index2_def elem_at_def cudaMemcpyHostToDevice_def write_bytes_def
          call_def buffer_def Let_def)
qed

lemma setArray_position_pbo:
  assumes "m_bInitialized this" "m_bUsePBO this"
    and "n = 4 * sizeof_T P * unat (m_numBodies this)" "length data = n"
  shows "\<exists>w'. setArray P BODYSYSTEM_POSITION data this w
                = Inr (this\<lparr>m_currentRead := 0, m_currentWrite := 1\<rparr>, w')
          \<and> calls w' = calls w @ [GlBindBuffer (fst (m_pbo this)), GlBufferSubData 0 n,
                                   GlGetBufferParameteriv]
                 @ (if reported_size w (fst (m_pbo this)) = n then []
                    else [Fprintf ''WARNING: Pixel Buffer Object download failed!n''])
                 @ [GlBindBuffer Null]
          \<and> (has_bytes w (fst (m_pbo this)) n \<longrightarrow> buffer w' (fst (m_pbo this)) = Some (map Some data))"
proof -
  have n: "4 * (sizeof_T P * unat (m_numBodies this)) = 4 * sizeof_T P * unat (m_numBodies this)"
    by simp
  note defs = setArray_def index2_def glBindBuffer_def glBufferSubData_def glGetBufferSize_def
            fprintf_def call_def buffer_def write_bytes_def Let_def reported_size_def has_bytes_def
  show ?thesis
  proof (cases "fst (m_pbo this)")
    case Null
    then show ?thesis using assms n by (simp add: defs)
  next
    case Undef
    then show ?thesis using assms n by (simp add: defs)
  next
    case (Obj k)
    show ?thesis
    proof (cases "store w k")
      case None
      then show ?thesis using assms n Obj by (simp add: defs)
    next
      case (Some buf)
      have u: "unat (word_of_int (int (length buf)) :: u32) = length buf mod 2 ^ 32"
        by (simp add: unat_of_nat)
      show ?thesis using assms n Obj Some u by (simp add: defs)
    qed
  qed
qed

lemma setArray_velocity:
  assumes "m_bInitialized this" "array_bytes P this = n" "length data = n"
  shows "(m_bUseSysMem this \<and> has_bytes w (m_hVel this) n \<longrightarrow>
           (\<exists>w'. setArray P BODYSYSTEM_VELOCITY data this w
                    = Inr (this\<lparr>m_currentRead := 0, m_currentWrite := 1\<rparr>, w')
               \<and> calls w' = calls w @ [HostMemcpy (m_hVel this) n]
               \<and> buffer w' (m_hVel this) = Some (map Some data)))
       \<and> (\<not> m_bUseSysMem this \<and> no_failure P \<and> m_deviceData this \<noteq> []
            \<and> has_bytes w (dVel (m_deviceData this ! 0)) n \<longrightarrow>
           (\<exists>w'. setArray P BODYSYSTEM_VELOCITY data this w
                    = Inr (this\<lparr>m_currentRead := 0, m_currentWrite := 1\<rparr>, w')
               \<and> calls w' = calls w @ [CudaMemcpyHostToDevice (dVel (m_deviceData this ! 0)) n]
               \<and> buffer w' (dVel (m_deviceData this ! 0)) = Some (map Some data)))"
proof (intro conjI impI)
  assume a: "m_bUseSysMem this \<and> has_bytes w (m_hVel this) n"
  then obtain k buf where h: "m_hVel this = Obj k" "store w k = Some buf" "length buf = n"
    by (auto elim: has_bytesE)
  show "\<exists>w'. setArray P BODYSYSTEM_VELOCITY data this w
                    = Inr (this\<lparr>m_currentRead := 0, m_currentWrite := 1\<rparr>, w')
               \<and> calls w' = calls w @ [HostMemcpy (m_hVel this) n]
               \<and> buffer w' (m_hVel this) = Some (map Some data)"
    using assms a h
    by (simp add: setArray_def memcpy_def write_bytes_def call_def buffer_def Let_def)
next
  assume a: "\<not> m_bUseSysMem this \<and> no_failure P \<and> m_deviceData this \<noteq> []
            \<and> has_bytes w (dVel (m_deviceData this ! 0)) n"
  then obtain k buf where h: "dVel (m_deviceData this ! 0) = Obj k" "store w k = Some buf" "length buf = n"
    by (auto elim: has_bytesE)
  show "\<exists>w'. setArray P BODYSYSTEM_VELOCITY data this w
                    = Inr (this\<lparr>m_currentRead := 0, m_currentWrite := 1\<rparr>, w')
               \<and> calls w' = calls w @ [CudaMemcpyHostToDevice (dVel (m_deviceData this ! 0)) n]
               \<and> buffer w' (dVel (m_deviceData this ! 0)) = Some (map Some data)"
    using assms a h
    by (simp add: setArray_def elem_at_def cudaMemcpyHostToDevice_def write_bytes_def call_def
          buffer_def Let_def)
qed

lemma no_failure_example: "no_failure example_platform"
  by (simp add: no_failure_def example_platform_def)

subsection \<open>The constructor builds a well-formed object\<close>

lemma forE_same_memory:
  assumes "forE is body s = Inr s'"
    and body: "\<And>i s s'. body i s = Inr s' \<Longrightarrow> same_memory s s'"
  shows "same_memory s s'"
  using assms(1)
proof (induction "is" arbitrary: s)
  case Nil
  then show ?case by (simp add: same_memory_def)
next
  case (Cons i "is")
  from Cons.prems obtain s1 where a: "body i s = Inr s1" and b: "forE is body s1 = Inr s'"
    by (auto elim!: bindE_InrE)
  have "same_memory s s1" using body a by blast
  moreover have "same_memory s1 s'" using Cons.IH b by blast
  ultimately show ?case by (simp add: same_memory_def)
qed

lemma sysmem_body_same_memory:
  assumes "sysmem_body P i s = Inr s'"
  shows "same_memory s s'"
  using assms
  by (cases s)
     (auto simp: sysmem_body_def assign_slot_def same_memory_def cuda_simps cuda_call_def
        checkCudaErrors_def call_def new_handle_def
      split: if_splits elim!: bindE_InrE)

lemma p2p_body_same_memory:
  assumes "p2p_body P i s = Inr s'"
  shows "same_memory s s'"
  using assms
  by (cases s)
     (auto simp: p2p_body_def assign_slot_def same_memory_def cuda_simps cuda_call_def
        checkCudaErrors_def call_def new_handle_def Let_def
      split: if_splits elim!: bindE_InrE)

lemma softening_loop_store:
  assumes "forE is (softening_body P nd sq) w = Inr w'"
  shows "store w' = store w \<and> glRegistered w' = glRegistered w"
  using assms
proof (induction "is" arbitrary: w)
  case Nil
  then show ?case by simp
next
  case (Cons i "is")
  from Cons.prems obtain w1 where a: "softening_body P nd sq i w = Inr w1"
    and b: "forE is (softening_body P nd sq) w1 = Inr w'"
    by (auto elim!: bindE_InrE)
  have "store w1 = store w \<and> glRegistered w1 = glRegistered w"
    using softening_body_Inr [OF a] by simp
  then show ?case using Cons.IH [OF b] by simp
qed

lemma has_bytes_store: "store w' = store w \<Longrightarrow> has_bytes w' h n = has_bytes w h n"
  by (simp add: has_bytes_def buffer_def split: handle.splits)

lemma registered_store: "glRegistered w' = glRegistered w \<Longrightarrow> registered w' r p = registered w r p"
  by (simp add: registered_def split: handle.splits)

lemma init_sysmem_buffers:
  assumes "no_failure P" "init_sysmem P memSize this w = Inr (this', w')"
  shows "has_bytes w' (fst (m_hPos this')) (unat memSize)
       \<and> has_bytes w' (snd (m_hPos this')) (unat memSize)
       \<and> has_bytes w' (m_hVel this') (unat memSize)"
proof -
  have "\<exists>h0 h1 hv w6. init_sysmem P memSize this w =
          forE [0..<unat (m_numDevices this)] (sysmem_body P) (this\<lparr>m_hPos := (h0, h1), m_hVel := hv\<rparr>, w6)
        \<and> has_bytes w6 h0 (unat memSize) \<and> has_bytes w6 h1 (unat memSize)
        \<and> has_bytes w6 hv (unat memSize)"
    using assms(1)
    apply (simp add: init_sysmem_def prim_defs no_failure_def)
    apply (intro exI conjI)
       apply (rule refl)
      apply (simp_all add: has_bytes_def buffer_def)
    done
  then obtain h0 h1 hv w6 where
    e: "init_sysmem P memSize this w =
          forE [0..<unat (m_numDevices this)] (sysmem_body P) (this\<lparr>m_hPos := (h0, h1), m_hVel := hv\<rparr>, w6)"
    and b: "has_bytes w6 h0 (unat memSize)" "has_bytes w6 h1 (unat memSize)" "has_bytes w6 hv (unat memSize)"
    by blast
  from assms(2) have "forE [0..<unat (m_numDevices this)] (sysmem_body P)
                        (this\<lparr>m_hPos := (h0, h1), m_hVel := hv\<rparr>, w6) = Inr (this', w')"
    unfolding e .
  from forE_same_memory [OF this sysmem_body_same_memory]
  have m: "m_hPos this' = (h0, h1)" "m_hVel this' = hv" "store w' = store w6"
    by (simp_all add: same_memory_def)
  show ?thesis using b by (simp add: m has_bytes_store [OF m(3)])
qed

lemmas buf_defs = init_buffers_def init_positions_def pbo_body_def assign_slot_def elem_at_def
  index2_def update2_def upt_2 Let_def prim_defs put_defs no_failure_def has_bytes_def registered_def

lemma init_buffers_device_local:
  assumes "no_failure P" "0 < length (m_deviceData this)" "\<not> m_bUsePBO this"
    and "unat memSize = n" "unat (m_numBodies this * 4) * sizeof_T P = n"
    and "init_buffers P memSize this w = Inr (this', w')"
  shows "has_bytes w' (fst (m_hPos this')) n \<and> has_bytes w' (m_hVel this') n
       \<and> has_bytes w' (dVel (m_deviceData this' ! 0)) n
       \<and> has_bytes w' (fst (dPos (m_deviceData this' ! 0))) n
       \<and> has_bytes w' (snd (dPos (m_deviceData this' ! 0))) n"
  using assms by (auto simp: buf_defs)

lemma init_buffers_render_shared:
  assumes "no_failure P" "0 < length (m_deviceData this)" "m_bUsePBO this"
    and "unat memSize = n" "unat (m_numBodies this * 4) * sizeof_T P = n"
    and "\<not> glOutOfMemory P n"
    and "init_buffers P memSize this w = Inr (this', w')"
  shows "has_bytes w' (fst (m_hPos this')) n \<and> has_bytes w' (m_hVel this') n
       \<and> has_bytes w' (dVel (m_deviceData this' ! 0)) n
       \<and> has_bytes w' (fst (m_pbo this')) n \<and> has_bytes w' (snd (m_pbo this')) n
       \<and> registered w' (fst (m_pGRes this')) (fst (m_pbo this'))
       \<and> registered w' (snd (m_pGRes this')) (snd (m_pbo this'))"
  using assms by (auto simp: buf_defs split: option.splits)

lemma p2p_body_device0:
  assumes "p2p_body P i (this, w) = Inr (this', w')" "i \<noteq> 0"
  shows "m_deviceData this' ! 0 = m_deviceData this ! 0"
  using assms
  by (auto simp: p2p_body_def assign_slot_def Let_def elim!: bindE_InrE split: if_splits)

lemma p2p_loop_device0:
  assumes "forE is (p2p_body P) (this, w) = Inr (this', w')" "0 \<notin> set is"
  shows "m_deviceData this' ! 0 = m_deviceData this ! 0"
  using assms
proof (induction "is" arbitrary: this w)
  case Nil
  then show ?case by simp
next
  case (Cons i "is")
  from Cons.prems(1) obtain s1 where a: "p2p_body P i (this, w) = Inr s1"
    and b: "forE is (p2p_body P) s1 = Inr (this', w')"
    by (auto elim!: bindE_InrE)
  obtain this1 w1 where s1: "s1 = (this1, w1)" by (cases s1)
  have "m_deviceData this1 ! 0 = m_deviceData this ! 0"
    using p2p_body_device0 [OF a [unfolded s1]] Cons.prems(2) by simp
  moreover have "m_deviceData this' ! 0 = m_deviceData this1 ! 0"
    using Cons.IH [OF b [unfolded s1]] Cons.prems(2) by simp
  ultimately show ?case by simp
qed

lemma init_p2p_frame:
  assumes "init_p2p P (this, w) = Inr (this', w')"
  shows "same_memory (this, w) (this', w') \<and> m_deviceData this' ! 0 = m_deviceData this ! 0"
proof (cases "m_bUseP2P this")
  case True
  with assms have l: "forE [1..<unat (m_numDevices this)] (p2p_body P) (this, w) = Inr (this', w')"
    by (simp add: init_p2p_def)
  have z: "0 \<notin> set [1..<unat (m_numDevices this)]" by simp
  have "same_memory (this, w) (this', w')"
    by (rule forE_same_memory [OF l]) (rule p2p_body_same_memory)
  then show ?thesis using p2p_loop_device0 [OF l z] by blast
next
  case False
  with assms show ?thesis by (simp add: init_p2p_def same_memory_def)
qed

lemma memSize_eq:
  assumes "unat nb * 4 * s < 2 ^ 32"
  shows "unat (of_nat s * 4 * nb :: u32) = unat nb * 4 * s"
proof (cases "s = 0")
  case True
  then show ?thesis by simp
next
  case False
  then have "unat nb * 4 \<le> unat nb * 4 * s" by simp
  then have n4: "unat nb * 4 < 2 ^ 32" using assms by linarith
  have "of_nat s * 4 * nb = (of_nat s * (nb * 4) :: u32)"
    by (simp add: ac_simps)
  then have "unat (of_nat s * 4 * nb :: u32) = unat (of_nat s * (nb * 4) :: u32)"
    by (rule arg_cong)
  also have "\<dots> = (unat (of_nat s :: u32) * unat (nb * 4)) mod 2 ^ 32"
    by (simp add: unat_mult_lem unat_word_ariths(2))
  also have "\<dots> = ((s mod 2 ^ 32) * unat (nb * 4)) mod 2 ^ 32"
    by (simp add: unat_of_nat)
  also have "\<dots> = (s * unat (nb * 4)) mod 2 ^ 32"
    by (rule mod_mult_left_eq)
  also have "\<dots> = (unat nb * 4 * s) mod 2 ^ 32"
    by (simp add: unat_times_4 [OF n4] mult.commute)
  also have "\<dots> = unat nb * 4 * s" using assms by simp
  finally show ?thesis .
qed

lemma initialize_well_formed:
  assumes nf: "no_failure P" and nd: "m_numDevices this \<noteq> 0"
    and flags: "\<not> (m_bUsePBO this \<and> m_bUseSysMem this)" and rd: "m_currentRead this = 0 \<or> m_currentRead this = 1"
    and sz: "unat nb * 4 * sizeof_T P < 2 ^ 32"
    and gl: "m_bUsePBO this \<longrightarrow> \<not> glOutOfMemory P (unat nb * 4 * sizeof_T P)"
    and r: "initialize P nb this w = Inr (this', w')"
  shows "well_formed P this' w'"
proof -
  let ?n = "unat nb * 4 * sizeof_T P"
  let ?ms = "of_nat (sizeof_T P) * 4 * nb :: u32"
  from r have ni: "\<not> m_bInitialized this" by (auto simp: initialize_def split: if_splits)
  from r ni obtain ws w1 dd this3 where
    dd: "partition_devices (float_share P ws nb) nb (m_numDevices this) = Inr dd"
    and b: "(if m_bUseSysMem this then init_sysmem P ?ms (this\<lparr>m_numBodies := nb, m_deviceData := dd\<rparr>) w1
             else init_device P ?ms (this\<lparr>m_numBodies := nb, m_deviceData := dd\<rparr>) w1) = Inr (this3, w')"
    and t: "this' = this3\<lparr>m_bInitialized := True\<rparr>"
    by (auto simp: initialize_def Let_def elim!: bindE_InrE)
  let ?this2 = "this\<lparr>m_numBodies := nb, m_deviceData := dd\<rparr>"
  have len: "length dd = unat (m_numDevices this)" using dd by (rule length_partition)
  have pos: "0 < length dd" using len nd by (simp add: unat_gt_0)
  have ms: "unat ?ms = ?n" by (rule memSize_eq [OF sz])
  have ab: "unat (m_numBodies ?this2 * 4) * sizeof_T P = ?n"
    using array_bytes_eq [of P ?this2] sz by (simp add: array_bytes_def array_size_def)
  have k: "keeps ?this2 this3"
    using b init_sysmem_keeps init_device_keeps by (auto split: if_splits)
  then have cfg: "m_numBodies this3 = nb" "m_bUsePBO this3 = m_bUsePBO this"
    "m_bUseSysMem this3 = m_bUseSysMem this" "m_currentRead this3 = m_currentRead this"
    "length (m_deviceData this3) = length dd"
    using keeps_length [OF k] by (simp_all add: keeps_def config_def)
  have as: "array_size P this' = ?n" by (simp add: array_size_def t cfg)
  have as': "array_size P (this3\<lparr>m_bInitialized := True\<rparr>) = ?n" using as unfolding t .
  have ne: "m_deviceData this3 \<noteq> []" using cfg(5) pos by auto
  have base: "m_bInitialized this'" "m_currentRead this' = 0 \<or> m_currentRead this' = 1"
    "m_deviceData this' \<noteq> []" "\<not> (m_bUsePBO this' \<and> m_bUseSysMem this')"
    using rd flags ne by (auto simp: t cfg)
  have base5: "array_size P this' < 2 ^ 32" unfolding as by (rule sz)
  show ?thesis
  proof (cases "m_bUseSysMem this")
    case True
    then have "init_sysmem P ?ms ?this2 w1 = Inr (this3, w')" using b by simp
    from init_sysmem_buffers [OF nf this]
    show ?thesis using base base5 True by (simp add: well_formed_def Let_def as' ms t cfg)
  next
    case False
    then have "init_device P ?ms ?this2 w1 = Inr (this3, w')" using b by simp
    then obtain this4 w4 where i: "init_buffers P ?ms ?this2 w1 = Inr (this4, w4)"
      and p: "init_p2p P (this4, w4) = Inr (this3, w')"
      unfolding init_device_def by (auto elim!: bindE_InrE)
    from init_p2p_frame [OF p] have
      sm: "m_hPos this3 = m_hPos this4" "m_hVel this3 = m_hVel this4" "m_pbo this3 = m_pbo this4"
        "m_pGRes this3 = m_pGRes this4" "store w' = store w4" "glRegistered w' = glRegistered w4"
      and d0: "m_deviceData this3 ! 0 = m_deviceData this4 ! 0"
      by (simp_all add: same_memory_def)
    note hb = has_bytes_store [OF sm(5)] registered_store [OF sm(6)]
    have pos2: "0 < length (m_deviceData ?this2)" using pos by simp
    show ?thesis
    proof (cases "m_bUsePBO this")
      case True
      then have pbo: "m_bUsePBO ?this2" by simp
      have g: "\<not> glOutOfMemory P ?n" using gl True by simp
      from init_buffers_render_shared [OF nf pos2 pbo ms ab g i]
      show ?thesis using base base5 True False
        by (simp add: well_formed_def Let_def as' t cfg sm(1-4) d0 hb)
    next
      case npbo: False
      then have pbo: "\<not> m_bUsePBO ?this2" by simp
      from init_buffers_device_local [OF nf pos2 pbo ms ab i]
      show ?thesis using base base5 npbo False
        by (simp add: well_formed_def Let_def as' t cfg sm(1-4) d0 hb)
    qed
  qed
qed

lemma constructor_well_formed:
  assumes "no_failure P" "nd \<noteq> 0" "\<not> (pbo \<and> sys)"
    and "unat nb * 4 * sizeof_T P < 2 ^ 32"
    and "pbo \<longrightarrow> \<not> glOutOfMemory P (unat nb * 4 * sizeof_T P)"
  shows "\<exists>this w'. BodySystemCUDA_ctor P nb nd bs pbo sys p2p dev w = Inr (this, w')
           \<and> well_formed P this w'"
proof -
  from ctor_total [OF assms(1), of sys nd nb bs pbo p2p dev w] assms(2)
  obtain this w' where c: "BodySystemCUDA_ctor P nb nd bs pbo sys p2p dev w = Inr (this, w')"
    by blast
  from ctor_Inr [OF c] obtain this1 w1 where
    a: "initialize P nb (initial_members nb nd bs pbo sys p2p dev) w = Inr (this1, w1)"
    and s: "setSoftening P (FloatLiteral ''0.00125f'') this1 w1 = Inr (this1, w')"
    and t: "this = this1\<lparr>m_damping := FloatLiteral ''0.995f''\<rparr>"
    by blast
  have wf1: "well_formed P this1 w1"
    by (rule initialize_well_formed [OF assms(1) _ _ _ assms(4) _ a])
       (use assms(2,3,5) in \<open>simp_all add: initial_members_def\<close>)
  from s obtain w2 where "forE [0..<unat (m_numDevices this1)]
       (softening_body P (m_numDevices this1) (Times (FloatLiteral ''0.00125f'') (FloatLiteral ''0.00125f''))) w1 = Inr w'"
    by (auto simp: setSoftening_def Let_def elim!: bindE_InrE)
  from softening_loop_store [OF this] have st: "store w' = store w1" "glRegistered w' = glRegistered w1"
    by simp_all
  have "well_formed P this w'"
    using wf1 unfolding well_formed_def t
    by (simp add: Let_def array_size_def has_bytes_store [OF st(1)] registered_store [OF st(2)])
  then show ?thesis using c by blast
qed

lemma ctor_example_well_formed:
  assumes "\<not> (pbo \<and> sys)" "unat nb * 4 * 4 < 2 ^ 32"
  shows "\<exists>this w. BodySystemCUDA_ctor example_platform nb 2 256 pbo sys True 0 empty_world = Inr (this, w)
           \<and> well_formed example_platform this w \<and> array_size example_platform this = unat nb * 4 * 4
           \<and> m_bInitialized this \<and> m_bUsePBO this = pbo \<and> m_bUseSysMem this = sys
           \<and> m_currentRead this = 0"
proof -
  from constructor_well_formed [OF no_failure_example _ assms(1), of 2 nb 256 True 0 empty_world] assms(2)
  obtain this w where c: "BodySystemCUDA_ctor example_platform nb 2 256 pbo sys True 0 empty_world = Inr (this, w)"
    and wf: "well_formed example_platform this w"
    by (auto simp: example_platform_def)
  have "array_size example_platform this = unat nb * 4 * 4"
    using ctor_config [OF c] by (simp add: array_size_def example_platform_def)
  then show ?thesis using c wf ctor_config [OF c] by blast
qed

subsection \<open>Single-precision shares at concrete inputs\<close>

lemmas float32_defs = float32_share_def float32_div_def float32_mul_def
  float32_add_def float32_of_int_def float32_to_int_def truncated_def float32_round_def significand_def
  binary_exponent_def exponent_near_def scaled_def round_half_even_def bitlen.simps

lemma share_4_1:
  "float32_share [4, 1] 1024 0 = Some 819" "float32_share [4, 1] 1024 (Suc 0) = Some 204"
  by (simp_all add: float32_defs)

lemma share_equal_3:
  "float32_share [32, 32, 32] 770 0 = Some 256" "float32_share [32, 32, 32] 770 (Suc 0) = Some 256"
  "float32_share [32, 32, 32] 770 (Suc (Suc 0)) = Some 256"
  by (simp_all add: float32_defs)

lemma share_13_7:
  "float32_share [13, 7] 24420 0 = Some 15872" "float32_share [13, 7] 24420 (Suc 0) = Some 8547"
  by (simp_all add: float32_defs)

lemma float32_known_values:
  "float32_div (float32_of_int 4) (float32_of_int 5) = Some (13421773, - 24)"
  "float32_div (float32_of_int 1) (float32_of_int 3) = Some (11184811, - 25)"
  "float32_of_int 16777217 = (8388608, 1)"
  "float32_of_int 16777219 = (8388610, 1)"
  by (simp_all add: float32_defs)

lemma exact_share_agrees:
  "float32_share [32, 32] 513 0 = Some (exact_share [32, 32] 513 0)"
  "float32_share [32, 32] 513 (Suc 0) = Some (exact_share [32, 32] 513 (Suc 0))"
  "float32_share [32, 32] 1024 0 = Some (exact_share [32, 32] 1024 0)"
  "float32_share [32, 32] 1024 (Suc 0) = Some (exact_share [32, 32] 1024 (Suc 0))"
  "float32_share [32] 1 0 = Some (exact_share [32] 1 0)"
  "float32_share [32] 4 0 = Some (exact_share [32] 4 0)"
  "float32_share [32] 1073741824 0 = Some (exact_share [32] 1073741824 0)"
  "float32_share [32, 32, 32] 0 0 = Some (exact_share [32, 32, 32] 0 0)"
  "float32_share [32, 32, 32] 0 (Suc 0) = Some (exact_share [32, 32, 32] 0 (Suc 0))"
  "float32_share [32, 32, 32] 0 (Suc (Suc 0)) = Some (exact_share [32, 32, 32] 0 (Suc (Suc 0)))"
  by (simp_all add: float32_defs exact_share_def)

lemma exact_share_differs:
  "float32_share [13, 7] 24420 0 = Some 15872" "exact_share [13, 7] 24420 0 = 15873"
  by (simp_all add: float32_defs exact_share_def)

lemma share_equal_2:
  "float32_share [32, 32] 513 0 = Some 256" "float32_share [32, 32] 513 (Suc 0) = Some 256"
  by (simp_all add: float32_defs)

subsection \<open>The last slot\<close>

lemma capped_share_le: "capped_share share nb off i \<le> nb - off"
  by (simp add: capped_share_def Let_def not_less)

lemma unat_add_within:
  fixes off c nb :: u32
  assumes "off \<le> nb" "c \<le> nb - off"
  shows "unat (off + c) = unat off + unat c" "unat off + unat c \<le> unat nb"
proof -
  have a: "unat off \<le> unat nb" using assms(1) by (simp add: word_le_nat_alt)
  have "unat (nb - off) = unat nb - unat off" using assms(1) by (simp add: unat_sub)
  then have b: "unat c \<le> unat nb - unat off" using assms(2) by (simp add: word_le_nat_alt)
  show le: "unat off + unat c \<le> unat nb" using a b by linarith
  have "unat nb < 2 ^ LENGTH(32)" by (rule unsigned_less)
  then have "unat off + unat c < 2 ^ LENGTH(32)" using le by linarith
  then show "unat (off + c) = unat off + unat c" by (simp only: unat_add_lem)
qed

lemma word_add_le_total:
  fixes off c nb :: u32
  assumes "off \<le> nb" "c \<le> nb - off"
  shows "off + c \<le> nb"
  using unat_add_within [OF assms] by (simp add: word_le_nat_alt)

lemma offset_before_le: "offset_before share nb k \<le> nb"
  by (induction k) (simp_all add: word_add_le_total capped_share_le)

lemma last_slot_all:
  fixes off c nb :: u32
  assumes "off \<le> nb" "c \<le> nb - off" "nb - off - c \<noteq> 1" "of_nat i = nd - 1"
  shows "c + absorbed nb nd off i c = nb - off"
proof (cases "off + c < nb - 1")
  case True
  then show ?thesis using assms(4) by (simp add: absorbed_def)
next
  case False
  note u = unat_add_within [OF assms(1,2)]
  have ne: "off + c \<noteq> nb - 1"
  proof
    assume "off + c = nb - 1"
    then have "nb - off - c = nb - (nb - 1)" by (simp add: diff_diff_eq)
    then show False using assms(3) by simp
  qed
  have "off + c = nb"
  proof (cases "nb = 0")
    case True
    then have "unat (off + c) = 0" using u by simp
    then show ?thesis using True by (simp add: unat_eq_0)
  next
    case nz: False
    then have "1 \<le> nb" by (simp add: word_le_nat_alt unat_gt_0 Suc_leI)
    then have m: "unat (nb - 1) = unat nb - 1" by (simp add: unat_sub)
    have "unat (nb - 1) \<le> unat (off + c)" using False by (simp add: word_less_nat_alt not_less)
    moreover have "unat (off + c) \<noteq> unat (nb - 1)" using ne by (simp add: word_unat_eq_iff)
    moreover have "unat (off + c) \<le> unat nb" using u by simp
    ultimately have "unat (off + c) = unat nb" using m by linarith
    then show ?thesis by (simp add: word_unat_eq_iff)
  qed
  then have "c = nb - off" by (simp add: eq_diff_eq add.commute)
  then show ?thesis using False by (simp add: absorbed_def)
qed

lemmas single_simps = single_precision_platform_def single_share_def slot_table_def
  slot_of_def capped_share_def absorbed_def round_up_def

lemma slot_table_skewed:
  "slot_table (initialize (single_precision_platform skewed_devices) 1024
                 (initial_members 1024 2 256 False False False 0) empty_world)
     = Inr [(0, 1024), (1024, 0)]"
  by (simp add: eval_simps single_simps skewed_devices_def share_4_1)

lemma initialize_without_device:
  assumes "m_numDevices this = 0" "\<not> m_bUseSysMem this"
  shows "initialize P nb this w \<noteq> Inr (this', w')"
proof
  assume r: "initialize P nb this w = Inr (this', w')"
  then show False
    using assms
    by (auto simp: initialize_def Let_def partition_devices_eq init_device_def init_buffers_def
          assign_slot_def elem_at_def
        split: if_splits elim!: bindE_InrE)
qed

text \<open>
  The table of claim C1's input, 513 bodies on two identical devices, as \<^verbatim>\<open>_initialize\<close>
  leaves it with single-precision shares.
\<close>

lemma slot_table_513:
  "slot_table (initialize (single_precision_platform equal_devices) 513
                 (initial_members 513 2 256 False False False 0) empty_world)
     = Inr [(0, 256), (256, 256)]"
  by (simp add: eval_simps single_simps equal_devices_def share_equal_2)

section \<open>The claims about the partitioner\<close>

text \<open>
  Claim C1 says that for every device count and body count of at least 1 the slot table
  is a partition of the body indices: in particular the counts add up to the body count.
  The code at 513 bodies on two identical devices: each share is 256 (the integer part
  of 256.5), already a multiple of 256, so the slots are \<open>(0, 256)\<close> and \<open>(256, 256)\<close>.
  After the last device \<open>offset\<close> is 512, which is not below \<open>m_numBodies - 1 = 512\<close>, so
  line 123 does not hand the remaining body to the last device: the counts add up to 512
  and body 512 belongs to no slot.
\<close>

theorem partition_two_equal_devices_513:
  "slots (partition_devices (exact_share [32, 32] 513) 513 2) = Inr [(0, 256), (256, 256)]"
  by (simp add: slots_partition upt_2 exact_share_def capped_share_def absorbed_def round_up_def)


text \<open>
  Claim C3 says that every slot's count is the proportional share
  \<open>bodyCount * w_i / sum(w)\<close> rounded up to a multiple of 256 and capped at the bodies still
  unassigned (\<open>claimed_table\<close>). On platforms with single-precision arithmetic the code
  gives other tables. At 770 bodies on three identical devices the share 256.67 is cut to
  the integer 256 by the cast of line 105 before it is rounded up: device 0 gets 256
  bodies where the claim gives 512, and the last device gets the 258 bodies still
  unassigned where the claim gives none. At 24420 bodies on devices of weights 13 and 7
  the exact share of device 0 is 15873, but the \<^verbatim>\<open>float\<close> quotient 13/20 lies below 0.65 and
  the product is cut to 15872, a multiple of 256: device 0 gets 15872 bodies where the
  claim gives 16128.
\<close>

theorem slot_table_not_as_claimed:
  "slot_table (initialize (single_precision_platform equal_devices) 770
                 (initial_members 770 3 256 False False False 0) empty_world)
     = Inr [(0, 256), (256, 256), (512, 258)]
   \<and> claimed_table (device_weights (single_precision_platform equal_devices) 3) 770 0 [0, 1, 2]
     = [(0, 512), (512, 258), (770, 0)]
   \<and> slot_table (initialize (single_precision_platform devices_13_7) 24420
                 (initial_members 24420 2 256 False False False 0) empty_world)
     = Inr [(0, 15872), (15872, 8548)]
   \<and> claimed_table (device_weights (single_precision_platform devices_13_7) 2) 24420 0 [0, 1]
     = [(0, 16128), (16128, 8292)]"
  by (simp add: eval_simps single_simps equal_devices_def devices_13_7_def share_equal_3 share_13_7
        upt_3 device_weights_def claimed_count_def)


text \<open>
  Claim C3 as amended. When \<^verbatim>\<open>_initialize\<close> returns on a platform with single-precision
  arithmetic: the table has one slot per device; the weight of device \<open>i\<close> is its
  multiprocessor count times 4 from compute capability 2 on, times 1 below; its share is
  \<^verbatim>\<open>(int)((weights[i] / total) * m_numBodies)\<close> in single precision on these weights; every
  slot's offset is the sum of the counts of the slots before it; the count of every slot
  but the last is the share rounded up to a multiple of 256 and capped at the bodies
  still unassigned; and the last slot holds all bodies still unassigned at its turn,
  whenever its own rounded and capped share leaves a number of bodies other than one
  (about the case of one body left the statement is silent). For 1024 bodies on two
  devices of weights 4 and 1 the share of device 0 is 819, the integer part of
  \<open>0.8f * 1024\<close>: device 0 gets all 1024 bodies and device 1 gets none.
\<close>

theorem initialize_slot_table:
  assumes "initialize P nb this w = Inr (this', w')"
    and "single_precision P nb (m_numDevices this)"
  shows "(let dd = m_deviceData this';
              weights = map (\<lambda>i. multiProcessorCount (deviceProp P i)
                                   * (if 2 \<le> major (deviceProp P i) then 4 else 1))
                          [0..<unat (m_numDevices this)]
          in length dd = unat (m_numDevices this)
           \<and> (\<forall>i<length dd. \<exists>share.
                  float32_share weights nb i = Some share
                \<and> offset (dd ! i) = (\<Sum>j<i. numBodies (dd ! j))
                \<and> (let unassigned = nb - offset (dd ! i);
                        count = (if unassigned < round_up 256 share then unassigned
                                 else round_up 256 share)
                    in (Suc i < length dd \<longrightarrow> numBodies (dd ! i) = count)
                     \<and> (Suc i = length dd \<and> unassigned - count \<noteq> 1
                          \<longrightarrow> numBodies (dd ! i) = unassigned))))
       \<and> slot_table (initialize (single_precision_platform skewed_devices) 1024
                        (initial_members 1024 2 256 False False False 0) empty_world)
            = Inr [(0, 1024), (1024, 0)]"
proof -
  let ?nd = "m_numDevices this"
  let ?ws = "map (\<lambda>i. multiProcessorCount (deviceProp P i)
                          * (if 2 \<le> major (deviceProp P i) then 4 else 1)) [0..<unat ?nd]"
  let ?share = "float_share P (device_weights P ?nd) nb"
  let ?dd = "m_deviceData this'"
  let ?off = "offset_before ?share nb"
  let ?cap = "\<lambda>j. capped_share ?share nb (?off j) j"
  have ws: "device_weights P ?nd = ?ws"
    by (simp add: device_weights_def weight_def)
  have m: "map (\<lambda>d. (offset d, numBodies d)) ?dd
           = map (\<lambda>j. (?off j, ?cap j + absorbed nb ?nd (?off j) j (?cap j))) [0..<unat ?nd]"
    by (rule initialize_slots [OF assms(1)])
  have len: "length ?dd = unat ?nd"
    using arg_cong [OF m, of length] by simp
  have slot: "offset (?dd ! i) = ?off i \<and> numBodies (?dd ! i) = ?cap i + absorbed nb ?nd (?off i) i (?cap i)"
    if "i < unat ?nd" for i
  proof -
    have "map (\<lambda>d. (offset d, numBodies d)) ?dd ! i = (?off i, ?cap i + absorbed nb ?nd (?off i) i (?cap i))"
      unfolding m using that by simp
    then show ?thesis using that len by simp
  qed
  have inner: "numBodies (?dd ! j) = ?cap j" if "Suc j < unat ?nd" for j
  proof -
    have "absorbed nb ?nd (?off j) j (?cap j) = 0"
      using not_last [OF that] by (simp add: absorbed_def)
    then show ?thesis using slot [of j] that by simp
  qed
  have sum: "(\<Sum>j<i. numBodies (?dd ! j)) = ?off i" if "i < unat ?nd" for i
  proof -
    have "(\<Sum>j<i. numBodies (?dd ! j)) = (\<Sum>j<i. ?cap j)"
    proof (rule sum.cong)
      fix j assume "j \<in> {..<i}"
      then have "Suc j < unat ?nd" using that by simp
      then show "numBodies (?dd ! j) = ?cap j" by (rule inner)
    qed simp
    then show ?thesis by (simp add: offset_before_sum [symmetric])
  qed
  have main: "\<exists>share.
                  float32_share ?ws nb i = Some share
                \<and> offset (?dd ! i) = (\<Sum>j<i. numBodies (?dd ! j))
                \<and> (let unassigned = nb - offset (?dd ! i);
                        count = (if unassigned < round_up 256 share then unassigned
                                 else round_up 256 share)
                    in (Suc i < length ?dd \<longrightarrow> numBodies (?dd ! i) = count)
                     \<and> (Suc i = length ?dd \<and> unassigned - count \<noteq> 1
                          \<longrightarrow> numBodies (?dd ! i) = unassigned))"
    if "i < length ?dd" for i
  proof -
    have i: "i < unat ?nd" using that len by simp
    have sh: "float32_share ?ws nb i = Some (?share i)"
      using assms(2) i unfolding single_precision_def ws by blast
    have o: "offset (?dd ! i) = ?off i" using slot [OF i] by simp
    have s: "offset (?dd ! i) = (\<Sum>j<i. numBodies (?dd ! j))" using o sum [OF i] by simp
    have c: "?cap i = (if nb - ?off i < round_up 256 (?share i) then nb - ?off i
                       else round_up 256 (?share i))"
      by (simp add: capped_share_def Let_def)
    have n1: "numBodies (?dd ! i) = ?cap i" if "Suc i < length ?dd"
      using inner [of i] that len by simp
    have n2: "numBodies (?dd ! i) = nb - ?off i" if l: "Suc i = length ?dd" and "nb - ?off i - ?cap i \<noteq> 1"
    proof -
      have "of_nat i = ?nd - 1" using last_iff [OF i] l len by simp
      from last_slot_all [OF offset_before_le capped_share_le that(2) this]
      show ?thesis using slot [OF i] by simp
    qed
    have body: "(Suc i < length ?dd \<longrightarrow> numBodies (?dd ! i) = ?cap i)
              \<and> (Suc i = length ?dd \<and> nb - ?off i - ?cap i \<noteq> 1
                   \<longrightarrow> numBodies (?dd ! i) = nb - ?off i)"
      using n1 n2 by blast
    have s': "?off i = (\<Sum>j<i. numBodies (?dd ! j))" using sum [OF i] by simp
    note body' = body [unfolded c]
    show ?thesis
      unfolding Let_def o
      by (rule exI [of _ "?share i"]) (intro conjI sh s' conjunct1 [OF body'] conjunct2 [OF body'])
  qed
  show ?thesis
    unfolding Let_def using len main slot_table_skewed by (simp add: Let_def)
qed


text \<open>
  A concrete instance of C3 as amended: the platform of weights 4 and 1, two devices and
  1024 bodies. Initialisation returns, the shares are the single-precision ones, and the
  statement gives the two slots \<open>(0, 1024)\<close> and \<open>(1024, 0)\<close>.
\<close>

theorem initialize_slot_table_witness:
  "\<exists>this' w'.
      initialize (single_precision_platform skewed_devices) 1024
        (initial_members 1024 2 256 False False False 0) empty_world = Inr (this', w')
    \<and> single_precision (single_precision_platform skewed_devices) 1024 2
    \<and> map (\<lambda>d. (offset d, numBodies d)) (m_deviceData this') = [(0, 1024), (1024, 0)]"
proof -
  let ?P = "single_precision_platform skewed_devices"
  let ?obj = "initial_members 1024 2 256 False False False 0"
  obtain this' w' where r: "initialize ?P 1024 ?obj empty_world = Inr (this', w')"
    by (simp add: eval_simps single_precision_platform_def)
  have nd: "m_numDevices ?obj = 2" by (simp add: initial_members_def)
  have ws: "map (\<lambda>i. multiProcessorCount (deviceProp ?P i) * (if 2 \<le> major (deviceProp ?P i) then 4 else 1))
              [0..<unat (2 :: u32)] = [4, 1]"
    by (simp add: single_precision_platform_def example_platform_def skewed_devices_def upt_2)
  have sp: "single_precision ?P 1024 2"
    unfolding single_precision_def
  proof (intro allI impI)
    fix i assume "i < unat (2 :: u32)"
    then have "i = 0 \<or> i = Suc 0" by auto
    moreover have "device_weights ?P 2 = [4, 1]"
      using ws by (simp add: device_weights_def weight_def)
    moreover have "float_share ?P = single_share"
      by (simp add: single_precision_platform_def)
    ultimately show "float32_share (device_weights ?P 2) 1024 i
                       = Some (float_share ?P (device_weights ?P 2) 1024 i)"
      by (auto simp: single_share_def share_4_1)
  qed
  note t = initialize_slot_table [OF r, unfolded nd, OF sp, unfolded Let_def ws, THEN conjunct1]
  let ?dd = "m_deviceData this'"
  have len: "length ?dd = 2" using t by simp
  note slot = t [THEN conjunct2, rule_format]
  have p0: "0 < length ?dd" and p1: "Suc 0 < length ?dd" using len by simp_all
  have s0: "offset (?dd ! 0) = 0 \<and> numBodies (?dd ! 0) = 1024"
    using slot [OF p0] by (auto simp: share_4_1 round_up_def len)
  have s1: "offset (?dd ! Suc 0) = 1024 \<and> numBodies (?dd ! Suc 0) = 0"
    using slot [OF p1] s0 by (auto simp: share_4_1 round_up_def len)
  note o0 = s0 [THEN conjunct1] and n0 = s0 [THEN conjunct2]
    and o1 = s1 [THEN conjunct1] and n1 = s1 [THEN conjunct2]
  from len obtain d0 d1 where dd: "?dd = [d0, d1]"
    by (auto simp: length_Suc_conv numeral_2_eq_2)
  have m: "map (\<lambda>d. (offset d, numBodies d)) ?dd = [(0, 1024), (1024, 0)]"
    using o0 n0 o1 n1 unfolding dd by simp
  show ?thesis
    by (rule exI [of _ this'], rule exI [of _ w']) (intro conjI r sp m)
qed


text \<open>
  Claim C9 says that with no device or no body the operation completes as a no-op and
  signals no error. With no device and the host-mapped flag not set, \<^verbatim>\<open>_initialize\<close> does not
  complete: line 164 (and line 197) writes \<^verbatim>\<open>m_deviceData[0]\<close> of an array of length 0. On
  the example platform this ends \<^verbatim>\<open>_initialize\<close> and both the device-local and the
  render-shared constructor.
\<close>

theorem initialize_without_device_is_undefined:
  "initialize example_platform 1024 (initial_members 1024 0 256 False False False 0) empty_world
     = Inl UndefinedBehaviour
   \<and> BodySystemCUDA_ctor example_platform 1024 0 256 False False False 0 empty_world
     = Inl UndefinedBehaviour
   \<and> BodySystemCUDA_ctor example_platform 1024 0 256 True False False 0 empty_world
     = Inl UndefinedBehaviour"
  by (simp add: ctor_defs eval_simps)


text \<open>
  Claim C9 as amended. When no runtime call fails, \<^verbatim>\<open>_initialize\<close> on an object that is not
  yet initialized completes if the body count is 0, or if the device count is 0, provided
  that an object without devices is host-mapped. The flag is then set, the table has one
  slot per device (none without devices), and every slot has offset 0 and count 0: no
  device is assigned any bodies.
\<close>

theorem initialize_nothing_to_assign:
  assumes "no_failure P" "\<not> m_bInitialized this"
    and "nb = 0 \<or> m_numDevices this = 0"
    and "m_numDevices this = 0 \<longrightarrow> m_bUseSysMem this"
  shows "\<exists>this' w'. initialize P nb this w = Inr (this', w')
           \<and> m_bInitialized this'
           \<and> length (m_deviceData this') = unat (m_numDevices this)
           \<and> (\<forall>d \<in> set (m_deviceData this'). offset d = 0 \<and> numBodies d = 0)"
proof -
  let ?nd = "m_numDevices this"
  let ?share = "float_share P (device_weights P ?nd) nb"
  from assms(4) have "m_bUseSysMem this \<or> ?nd \<noteq> 0" by blast
  from initialize_total [OF assms(1,2) this]
  obtain this' w' where r: "initialize P nb this w = Inr (this', w')" by blast
  have i: "m_bInitialized this'" using initialize_Inr [OF r] by simp
  note m = initialize_slots [OF r]
  have len: "length (m_deviceData this') = unat ?nd"
    using arg_cong [OF m, of length] by simp
  have z: "map (\<lambda>d. (offset d, numBodies d)) (m_deviceData this') = replicate (unat ?nd) (0, 0)"
  proof (cases "?nd = 0")
    case True
    then show ?thesis using len by simp
  next
    case False
    then have nb: "nb = 0" using assms(3) by simp
    have o: "offset_before share 0 k = 0" for share k
      by (induction k) (simp_all add: capped_share_def Let_def word_gt_0)
    have c: "capped_share share 0 0 j = 0" for share j
      by (simp add: capped_share_def Let_def word_gt_0)
    have a: "absorbed 0 nd 0 j 0 = 0" for nd j
      by (simp add: absorbed_def)
    show ?thesis unfolding m nb by (simp add: o c a map_replicate_const)
  qed
  have "offset d = 0 \<and> numBodies d = 0" if "d \<in> set (m_deviceData this')" for d
  proof -
    from that have "(offset d, numBodies d) \<in> set (map (\<lambda>d. (offset d, numBodies d)) (m_deviceData this'))"
      by force
    then show ?thesis unfolding z by simp
  qed
  then show ?thesis using r i len by blast
qed


text \<open>
  A concrete instance of C9 as amended, on the example platform: three devices and no
  body, device-local; no device and 5 bodies, host-mapped.
\<close>

theorem initialize_nothing_to_assign_witness:
  "(\<exists>this' w'. initialize example_platform 0 (initial_members 0 3 256 False False False 0) empty_world
        = Inr (this', w')
      \<and> m_bInitialized this'
      \<and> map (\<lambda>d. (offset d, numBodies d)) (m_deviceData this') = [(0, 0), (0, 0), (0, 0)])
 \<and> (\<exists>this' w'. initialize example_platform 5 (initial_members 5 0 256 False True False 0) empty_world
        = Inr (this', w')
      \<and> m_bInitialized this' \<and> m_deviceData this' = [])"
proof -
  have nf: "no_failure example_platform" by (simp add: no_failure_def example_platform_def)
  have a: "\<exists>this' w'. initialize example_platform 0 (initial_members 0 3 256 False False False 0) empty_world
        = Inr (this', w')
      \<and> m_bInitialized this'
      \<and> map (\<lambda>d. (offset d, numBodies d)) (m_deviceData this') = [(0, 0), (0, 0), (0, 0)]"
  proof -
    from initialize_nothing_to_assign [OF nf, of "initial_members 0 3 256 False False False 0" 0 empty_world]
    obtain this' w' where
      r: "initialize example_platform 0 (initial_members 0 3 256 False False False 0) empty_world = Inr (this', w')"
      and i: "m_bInitialized this'" and l: "length (m_deviceData this') = 3"
      and z: "\<forall>d \<in> set (m_deviceData this'). offset d = 0 \<and> numBodies d = 0"
      by (auto simp: initial_members_def)
    from l obtain d0 d1 d2 where "m_deviceData this' = [d0, d1, d2]"
      by (auto simp: length_Suc_conv numeral_3_eq_3)
    then have m: "map (\<lambda>d. (offset d, numBodies d)) (m_deviceData this') = [(0, 0), (0, 0), (0, 0)]"
      using z by simp
    show ?thesis by (rule exI [of _ this'], rule exI [of _ w']) (intro conjI r i m)
  qed
  have b: "\<exists>this' w'. initialize example_platform 5 (initial_members 5 0 256 False True False 0) empty_world
        = Inr (this', w')
      \<and> m_bInitialized this' \<and> m_deviceData this' = []"
    using initialize_nothing_to_assign [OF nf, of "initial_members 5 0 256 False True False 0" 5 empty_world]
    by (auto simp: initial_members_def)
  show ?thesis by (intro conjI a b)
qed

section \<open>The claims about construction and the life cycle\<close>

text \<open>
  Claim C2 says that constructing the system in the RenderShared mode with more than one
  device fails. On the example platform the constructor called with \<^verbatim>\<open>usePBO\<close> true and two
  devices returns an initialized object that still has \<^verbatim>\<open>m_bUsePBO\<close> set and two devices.
\<close>

theorem render_shared_two_devices_constructs:
  "case BodySystemCUDA_ctor example_platform 1024 2 256 True False False 0 empty_world of
     Inl e \<Rightarrow> False
   | Inr (this, w) \<Rightarrow> m_bInitialized this \<and> m_numDevices this = 2 \<and> m_bUsePBO this \<and> \<not> m_bUseSysMem this"
  by (simp add: BodySystemCUDA_ctor_def setSoftening_def softening_body_def setDamping_def eval_simps)


text \<open>
  Claim C2 as amended. Construction with \<^verbatim>\<open>usePBO\<close> true, \<^verbatim>\<open>useSysMem\<close> false and any
  device count other than 0 is not rejected: when no runtime call fails the constructor
  returns an initialized object that keeps the RenderShared flags and the device count it
  was given; the constructor validates nothing, and it does not change the mode either.
\<close>

theorem render_shared_not_rejected:
  assumes "no_failure P" "nd \<noteq> 0"
  shows "\<exists>this w'. BodySystemCUDA_ctor P nb nd bs True False p2p dev w = Inr (this, w')
           \<and> m_bInitialized this \<and> m_numDevices this = nd \<and> m_bUsePBO this \<and> \<not> m_bUseSysMem this"
proof -
  obtain this w' where r: "BodySystemCUDA_ctor P nb nd bs True False p2p dev w = Inr (this, w')"
    using ctor_total [OF assms(1), of False nd] assms(2) by blast
  show ?thesis using r ctor_config [OF r] by blast
qed


text \<open>A concrete instance of C2 as amended: the example platform, two devices, peer access.\<close>

theorem render_shared_not_rejected_witness:
  "no_failure example_platform \<and> (2 :: u32) \<noteq> 0
   \<and> (\<exists>this w'. BodySystemCUDA_ctor example_platform 1024 2 256 True False True 0 empty_world = Inr (this, w')
           \<and> m_bInitialized this \<and> m_numDevices this = 2 \<and> m_bUsePBO this \<and> \<not> m_bUseSysMem this)"
proof -
  have a: "no_failure example_platform" by (simp add: no_failure_def example_platform_def)
  have b: "(2 :: u32) \<noteq> 0" by simp
  show ?thesis using a b render_shared_not_rejected [OF a b] by blast
qed


text \<open>
  Claim C10. When the constructor returns, \<^verbatim>\<open>_initialize\<close> has run on the members of the
  initialiser list and returned: the object is initialized, reads buffer 0 and writes
  buffer 1; \<^verbatim>\<open>setSoftening(0.00125f)\<close> has then made its calls, one
  \<^verbatim>\<open>setSofteningSquared\<close> of the squared literal per device; and the damping is the literal
  \<^verbatim>\<open>0.995f\<close>. The destructor is \<^verbatim>\<open>_finalize\<close> followed by \<^verbatim>\<open>m_numBodies = 0\<close>: on an object
  that is not initialized it fails the assertion, an error of \<^verbatim>\<open>_finalize\<close> is its error,
  and when \<^verbatim>\<open>_finalize\<close> returns it returns that object with the body count cleared.
\<close>

theorem constructor_and_destructor:
  "(\<forall>this w'. BodySystemCUDA_ctor P nb nd bs pbo sys p2p dev w = Inr (this, w') \<longrightarrow>
       m_bInitialized this \<and> m_currentRead this = 0 \<and> m_currentWrite this = 1
     \<and> m_damping this = FloatLiteral ''0.995f''
     \<and> (\<exists>this1 w1. initialize P nb (initial_members nb nd bs pbo sys p2p dev) w = Inr (this1, w1)
            \<and> this = this1\<lparr>m_damping := FloatLiteral ''0.995f''\<rparr>
            \<and> w' = w1\<lparr>calls := calls w1 @ softening_calls nd
                          (Times (FloatLiteral ''0.00125f'') (FloatLiteral ''0.00125f''))\<rparr>))
   \<and> (\<not> m_bInitialized this0 \<longrightarrow> BodySystemCUDA_dtor P this0 w0 = Inl AssertionFailed)
   \<and> (\<forall>e. finalize P this0 w0 = Inl e \<longrightarrow> BodySystemCUDA_dtor P this0 w0 = Inl e)
   \<and> (\<forall>this1 w1. finalize P this0 w0 = Inr (this1, w1)
         \<longrightarrow> BodySystemCUDA_dtor P this0 w0 = Inr (this1\<lparr>m_numBodies := 0\<rparr>, w1))"
proof -
  have ctor: "m_bInitialized this \<and> m_currentRead this = 0 \<and> m_currentWrite this = 1
     \<and> m_damping this = FloatLiteral ''0.995f''
     \<and> (\<exists>this1 w1. initialize P nb (initial_members nb nd bs pbo sys p2p dev) w = Inr (this1, w1)
            \<and> this = this1\<lparr>m_damping := FloatLiteral ''0.995f''\<rparr>
            \<and> w' = w1\<lparr>calls := calls w1 @ softening_calls nd
                          (Times (FloatLiteral ''0.00125f'') (FloatLiteral ''0.00125f''))\<rparr>)"
    if r: "BodySystemCUDA_ctor P nb nd bs pbo sys p2p dev w = Inr (this, w')" for this w'
  proof -
    from ctor_Inr [OF r] obtain this1 w1 where
      a: "initialize P nb (initial_members nb nd bs pbo sys p2p dev) w = Inr (this1, w1)"
      and b: "setSoftening P (FloatLiteral ''0.00125f'') this1 w1 = Inr (this1, w')"
      and c: "this = this1\<lparr>m_damping := FloatLiteral ''0.995f''\<rparr>"
      by blast
    have n: "m_numDevices this1 = nd"
      using initialize_Inr [OF a] by (auto simp: config_def initial_members_def)
    have "w' = w1\<lparr>calls := calls w1 @ softening_calls nd
                          (Times (FloatLiteral ''0.00125f'') (FloatLiteral ''0.00125f''))\<rparr>"
      using setSoftening_Inr_calls [OF b] n by simp
    then show ?thesis using ctor_config [OF r] a c by blast
  qed
  have d1: "\<not> m_bInitialized this0 \<longrightarrow> BodySystemCUDA_dtor P this0 w0 = Inl AssertionFailed"
    by (simp add: BodySystemCUDA_dtor_def finalize_def)
  have d2: "\<forall>e. finalize P this0 w0 = Inl e \<longrightarrow> BodySystemCUDA_dtor P this0 w0 = Inl e"
    by (simp add: BodySystemCUDA_dtor_def)
  have d3: "\<forall>this1 w1. finalize P this0 w0 = Inr (this1, w1)
         \<longrightarrow> BodySystemCUDA_dtor P this0 w0 = Inr (this1\<lparr>m_numBodies := 0\<rparr>, w1)"
    by (simp add: BodySystemCUDA_dtor_def)
  from ctor have c: "\<forall>this w'. BodySystemCUDA_ctor P nb nd bs pbo sys p2p dev w = Inr (this, w') \<longrightarrow>
       m_bInitialized this \<and> m_currentRead this = 0 \<and> m_currentWrite this = 1
     \<and> m_damping this = FloatLiteral ''0.995f''
     \<and> (\<exists>this1 w1. initialize P nb (initial_members nb nd bs pbo sys p2p dev) w = Inr (this1, w1)
            \<and> this = this1\<lparr>m_damping := FloatLiteral ''0.995f''\<rparr>
            \<and> w' = w1\<lparr>calls := calls w1 @ softening_calls nd
                          (Times (FloatLiteral ''0.00125f'') (FloatLiteral ''0.00125f''))\<rparr>)"
    by blast
  show ?thesis by (intro conjI c d1 d2 d3)
qed

text \<open>
  A concrete instance of C10: the example platform, 1024 bodies on two devices with peer
  access. The constructor returns, the destructor of the constructed object returns, and
  the destructor of the object the initialiser list alone leaves fails the assertion.
\<close>

theorem constructor_and_destructor_witness:
  "\<exists>this w' this2 w2.
      BodySystemCUDA_ctor example_platform 1024 2 256 False False True 0 empty_world = Inr (this, w')
    \<and> m_bInitialized this \<and> m_currentRead this = 0 \<and> m_currentWrite this = 1
    \<and> m_damping this = FloatLiteral ''0.995f''
    \<and> finalize example_platform this w' = Inr (this2, w2)
    \<and> BodySystemCUDA_dtor example_platform this w' = Inr (this2\<lparr>m_numBodies := 0\<rparr>, w2)
    \<and> BodySystemCUDA_dtor example_platform (initial_members 1024 2 256 False False True 0) empty_world
          = Inl AssertionFailed"
proof -
  obtain this w' this2 w2 where
    c: "BodySystemCUDA_ctor example_platform 1024 2 256 False False True 0 empty_world = Inr (this, w')"
    and f: "finalize example_platform this w' = Inr (this2, w2)"
    using ctor_dtor_example by blast
  note t = constructor_and_destructor [of example_platform 1024 2 256 False False True 0 empty_world this w']
  from t c have p: "m_bInitialized this \<and> m_currentRead this = 0 \<and> m_currentWrite this = 1
    \<and> m_damping this = FloatLiteral ''0.995f''" by blast
  from t f have d: "BodySystemCUDA_dtor example_platform this w' = Inr (this2\<lparr>m_numBodies := 0\<rparr>, w2)"
    by blast
  have "\<not> m_bInitialized (initial_members 1024 2 256 False False True 0)"
    by (simp add: initial_members_def)
  with constructor_and_destructor [of example_platform 1024 2 256 False False True 0 empty_world
        "initial_members 1024 2 256 False False True 0" empty_world]
  have u: "BodySystemCUDA_dtor example_platform (initial_members 1024 2 256 False False True 0) empty_world
          = Inl AssertionFailed" by blast
  show ?thesis using c p f d u by blast
qed

text \<open>
  Claim C8 says that \<^verbatim>\<open>setSoftening\<close> and \<^verbatim>\<open>setDamping\<close> too assert the initialized flag.
  On an object that is not initialized both run: \<^verbatim>\<open>setDamping\<close> stores the damping, and
  \<^verbatim>\<open>setSoftening\<close> makes its call for the one device.
\<close>

theorem setters_run_uninitialized:
  "\<not> m_bInitialized (initial_members 4 1 256 False False False 0)
   \<and> (case setDamping (FloatLiteral ''0.5f'') (initial_members 4 1 256 False False False 0) empty_world of
        Inl e \<Rightarrow> False
      | Inr (this, w) \<Rightarrow> m_damping this = FloatLiteral ''0.5f'')
   \<and> (case setSoftening example_platform (FloatLiteral ''0.5f'')
              (initial_members 4 1 256 False False False 0) empty_world of
        Inl e \<Rightarrow> False
      | Inr (this, w) \<Rightarrow>
          calls w = [SetSofteningSquared (Times (FloatLiteral ''0.5f'') (FloatLiteral ''0.5f''))])"
  by (simp add: ctor_defs eval_simps)

text \<open>
  Claim C8 as amended. \<^verbatim>\<open>_initialize\<close> asserts that the object is not initialized;
  \<^verbatim>\<open>_finalize\<close>, \<^verbatim>\<open>update\<close>, \<^verbatim>\<open>getArray\<close> and \<^verbatim>\<open>setArray\<close> assert that it is;
  \<^verbatim>\<open>setSoftening\<close> and \<^verbatim>\<open>setDamping\<close> assert nothing. The flag is set when \<^verbatim>\<open>_initialize\<close>
  returns and cleared when \<^verbatim>\<open>_finalize\<close> returns, and no other member function changes it
  (\<^verbatim>\<open>getArray\<close> returns no object: it has none to change).
\<close>

theorem initialized_flag_guards:
  "(m_bInitialized this \<longrightarrow> initialize P n this w = Inl AssertionFailed)
   \<and> (\<not> m_bInitialized this \<longrightarrow>
         finalize P this w = Inl AssertionFailed \<and> update P dt this w = Inl AssertionFailed
       \<and> getArray P a this w = Inl AssertionFailed \<and> setArray P a data this w = Inl AssertionFailed)
   \<and> setSoftening P s this w \<noteq> Inl AssertionFailed
   \<and> setDamping d this w \<noteq> Inl AssertionFailed
   \<and> (\<forall>this' w'. initialize P n this w = Inr (this', w') \<longrightarrow> m_bInitialized this')
   \<and> (\<forall>this' w'. finalize P this w = Inr (this', w') \<longrightarrow> \<not> m_bInitialized this')
   \<and> (\<forall>this' w'. update P dt this w = Inr (this', w') \<or> setArray P a data this w = Inr (this', w')
                  \<or> setSoftening P s this w = Inr (this', w') \<or> setDamping d this w = Inr (this', w')
          \<longrightarrow> m_bInitialized this' = m_bInitialized this)"
proof -
  have g1: "m_bInitialized this \<longrightarrow> initialize P n this w = Inl AssertionFailed"
    by (simp add: initialize_def)
  have g2: "\<not> m_bInitialized this \<longrightarrow>
         finalize P this w = Inl AssertionFailed \<and> update P dt this w = Inl AssertionFailed
       \<and> getArray P a this w = Inl AssertionFailed \<and> setArray P a data this w = Inl AssertionFailed"
    by (simp add: finalize_def update_def getArray_uninitialized setArray_uninitialized)
  have g3: "setSoftening P s this w \<noteq> Inl AssertionFailed" by (rule setSoftening_not_assertion)
  have g4: "setDamping d this w \<noteq> Inl AssertionFailed" by (simp add: setDamping_def)
  have f1: "\<forall>this' w'. initialize P n this w = Inr (this', w') \<longrightarrow> m_bInitialized this'"
    using initialize_Inr by blast
  have f2: "\<forall>this' w'. finalize P this w = Inr (this', w') \<longrightarrow> \<not> m_bInitialized this'"
    using finalize_Inr by blast
  have f3: "\<forall>this' w'. update P dt this w = Inr (this', w') \<or> setArray P a data this w = Inr (this', w')
                  \<or> setSoftening P s this w = Inr (this', w') \<or> setDamping d this w = Inr (this', w')
          \<longrightarrow> m_bInitialized this' = m_bInitialized this"
  proof (intro allI impI)
    fix this' w'
    assume "update P dt this w = Inr (this', w') \<or> setArray P a data this w = Inr (this', w')
                  \<or> setSoftening P s this w = Inr (this', w') \<or> setDamping d this w = Inr (this', w')"
    then consider "update P dt this w = Inr (this', w')" | "setArray P a data this w = Inr (this', w')"
      | "setSoftening P s this w = Inr (this', w')" | "setDamping d this w = Inr (this', w')" by blast
    then show "m_bInitialized this' = m_bInitialized this"
    proof cases
      case 1 then show ?thesis using update_Inr by blast
    next
      case 2 then show ?thesis using setArray_Inr [OF 2] by simp
    next
      case 3 then show ?thesis using setSoftening_Inr [OF 3] by simp
    next
      case 4 then show ?thesis by (auto simp: setDamping_def)
    qed
  qed
  show ?thesis by (intro conjI g1 g2 g3 g4 f1 f2 f3)
qed

text \<open>
  A concrete instance of C8 as amended, on the example platform: the guards fail on the
  wrong state, \<^verbatim>\<open>_initialize\<close> sets the flag, \<^verbatim>\<open>_finalize\<close> clears it, \<^verbatim>\<open>setDamping\<close> keeps
  it.
\<close>

theorem initialized_flag_guards_witness:
  "initialize example_platform 4 ((initial_members 4 1 256 False False False 0)\<lparr>m_bInitialized := True\<rparr>) empty_world
     = Inl AssertionFailed
   \<and> finalize example_platform (initial_members 4 1 256 False False False 0) empty_world = Inl AssertionFailed
   \<and> update example_platform (FloatLiteral ''0.016f'') (initial_members 4 1 256 False False False 0) empty_world
       = Inl AssertionFailed
   \<and> getArray example_platform BODYSYSTEM_POSITION (initial_members 4 1 256 False False False 0) empty_world
       = Inl AssertionFailed
   \<and> setArray example_platform BODYSYSTEM_POSITION [] (initial_members 4 1 256 False False False 0) empty_world
       = Inl AssertionFailed
   \<and> (\<exists>this' w' this2 w2.
         initialize example_platform 4 (initial_members 4 1 256 False False False 0) empty_world = Inr (this', w')
       \<and> m_bInitialized this'
       \<and> finalize example_platform this' w' = Inr (this2, w2) \<and> \<not> m_bInitialized this2
       \<and> (\<exists>this3. setDamping (FloatLiteral ''0.5f'') this' w' = Inr (this3, w') \<and> m_bInitialized this3))"
proof -
  let ?u = "initial_members 4 1 256 False False False 0"
  have u: "\<not> m_bInitialized ?u" by (simp add: initial_members_def)
  have i: "m_bInitialized (?u\<lparr>m_bInitialized := True\<rparr>)" by simp
  note t1 = initialized_flag_guards [of "?u\<lparr>m_bInitialized := True\<rparr>" example_platform 4 empty_world]
  note t2 = initialized_flag_guards [of ?u example_platform 4 empty_world "FloatLiteral ''0.016f''"
              BODYSYSTEM_POSITION "[]"]
  obtain this' w' this2 w2 where
    a: "initialize example_platform 4 ?u empty_world = Inr (this', w')"
    and b: "finalize example_platform this' w' = Inr (this2, w2)"
    using init_fin_example by blast
  note t3 = initialized_flag_guards [of this' example_platform 4 w' "FloatLiteral ''0.016f''"
              BODYSYSTEM_POSITION "[]" "FloatLiteral ''0.5f''" "FloatLiteral ''0.5f''"]
  have c: "setDamping (FloatLiteral ''0.5f'') this' w' = Inr (this'\<lparr>m_damping := FloatLiteral ''0.5f''\<rparr>, w')"
    by (simp add: setDamping_def)
  have i': "m_bInitialized this'" using t2 a by blast
  have "m_bInitialized (this'\<lparr>m_damping := FloatLiteral ''0.5f''\<rparr>) = m_bInitialized this'"
    using t3 c by blast
  then have d: "\<exists>this3. setDamping (FloatLiteral ''0.5f'') this' w' = Inr (this3, w') \<and> m_bInitialized this3"
    using c i' by blast
  have n2: "\<not> m_bInitialized this2" using t3 b by blast
  show ?thesis using t1 i t2 u a i' b n2 d by blast
qed

section \<open>The claims about the update step\<close>

text \<open>
  Claim C4. On an initialized object \<^verbatim>\<open>update\<close> either fails with the error of the
  integration routine, or returns with \<^verbatim>\<open>m_currentRead\<close> and \<^verbatim>\<open>m_currentWrite\<close> exchanged,
  whatever the time step, the device count and the memory flags are; and when a second
  \<^verbatim>\<open>update\<close> returns, both indices have their values from before the first.
\<close>

theorem update_swaps_indices:
  assumes "m_bInitialized this"
  shows "(\<exists>e. integrateNbodySystem P (m_deviceData this) (m_pGRes this) (m_currentRead this)
                (CastFloat deltaTime) (CastFloat (m_damping this)) (m_numBodies this)
                (m_numDevices this) (m_blockSize this) (m_bUsePBO this) w = Inl e
              \<and> update P deltaTime this w = Inl e)
       \<or> (\<exists>this1 w1. update P deltaTime this w = Inr (this1, w1)
              \<and> m_currentRead this1 = m_currentWrite this
              \<and> m_currentWrite this1 = m_currentRead this
              \<and> (\<forall>deltaTime2 this2 w2. update P deltaTime2 this1 w1 = Inr (this2, w2)
                    \<longrightarrow> m_currentRead this2 = m_currentRead this
                      \<and> m_currentWrite this2 = m_currentWrite this))"
proof (cases "integrateNbodySystem P (m_deviceData this) (m_pGRes this) (m_currentRead this)
                (CastFloat deltaTime) (CastFloat (m_damping this)) (m_numBodies this)
                (m_numDevices this) (m_blockSize this) (m_bUsePBO this) w")
  case (Inl e)
  then show ?thesis using assms by (simp add: update_def)
next
  case (Inr r)
  obtain dd pg w1 where r: "r = (dd, pg, w1)" by (cases r)
  let ?swapped = "this\<lparr>m_deviceData := dd, m_pGRes := pg, m_currentRead := m_currentWrite this,
                       m_currentWrite := m_currentRead this\<rparr>"
  have u: "update P deltaTime this w = Inr (?swapped, w1)"
    using assms Inr r by (simp add: update_def)
  have r1: "m_currentRead ?swapped = m_currentWrite this" by simp
  have r2: "m_currentWrite ?swapped = m_currentRead this" by simp
  have two: "\<forall>deltaTime2 this2 w2. update P deltaTime2 ?swapped w1 = Inr (this2, w2)
                    \<longrightarrow> m_currentRead this2 = m_currentRead this
                      \<and> m_currentWrite this2 = m_currentWrite this"
  proof (intro allI impI)
    fix deltaTime2 this2 w2
    assume "update P deltaTime2 ?swapped w1 = Inr (this2, w2)"
    from update_Inr [OF this] have "m_currentRead this2 = m_currentWrite ?swapped"
      and "m_currentWrite this2 = m_currentRead ?swapped" by blast+
    then show "m_currentRead this2 = m_currentRead this \<and> m_currentWrite this2 = m_currentWrite this"
      by simp
  qed
  show ?thesis
    by (rule disjI2, rule exI [of _ ?swapped], rule exI [of _ w1]) (intro conjI u r1 r2 two)
qed

text \<open>
  A concrete instance of C4: on the example platform, whose integration routine returns,
  two updates of an initialized object take the indices from (0, 1) to (1, 0) and back.
\<close>

theorem update_swaps_indices_witness:
  "m_bInitialized ((initial_members 4 1 256 False False False 0)\<lparr>m_bInitialized := True\<rparr>)
   \<and> (\<exists>this1 w1 this2 w2.
         update example_platform (FloatLiteral ''0.016f'')
           ((initial_members 4 1 256 False False False 0)\<lparr>m_bInitialized := True\<rparr>) empty_world = Inr (this1, w1)
       \<and> m_currentRead this1 = 1 \<and> m_currentWrite this1 = 0
       \<and> update example_platform (FloatLiteral ''0.016f'') this1 w1 = Inr (this2, w2)
       \<and> m_currentRead this2 = 0 \<and> m_currentWrite this2 = 1)"
proof -
  let ?obj = "(initial_members 4 1 256 False False False 0)\<lparr>m_bInitialized := True\<rparr>"
  have i: "m_bInitialized ?obj" by simp
  have ok: "\<And>dd pg r dt dm nb nd bs pbo w e.
     integrateNbodySystem example_platform dd pg r dt dm nb nd bs pbo w \<noteq> Inl e"
    by (simp add: example_platform_def)
  from update_swaps_indices [OF i, of example_platform "FloatLiteral ''0.016f''" empty_world] ok
  obtain this1 w1 where
    u1: "update example_platform (FloatLiteral ''0.016f'') ?obj empty_world = Inr (this1, w1)"
    and s1: "m_currentRead this1 = m_currentWrite ?obj" "m_currentWrite this1 = m_currentRead ?obj"
    and two: "\<forall>deltaTime2 this2 w2. update example_platform deltaTime2 this1 w1 = Inr (this2, w2)
                    \<longrightarrow> m_currentRead this2 = m_currentRead ?obj
                      \<and> m_currentWrite this2 = m_currentWrite ?obj"
    by blast
  have i1: "m_bInitialized this1" using update_Inr [OF u1] by simp
  from update_swaps_indices [OF i1, of example_platform "FloatLiteral ''0.016f''" w1] ok
  obtain this2 w2 where
    u2: "update example_platform (FloatLiteral ''0.016f'') this1 w1 = Inr (this2, w2)"
    by blast
  have "m_currentRead this2 = m_currentRead ?obj \<and> m_currentWrite this2 = m_currentWrite ?obj"
    using two u2 by blast
  then show ?thesis using i u1 s1 u2 by (auto simp: initial_members_def)
qed

section \<open>The claims about the array transfers\<close>





text \<open>
  Claim C6 says that \<^verbatim>\<open>setArray\<close> writes exactly \<open>bodyCount * 4 * sizeof(scalar)\<close> bytes. For
  \<open>2 ^ 30\<close> bodies of type \<^verbatim>\<open>float\<close> in host-mapped mode that is \<open>2 ^ 34\<close> bytes, but
  \<^verbatim>\<open>m_numBodies * 4\<close> is 0 in \<^verbatim>\<open>unsigned int\<close> arithmetic and the only call of \<^verbatim>\<open>setArray\<close> is a
  \<^verbatim>\<open>memcpy\<close> of 0 bytes.
\<close>

theorem setArray_beyond_32_bits:
  "bindE (BodySystemCUDA_ctor example_platform 1073741824 1 256 False True False 0 empty_world)
     (setArray_calls example_platform BODYSYSTEM_POSITION (replicate 17179869184 7))
     = Inr [HostMemcpy (Obj 0) 0]"
  by (simp add: setArray_calls_def ctor_defs eval_simps setArray_def array_bytes_def)


text \<open>
  Claim C6 as amended. On an initialized object whose array size fits \<^verbatim>\<open>unsigned int\<close>, with \<open>data\<close> of
  that size: whenever \<^verbatim>\<open>setArray\<close> returns, for either array, the object is the old one
  with \<^verbatim>\<open>m_currentRead = 0\<close> and \<^verbatim>\<open>m_currentWrite = 1\<close>. For the positions it makes exactly
  these calls, each of \<open>array_size\<close> bytes: in host-mapped mode one \<^verbatim>\<open>memcpy\<close> into
  \<^verbatim>\<open>m_hPos[0]\<close>; in device-local mode one host-to-device \<^verbatim>\<open>cudaMemcpy\<close> into \<^verbatim>\<open>dPos[0]\<close> of
  device 0; with \<^verbatim>\<open>m_bUsePBO\<close> it binds \<^verbatim>\<open>m_pbo[0]\<close>, updates the sub-range from 0, reads the
  buffer size back, prints the warning exactly when that size differs from the array
  size, unbinds, and returns in both cases. The destination then holds \<open>data\<close>. For the
  velocities it is one \<^verbatim>\<open>memcpy\<close> into \<^verbatim>\<open>m_hVel\<close> in host-mapped mode and one host-to-device
  \<^verbatim>\<open>cudaMemcpy\<close> into \<^verbatim>\<open>dVel\<close> of device 0 otherwise.
\<close>

theorem setArray_effects:
  assumes "m_bInitialized this" "array_size P this < 2 ^ 32" "length data = array_size P this"
  shows "(\<forall>array this' w'. setArray P array data this w = Inr (this', w')
            \<longrightarrow> this' = this\<lparr>m_currentRead := 0, m_currentWrite := 1\<rparr>)
     \<and> (m_bUseSysMem this \<and> \<not> m_bUsePBO this \<and> has_bytes w (fst (m_hPos this)) (array_size P this) \<longrightarrow>
          (\<exists>w'. setArray P BODYSYSTEM_POSITION data this w
                   = Inr (this\<lparr>m_currentRead := 0, m_currentWrite := 1\<rparr>, w')
               \<and> calls w' = calls w @ [HostMemcpy (fst (m_hPos this)) (array_size P this)]
               \<and> buffer w' (fst (m_hPos this)) = Some (map Some data)))
     \<and> (\<not> m_bUseSysMem this \<and> \<not> m_bUsePBO this \<and> no_failure P \<and> m_deviceData this \<noteq> []
          \<and> has_bytes w (fst (dPos (m_deviceData this ! 0))) (array_size P this) \<longrightarrow>
          (\<exists>w'. setArray P BODYSYSTEM_POSITION data this w
                   = Inr (this\<lparr>m_currentRead := 0, m_currentWrite := 1\<rparr>, w')
               \<and> calls w' = calls w @ [CudaMemcpyHostToDevice (fst (dPos (m_deviceData this ! 0)))
                                         (array_size P this)]
               \<and> buffer w' (fst (dPos (m_deviceData this ! 0))) = Some (map Some data)))
     \<and> (m_bUsePBO this \<longrightarrow>
          (\<exists>w'. setArray P BODYSYSTEM_POSITION data this w
                   = Inr (this\<lparr>m_currentRead := 0, m_currentWrite := 1\<rparr>, w')
               \<and> calls w' = calls w @ [GlBindBuffer (fst (m_pbo this)),
                                        GlBufferSubData 0 (array_size P this), GlGetBufferParameteriv]
                     @ (if reported_size w (fst (m_pbo this)) = array_size P this then []
                        else [Fprintf ''WARNING: Pixel Buffer Object download failed!n''])
                     @ [GlBindBuffer Null]
               \<and> (has_bytes w (fst (m_pbo this)) (array_size P this)
                    \<longrightarrow> buffer w' (fst (m_pbo this)) = Some (map Some data))))
     \<and> (m_bUseSysMem this \<and> has_bytes w (m_hVel this) (array_size P this) \<longrightarrow>
           (\<exists>w'. setArray P BODYSYSTEM_VELOCITY data this w
                    = Inr (this\<lparr>m_currentRead := 0, m_currentWrite := 1\<rparr>, w')
               \<and> calls w' = calls w @ [HostMemcpy (m_hVel this) (array_size P this)]
               \<and> buffer w' (m_hVel this) = Some (map Some data)))
     \<and> (\<not> m_bUseSysMem this \<and> no_failure P \<and> m_deviceData this \<noteq> []
            \<and> has_bytes w (dVel (m_deviceData this ! 0)) (array_size P this) \<longrightarrow>
           (\<exists>w'. setArray P BODYSYSTEM_VELOCITY data this w
                    = Inr (this\<lparr>m_currentRead := 0, m_currentWrite := 1\<rparr>, w')
               \<and> calls w' = calls w @ [CudaMemcpyHostToDevice (dVel (m_deviceData this ! 0))
                                         (array_size P this)]
               \<and> buffer w' (dVel (m_deviceData this ! 0)) = Some (map Some data)))"
proof -
  let ?n = "array_size P this"
  have ab: "array_bytes P this = ?n" by (rule array_bytes_eq [OF assms(2)])
  have pb: "4 * sizeof_T P * unat (m_numBodies this) = ?n" by (rule array_bytes_pbo [OF assms(2)])
  have c1: "\<forall>array this' w'. setArray P array data this w = Inr (this', w')
            \<longrightarrow> this' = this\<lparr>m_currentRead := 0, m_currentWrite := 1\<rparr>"
    using setArray_Inr by blast
  have c2: "m_bUseSysMem this \<and> \<not> m_bUsePBO this \<and> has_bytes w (fst (m_hPos this)) ?n \<longrightarrow>
          (\<exists>w'. setArray P BODYSYSTEM_POSITION data this w
                   = Inr (this\<lparr>m_currentRead := 0, m_currentWrite := 1\<rparr>, w')
               \<and> calls w' = calls w @ [HostMemcpy (fst (m_hPos this)) ?n]
               \<and> buffer w' (fst (m_hPos this)) = Some (map Some data))"
    using setArray_position_sysmem [OF assms(1) _ _ _ ab assms(3)] by blast
  have c3: "\<not> m_bUseSysMem this \<and> \<not> m_bUsePBO this \<and> no_failure P \<and> m_deviceData this \<noteq> []
          \<and> has_bytes w (fst (dPos (m_deviceData this ! 0))) ?n \<longrightarrow>
          (\<exists>w'. setArray P BODYSYSTEM_POSITION data this w
                   = Inr (this\<lparr>m_currentRead := 0, m_currentWrite := 1\<rparr>, w')
               \<and> calls w' = calls w @ [CudaMemcpyHostToDevice (fst (dPos (m_deviceData this ! 0))) ?n]
               \<and> buffer w' (fst (dPos (m_deviceData this ! 0))) = Some (map Some data))"
    using setArray_position_device [OF assms(1) _ _ _ _ _ ab assms(3)] by blast
  have c4: "m_bUsePBO this \<longrightarrow>
          (\<exists>w'. setArray P BODYSYSTEM_POSITION data this w
                   = Inr (this\<lparr>m_currentRead := 0, m_currentWrite := 1\<rparr>, w')
               \<and> calls w' = calls w @ [GlBindBuffer (fst (m_pbo this)),
                                        GlBufferSubData 0 ?n, GlGetBufferParameteriv]
                     @ (if reported_size w (fst (m_pbo this)) = ?n then []
                        else [Fprintf ''WARNING: Pixel Buffer Object download failed!n''])
                     @ [GlBindBuffer Null]
               \<and> (has_bytes w (fst (m_pbo this)) ?n
                    \<longrightarrow> buffer w' (fst (m_pbo this)) = Some (map Some data)))"
    using setArray_position_pbo [OF assms(1) _ pb [symmetric] assms(3)] by blast
  note v = setArray_velocity [OF assms(1) ab assms(3), of w]
  show ?thesis by (intro conjI c1 c2 c3 c4 conjunct1 [OF v] conjunct2 [OF v])
qed

text \<open>
  Concrete instances of C6 as amended: the objects constructed on the example platform
  for 100000 bodies on two devices, in the three modes, and an array of 1600000 bytes;
  the render buffer has the expected size, so no warning is printed.
\<close>

theorem setArray_effects_witness:
  "(\<exists>this w w'. BodySystemCUDA_ctor example_platform 100000 2 256 False True True 0 empty_world = Inr (this, w)
       \<and> setArray example_platform BODYSYSTEM_POSITION (map of_nat [0..<1600000]) this w
            = Inr (this\<lparr>m_currentRead := 0, m_currentWrite := 1\<rparr>, w')
       \<and> calls w' = calls w @ [HostMemcpy (fst (m_hPos this)) 1600000]
       \<and> buffer w' (fst (m_hPos this)) = Some (map Some (map of_nat [0..<1600000])))
 \<and> (\<exists>this w w'. BodySystemCUDA_ctor example_platform 100000 2 256 False False True 0 empty_world = Inr (this, w)
       \<and> setArray example_platform BODYSYSTEM_POSITION (map of_nat [0..<1600000]) this w
            = Inr (this\<lparr>m_currentRead := 0, m_currentWrite := 1\<rparr>, w')
       \<and> calls w' = calls w @ [CudaMemcpyHostToDevice (fst (dPos (m_deviceData this ! 0))) 1600000]
       \<and> buffer w' (fst (dPos (m_deviceData this ! 0))) = Some (map Some (map of_nat [0..<1600000])))
 \<and> (\<exists>this w w'. BodySystemCUDA_ctor example_platform 100000 2 256 True False True 0 empty_world = Inr (this, w)
       \<and> setArray example_platform BODYSYSTEM_POSITION (map of_nat [0..<1600000]) this w
            = Inr (this\<lparr>m_currentRead := 0, m_currentWrite := 1\<rparr>, w')
       \<and> calls w' = calls w @ [GlBindBuffer (fst (m_pbo this)), GlBufferSubData 0 1600000,
                                GlGetBufferParameteriv, GlBindBuffer Null]
       \<and> buffer w' (fst (m_pbo this)) = Some (map Some (map of_nat [0..<1600000])))
 \<and> (\<exists>this w w'. BodySystemCUDA_ctor example_platform 100000 2 256 True False True 0 empty_world = Inr (this, w)
       \<and> setArray example_platform BODYSYSTEM_VELOCITY (map of_nat [0..<1600000]) this w
            = Inr (this\<lparr>m_currentRead := 0, m_currentWrite := 1\<rparr>, w')
       \<and> calls w' = calls w @ [CudaMemcpyHostToDevice (dVel (m_deviceData this ! 0)) 1600000])"
proof -
  let ?X = "map of_nat [0..<1600000] :: byte list"
  have l: "length ?X = 1600000" by simp
  have rs: "has_bytes w h n \<Longrightarrow> n < 2 ^ 32 \<Longrightarrow> reported_size w h = n" for w h n
    by (auto simp: has_bytes_def reported_size_def split: option.splits)
  note nf = no_failure_example
  have a: "\<exists>this w w'. BodySystemCUDA_ctor example_platform 100000 2 256 False True True 0 empty_world = Inr (this, w)
       \<and> setArray example_platform BODYSYSTEM_POSITION ?X this w
            = Inr (this\<lparr>m_currentRead := 0, m_currentWrite := 1\<rparr>, w')
       \<and> calls w' = calls w @ [HostMemcpy (fst (m_hPos this)) 1600000]
       \<and> buffer w' (fst (m_hPos this)) = Some (map Some ?X)"
  proof -
    from ctor_example_well_formed [of False True 100000] obtain this w where
      c: "BodySystemCUDA_ctor example_platform 100000 2 256 False True True 0 empty_world = Inr (this, w)"
      and wf: "well_formed example_platform this w"
      and n: "array_size example_platform this = 1600000"
      and f: "m_bInitialized this" "m_bUseSysMem this" "\<not> m_bUsePBO this" by auto
    from wf f have h: "has_bytes w (fst (m_hPos this)) 1600000" by (simp add: well_formed_def Let_def n)
    from setArray_effects [OF f(1), of example_platform ?X w] f h
    show ?thesis using c by (auto simp: n)
  qed
  have b: "\<exists>this w w'. BodySystemCUDA_ctor example_platform 100000 2 256 False False True 0 empty_world = Inr (this, w)
       \<and> setArray example_platform BODYSYSTEM_POSITION ?X this w
            = Inr (this\<lparr>m_currentRead := 0, m_currentWrite := 1\<rparr>, w')
       \<and> calls w' = calls w @ [CudaMemcpyHostToDevice (fst (dPos (m_deviceData this ! 0))) 1600000]
       \<and> buffer w' (fst (dPos (m_deviceData this ! 0))) = Some (map Some ?X)"
  proof -
    from ctor_example_well_formed [of False False 100000] obtain this w where
      c: "BodySystemCUDA_ctor example_platform 100000 2 256 False False True 0 empty_world = Inr (this, w)"
      and wf: "well_formed example_platform this w"
      and n: "array_size example_platform this = 1600000"
      and f: "m_bInitialized this" "\<not> m_bUseSysMem this" "\<not> m_bUsePBO this" by auto
    from wf f have h: "has_bytes w (fst (dPos (m_deviceData this ! 0))) 1600000" "m_deviceData this \<noteq> []"
      by (simp_all add: well_formed_def Let_def n)
    from setArray_effects [OF f(1), of example_platform ?X w] f h nf
    show ?thesis using c by (auto simp: n)
  qed
  have d: "\<exists>this w w'. BodySystemCUDA_ctor example_platform 100000 2 256 True False True 0 empty_world = Inr (this, w)
       \<and> setArray example_platform BODYSYSTEM_POSITION ?X this w
            = Inr (this\<lparr>m_currentRead := 0, m_currentWrite := 1\<rparr>, w')
       \<and> calls w' = calls w @ [GlBindBuffer (fst (m_pbo this)), GlBufferSubData 0 1600000,
                                GlGetBufferParameteriv, GlBindBuffer Null]
       \<and> buffer w' (fst (m_pbo this)) = Some (map Some ?X)"
  proof -
    from ctor_example_well_formed [of True False 100000] obtain this w where
      c: "BodySystemCUDA_ctor example_platform 100000 2 256 True False True 0 empty_world = Inr (this, w)"
      and wf: "well_formed example_platform this w"
      and n: "array_size example_platform this = 1600000"
      and f: "m_bInitialized this" "\<not> m_bUseSysMem this" "m_bUsePBO this" by auto
    from wf f have h: "has_bytes w (fst (m_pbo this)) 1600000"
      by (simp_all add: well_formed_def Let_def n)
    have r: "reported_size w (fst (m_pbo this)) = 1600000" by (rule rs [OF h]) simp
    from setArray_effects [OF f(1), of example_platform ?X w] f h
    show ?thesis using c by (auto simp: n r)
  qed
  have e: "\<exists>this w w'. BodySystemCUDA_ctor example_platform 100000 2 256 True False True 0 empty_world = Inr (this, w)
       \<and> setArray example_platform BODYSYSTEM_VELOCITY ?X this w
            = Inr (this\<lparr>m_currentRead := 0, m_currentWrite := 1\<rparr>, w')
       \<and> calls w' = calls w @ [CudaMemcpyHostToDevice (dVel (m_deviceData this ! 0)) 1600000]"
  proof -
    from ctor_example_well_formed [of True False 100000] obtain this w where
      c: "BodySystemCUDA_ctor example_platform 100000 2 256 True False True 0 empty_world = Inr (this, w)"
      and wf: "well_formed example_platform this w"
      and n: "array_size example_platform this = 1600000"
      and f: "m_bInitialized this" "\<not> m_bUseSysMem this" "m_bUsePBO this" by auto
    from wf f have h: "has_bytes w (dVel (m_deviceData this ! 0)) 1600000" "m_deviceData this \<noteq> []"
      by (simp_all add: well_formed_def Let_def n)
    from setArray_effects [OF f(1), of example_platform ?X w] f h nf
    show ?thesis using c by (auto simp: n)
  qed
  show ?thesis by (intro conjI a b d e)
qed





end
